theory Spec2Isabelle
  imports Main "HOL-Library.Sublist"
begin

section \<open>JavaScript values\<close>

text \<open>
  The server of \<^verbatim>\<open>src/flowmcp-server.ts\<close> handles JSON values: request bodies, tool
  arguments and the responses of the remote API. \<open>JUndefined\<close> is JavaScript's
  \<^verbatim>\<open>undefined\<close> (a missing property, an omitted argument). A number is a safe integer,
  one that JavaScript holds and prints exactly (below \<open>2^53\<close> in absolute value); numbers
  with a fraction and larger ones are outside the model. An object is the list of its own
  properties in enumeration order; a property is looked up by its first entry.
\<close>

datatype json =
    JUndefined
  | JNull
  | JBool bool
  | JNum int
  | JStr string
  | JArr "json list"
  | JObj "(string \<times> json) list"

datatype js_path = Key string | Idx nat

text \<open>Characters that cannot be written inside a string literal.\<close>

abbreviation dq :: char where "dq \<equiv> CHR 0x22"
abbreviation bsl :: char where "bsl \<equiv> CHR 0x5C"
abbreviation nl :: char where "nl \<equiv> CHR 0x0A"
abbreviation sq :: char where "sq \<equiv> CHR 0x27"

text \<open>\<^verbatim>\<open>xs.join(sep)\<close> on an array of strings.\<close>

fun join :: "string \<Rightarrow> string list \<Rightarrow> string" where
  "join sep [] = []"
| "join sep [x] = x"
| "join sep (x # y # ys) = x @ sep @ join sep (y # ys)"

text \<open>
  The decimal digits of a number, as \<^verbatim>\<open>String(n)\<close> prints a safe integer. (From
  \<open>10^21\<close> on JavaScript prints an exponent, and above \<open>2^53\<close> it has rounded the digits:
  such numbers are not values of the model.)
\<close>

fun string_of_nat :: "nat \<Rightarrow> string" where
  "string_of_nat n =
     (if n < 10 then [''0123456789'' ! n]
      else string_of_nat (n div 10) @ [''0123456789'' ! (n mod 10)])"

declare string_of_nat.simps [simp del]

definition string_of_int :: "int \<Rightarrow> string" where
  "string_of_int i = (if i < 0 then CHR ''-'' # string_of_nat (nat (- i)) else string_of_nat (nat i))"

text \<open>
  Property access \<^verbatim>\<open>v.k\<close> for the property names this program reads (none of them is
  a built-in property of an array or a primitive): the own property of an object, and
  \<^verbatim>\<open>undefined\<close> elsewhere. On \<^verbatim>\<open>null\<close> and \<^verbatim>\<open>undefined\<close> the access throws; \<open>nullish\<close>
  is that test, made by the callers.
\<close>

fun js_get :: "json \<Rightarrow> string \<Rightarrow> json" where
  "js_get (JObj kvs) k = (case map_of kvs k of None \<Rightarrow> JUndefined | Some v \<Rightarrow> v)"
| "js_get _ k = JUndefined"

fun nullish :: "json \<Rightarrow> bool" where
  "nullish JUndefined = True"
| "nullish JNull = True"
| "nullish _ = False"

text \<open>Truthiness, as \<^verbatim>\<open>if (v)\<close> and \<^verbatim>\<open>v && w\<close> test it.\<close>

fun truthy :: "json \<Rightarrow> bool" where
  "truthy JUndefined = False"
| "truthy JNull = False"
| "truthy (JBool b) = b"
| "truthy (JNum n) = (n \<noteq> 0)"
| "truthy (JStr s) = (s \<noteq> [])"
| "truthy (JArr xs) = True"
| "truthy (JObj kvs) = True"

text \<open>
  The string a template literal \<^verbatim>\<open>`${v}`\<close> puts in for a value that converts to one: a
  string as it is, an array as its elements joined by commas (\<^verbatim>\<open>null\<close> and \<^verbatim>\<open>undefined\<close>
  elements empty), an object as \<^verbatim>\<open>[object Object]\<close>. Not every value converts: an object
  with an own property \<^verbatim>\<open>toString\<close> hides the method of \<^verbatim>\<open>Object.prototype\<close> by a value
  that cannot be called (a JSON value never can), and the conversion throws; so it does
  for an array with such an element. \<open>convertible\<close> is that test; the conversion that
  throws is \<open>ToString\<close> below.
\<close>

fun js_to_string :: "json \<Rightarrow> string"
  and js_elements_to_string :: "json list \<Rightarrow> string list" where
  "js_to_string JUndefined = ''undefined''"
| "js_to_string JNull = ''null''"
| "js_to_string (JBool b) = (if b then ''true'' else ''false'')"
| "js_to_string (JNum n) = string_of_int n"
| "js_to_string (JStr s) = s"
| "js_to_string (JArr xs) = join '','' (js_elements_to_string xs)"
| "js_to_string (JObj kvs) = ''[object Object]''"
| "js_elements_to_string [] = []"
| "js_elements_to_string (x # xs) =
     (if nullish x then [] else js_to_string x) # js_elements_to_string xs"

fun convertible :: "json \<Rightarrow> bool"
  and convertible_elements :: "json list \<Rightarrow> bool" where
  "convertible JUndefined = True"
| "convertible JNull = True"
| "convertible (JBool b) = True"
| "convertible (JNum n) = True"
| "convertible (JStr s) = True"
| "convertible (JArr xs) = convertible_elements xs"
| "convertible (JObj kvs) = (map_of kvs ''toString'' = None)"
| "convertible_elements [] = True"
| "convertible_elements (x # xs) = ((nullish x \<or> convertible x) \<and> convertible_elements xs)"

subsection \<open>JSON.stringify\<close>

text \<open>
  \<^verbatim>\<open>JSON.stringify(value, null, n)\<close> as ECMAScript defines it on the values above. A
  string is quoted with the escapes of QuoteJSONString; \<open>gap\<close> is the indentation unit
  (\<open>n\<close> spaces, empty when no indentation is asked for), \<open>ind\<close> the current indentation.
  A property whose value is \<^verbatim>\<open>undefined\<close> is left out of an object, an \<^verbatim>\<open>undefined\<close>
  array element is written \<^verbatim>\<open>null\<close>, and \<^verbatim>\<open>undefined\<close> itself has no serialization.
\<close>

definition hex_digit :: "nat \<Rightarrow> char" where
  "hex_digit n = ''0123456789abcdef'' ! n"

definition quote_char :: "char \<Rightarrow> string" where
  "quote_char c =
     (if c = CHR 0x08 then [bsl, CHR ''b'']
      else if c = CHR 0x09 then [bsl, CHR ''t'']
      else if c = CHR 0x0A then [bsl, CHR ''n'']
      else if c = CHR 0x0C then [bsl, CHR ''f'']
      else if c = CHR 0x0D then [bsl, CHR ''r'']
      else if c = dq then [bsl, dq]
      else if c = bsl then [bsl, bsl]
      else if (of_char c :: nat) < 32
        then [bsl, CHR ''u'', CHR ''0'', CHR ''0'',
              hex_digit ((of_char c :: nat) div 16), hex_digit ((of_char c :: nat) mod 16)]
      else [c])"

definition QuoteJSONString :: "string \<Rightarrow> string" where
  "QuoteJSONString s = dq # concat (map quote_char s) @ [dq]"

definition wrap_members :: "string \<Rightarrow> string \<Rightarrow> string \<Rightarrow> string \<Rightarrow> string list \<Rightarrow> string" where
  "wrap_members opening closing gap ind partial =
     (if partial = [] then opening @ closing
      else if gap = [] then opening @ join '','' partial @ closing
      else opening @ [nl] @ ind @ gap @ join ('','' @ [nl] @ ind @ gap) partial
             @ [nl] @ ind @ closing)"

fun SerializeJSONProperty :: "string \<Rightarrow> string \<Rightarrow> json \<Rightarrow> string option"
  and SerializeJSONArray :: "string \<Rightarrow> string \<Rightarrow> json list \<Rightarrow> string list"
  and SerializeJSONObject :: "string \<Rightarrow> string \<Rightarrow> (string \<times> json) list \<Rightarrow> string list" where
  "SerializeJSONProperty gap ind JUndefined = None"
| "SerializeJSONProperty gap ind JNull = Some ''null''"
| "SerializeJSONProperty gap ind (JBool b) = Some (if b then ''true'' else ''false'')"
| "SerializeJSONProperty gap ind (JNum n) = Some (string_of_int n)"
| "SerializeJSONProperty gap ind (JStr s) = Some (QuoteJSONString s)"
| "SerializeJSONProperty gap ind (JArr xs) =
     Some (wrap_members ''['' '']'' gap ind (SerializeJSONArray gap (ind @ gap) xs))"
| "SerializeJSONProperty gap ind (JObj kvs) =
     Some (wrap_members ''{'' ''}'' gap ind (SerializeJSONObject gap (ind @ gap) kvs))"
| "SerializeJSONArray gap ind [] = []"
| "SerializeJSONArray gap ind (x # xs) =
     (case SerializeJSONProperty gap ind x of None \<Rightarrow> ''null'' | Some s \<Rightarrow> s)
       # SerializeJSONArray gap ind xs"
| "SerializeJSONObject gap ind [] = []"
| "SerializeJSONObject gap ind ((k, v) # kvs) =
     (case SerializeJSONProperty gap ind v of
        None \<Rightarrow> SerializeJSONObject gap ind kvs
      | Some s \<Rightarrow>
          (QuoteJSONString k @ '':'' @ (if gap = [] then [] else '' '') @ s)
            # SerializeJSONObject gap ind kvs)"

text \<open>
  \<^verbatim>\<open>`${JSON.stringify(v, null, n)}`\<close>: the serialization inside a template literal, where
  the \<^verbatim>\<open>undefined\<close> that \<^verbatim>\<open>JSON.stringify(undefined)\<close> returns prints as \<^verbatim>\<open>undefined\<close>.
  \<open>n = 0\<close> is the call with one argument.
\<close>

definition JSON_stringify :: "nat \<Rightarrow> json \<Rightarrow> string" where
  "JSON_stringify n v =
     (case SerializeJSONProperty (replicate (min n 10) CHR '' '') [] v of
        None \<Rightarrow> ''undefined''
      | Some s \<Rightarrow> s)"

section \<open>Argument validation\<close>

text \<open>
  The schemas are built with the zod library (version 3: the source reads
  \<^verbatim>\<open>err.errors\<close>). \<open>zschema\<close> has the combinators the source uses; \<open>zparse\<close> is
  \<^verbatim>\<open>schema.parse(value)\<close> on them: an object schema checks its fields in declaration
  order, collects the issues of all of them, and returns the declared fields only
  (unknown keys are stripped, a field whose result is \<^verbatim>\<open>undefined\<close> is left out).
\<close>

datatype zschema =
    ZString
  | ZBoolean
  | ZNumber
  | ZEnum "string list"
  | ZArray zschema
  | ZOptional zschema
  | ZDefault zschema json
  | ZObject "(string \<times> zschema) list"

text \<open>
  An issue is the object zod builds for it: the data of the check that failed (its
  \<^verbatim>\<open>code\<close> and what the code comes with, in the order the library writes them), then
  the path of the value and the message.
\<close>

datatype zod_issue = Issue (issue_data: "(string \<times> json) list") (issue_path: "js_path list")

fun parsed_type :: "json \<Rightarrow> string" where
  "parsed_type JUndefined = ''undefined''"
| "parsed_type JNull = ''null''"
| "parsed_type (JBool b) = ''boolean''"
| "parsed_type (JNum n) = ''number''"
| "parsed_type (JStr s) = ''string''"
| "parsed_type (JArr xs) = ''array''"
| "parsed_type (JObj kvs) = ''object''"

definition joinValues :: "string list \<Rightarrow> string" where
  "joinValues vs = join '' | '' (map (\<lambda>v. [sq] @ v @ [sq]) vs)"

definition invalid_type :: "string \<Rightarrow> json \<Rightarrow> js_path list \<Rightarrow> zod_issue" where
  "invalid_type e v p =
     Issue [(''code'', JStr ''invalid_type''), (''expected'', JStr e),
            (''received'', JStr (parsed_type v))] p"

definition enum_invalid_type :: "string list \<Rightarrow> json \<Rightarrow> js_path list \<Rightarrow> zod_issue" where
  "enum_invalid_type vs v p =
     Issue [(''expected'', JStr (joinValues vs)), (''received'', JStr (parsed_type v)),
            (''code'', JStr ''invalid_type'')] p"

definition invalid_enum_value :: "string list \<Rightarrow> string \<Rightarrow> js_path list \<Rightarrow> zod_issue" where
  "invalid_enum_value vs s p =
     Issue [(''received'', JStr s), (''code'', JStr ''invalid_enum_value''),
            (''options'', JArr (map JStr vs))] p"

text \<open>The message zod's default error map gives an issue.\<close>

definition issue_message :: "zod_issue \<Rightarrow> string" where
  "issue_message i =
     (let d = JObj (issue_data i) in
      if js_get d ''code'' = JStr ''invalid_type'' then
        (if js_get d ''received'' = JStr ''undefined'' then ''Required''
         else ''Expected '' @ js_to_string (js_get d ''expected'') @ '', received ''
                @ js_to_string (js_get d ''received''))
      else if js_get d ''code'' = JStr ''invalid_enum_value'' then
        ''Invalid enum value. Expected ''
          @ (case js_get d ''options'' of
               JArr vs \<Rightarrow> joinValues (map js_to_string vs)
             | _ \<Rightarrow> [])
          @ '', received '' @ [sq] @ js_to_string (js_get d ''received'') @ [sq]
      else ''Invalid input'')"

fun path_json :: "js_path \<Rightarrow> json" where
  "path_json (Key k) = JStr k"
| "path_json (Idx i) = JNum (int i)"

definition issue_json :: "zod_issue \<Rightarrow> json" where
  "issue_json i =
     JObj (issue_data i @ [(''path'', JArr (map path_json (issue_path i))),
                           (''message'', JStr (issue_message i))])"

fun zparse :: "zschema \<Rightarrow> js_path list \<Rightarrow> json \<Rightarrow> zod_issue list + json"
  and zparse_items :: "zschema \<Rightarrow> js_path list \<Rightarrow> nat \<Rightarrow> json list \<Rightarrow> zod_issue list \<times> json list"
  and zparse_fields :: "(string \<times> zschema) list \<Rightarrow> js_path list \<Rightarrow> json \<Rightarrow> zod_issue list \<times> (string \<times> json) list"
  where
  "zparse ZString p v =
     (case v of JStr s \<Rightarrow> Inr v | _ \<Rightarrow> Inl [invalid_type ''string'' v p])"
| "zparse ZBoolean p v =
     (case v of JBool b \<Rightarrow> Inr v | _ \<Rightarrow> Inl [invalid_type ''boolean'' v p])"
| "zparse ZNumber p v =
     (case v of JNum n \<Rightarrow> Inr v | _ \<Rightarrow> Inl [invalid_type ''number'' v p])"
| "zparse (ZEnum vs) p v =
     (case v of
        JStr s \<Rightarrow> if s \<in> set vs then Inr v else Inl [invalid_enum_value vs s p]
      | _ \<Rightarrow> Inl [enum_invalid_type vs v p])"
| "zparse (ZArray t) p v =
     (case v of
        JArr xs \<Rightarrow>
          (case zparse_items t p 0 xs of
             ([], ys) \<Rightarrow> Inr (JArr ys)
           | (issues, ys) \<Rightarrow> Inl issues)
      | _ \<Rightarrow> Inl [invalid_type ''array'' v p])"
| "zparse (ZOptional t) p v = (if v = JUndefined then Inr JUndefined else zparse t p v)"
| "zparse (ZDefault t d) p v = (if v = JUndefined then zparse t p d else zparse t p v)"
| "zparse (ZObject shape) p v =
     (case v of
        JObj kvs \<Rightarrow>
          (case zparse_fields shape p v of
             ([], out) \<Rightarrow> Inr (JObj out)
           | (issues, out) \<Rightarrow> Inl issues)
      | _ \<Rightarrow> Inl [invalid_type ''object'' v p])"
| "zparse_items t p i [] = ([], [])"
| "zparse_items t p i (x # xs) =
     (case zparse t (p @ [Idx i]) x of
        Inl issues \<Rightarrow> (issues @ fst (zparse_items t p (Suc i) xs), snd (zparse_items t p (Suc i) xs))
      | Inr y \<Rightarrow> (fst (zparse_items t p (Suc i) xs), y # snd (zparse_items t p (Suc i) xs)))"
| "zparse_fields [] p v = ([], [])"
| "zparse_fields ((k, t) # shape) p v =
     (case zparse t (p @ [Key k]) (js_get v k) of
        Inl issues \<Rightarrow> (issues @ fst (zparse_fields shape p v), snd (zparse_fields shape p v))
      | Inr y \<Rightarrow>
          (fst (zparse_fields shape p v),
           if y = JUndefined then snd (zparse_fields shape p v)
           else (k, y) # snd (zparse_fields shape p v)))"

text \<open>What the program can throw: a \<^verbatim>\<open>ZodError\<close> with its issues, an \<^verbatim>\<open>Error\<close> with
  its message, and the \<^verbatim>\<open>TypeError\<close> of the JavaScript engine (with the wording of V8).\<close>

datatype js_error = ZodError "zod_issue list" | Error string | TypeError string

text \<open>\<^verbatim>\<open>error.message\<close>; a \<^verbatim>\<open>ZodError\<close> prints its issues as indented JSON.\<close>

fun error_message :: "js_error \<Rightarrow> string" where
  "error_message (ZodError issues) = JSON_stringify 2 (JArr (map issue_json issues))"
| "error_message (Error m) = m"
| "error_message (TypeError m) = m"

definition zod_parse :: "zschema \<Rightarrow> json \<Rightarrow> js_error + json" where
  "zod_parse schema v = (case zparse schema [] v of Inl issues \<Rightarrow> Inl (ZodError issues) | Inr d \<Rightarrow> Inr d)"

section \<open>The remote API and the effects of a handler\<close>

text \<open>
  The Infisical SDK is the remote API: the credential exchange
  (\<^verbatim>\<open>auth().universalAuth.login\<close>) and the secret-management operations. A call is the
  operation with the arguments the source passes. The API is a parameter of the model: it
  answers a call, given the calls made before it, with a rejection (the message of the
  error the SDK throws) or with a response. A handler's state holds the log of the calls
  it has made, so "no remote call" is "the log is unchanged".
\<close>

datatype remote_op =
    universalAuth_login
  | secrets_createSecret
  | secrets_deleteSecret
  | secrets_updateSecret
  | secrets_listSecrets
  | secrets_getSecret
  | projects_create
  | projects_listProjects
  | environments_create
  | folders_create
  | projects_inviteMembers

type_synonym remote_call = "remote_op \<times> json list"

type_synonym remote_api = "remote_call list \<Rightarrow> remote_call \<Rightarrow> string + json"

text \<open>The environment variables read at startup, and the version of \<^verbatim>\<open>package.json\<close>.\<close>

record config =
  INFISICAL_UNIVERSAL_AUTH_CLIENT_ID :: string
  INFISICAL_UNIVERSAL_AUTH_CLIENT_SECRET :: string
  INFISICAL_HOST_URL :: string
  packageJson_version :: string

definition login_call :: "config \<Rightarrow> remote_call" where
  "login_call env =
     (universalAuth_login,
      [JObj [(''clientId'', JStr (INFISICAL_UNIVERSAL_AUTH_CLIENT_ID env)),
             (''clientSecret'', JStr (INFISICAL_UNIVERSAL_AUTH_CLIENT_SECRET env))]])"

text \<open>
  An \<^verbatim>\<open>async\<close> computation over a state \<open>'s\<close>: it throws (\<open>Inl\<close>) or returns (\<open>Inr\<close>), and
  leaves a state. \<open>bind\<close> is sequencing (a thrown error skips the rest), \<open>catch\<close> is
  \<^verbatim>\<open>try { ... } catch (e) { ... }\<close>.
\<close>

type_synonym ('s, 'a) io = "'s \<Rightarrow> (js_error + 'a) \<times> 's"

definition ret :: "'a \<Rightarrow> ('s, 'a) io" where
  "ret x = (\<lambda>s. (Inr x, s))"

definition throw :: "js_error \<Rightarrow> ('s, 'a) io" where
  "throw e = (\<lambda>s. (Inl e, s))"

definition lift :: "js_error + 'a \<Rightarrow> ('s, 'a) io" where
  "lift r = (\<lambda>s. (r, s))"

definition bind :: "('s, 'a) io \<Rightarrow> ('a \<Rightarrow> ('s, 'b) io) \<Rightarrow> ('s, 'b) io" where
  "bind m f = (\<lambda>s. case m s of (Inl e, s') \<Rightarrow> (Inl e, s') | (Inr x, s') \<Rightarrow> f x s')"

definition catch :: "('s, 'a) io \<Rightarrow> (js_error \<Rightarrow> ('s, 'a) io) \<Rightarrow> ('s, 'a) io" where
  "catch m h = (\<lambda>s. case m s of (Inl e, s') \<Rightarrow> h e s' | (Inr x, s') \<Rightarrow> (Inr x, s'))"

text \<open>
  \<^verbatim>\<open>const { k } = v\<close> and \<^verbatim>\<open>v.k\<close>: both throw a \<^verbatim>\<open>TypeError\<close> on \<^verbatim>\<open>null\<close> and
  \<^verbatim>\<open>undefined\<close>; \<open>what\<close> is how the engine names \<open>v\<close> in the message.
\<close>

definition destructure :: "string \<Rightarrow> json \<Rightarrow> string \<Rightarrow> js_error + json" where
  "destructure what v k =
     (if nullish v
      then Inl (TypeError (''Cannot destructure property '' @ [sq] @ k @ [sq] @ '' of '' @ [sq]
                  @ what @ [sq] @ '' as it is '' @ js_to_string v @ ''.''))
      else Inr (js_get v k))"

definition member :: "json \<Rightarrow> string \<Rightarrow> js_error + json" where
  "member v k =
     (if nullish v
      then Inl (TypeError (''Cannot read properties of '' @ js_to_string v @ '' (reading '' @ [sq]
                  @ k @ [sq] @ '')''))
      else Inr (js_get v k))"

text \<open>
  The conversion of a value to a string, as a template literal and \<^verbatim>\<open>join\<close> make it: it
  throws a \<^verbatim>\<open>TypeError\<close> on a value that does not convert.
\<close>

definition ToString :: "json \<Rightarrow> js_error + string" where
  "ToString v =
     (if convertible v then Inr (js_to_string v)
      else Inl (TypeError ''Cannot convert object to primitive value''))"

text \<open>\<^verbatim>\<open>a ?? b\<close>\<close>

definition nullish_coalesce :: "json \<Rightarrow> json \<Rightarrow> json" where
  "nullish_coalesce a b = (if nullish a then b else a)"

text \<open>The result of a tool call: \<^verbatim>\<open>{ content: [{ type: "text", text: ... }] }\<close>.\<close>

datatype content_block = TextContent string

type_synonym tool_result = "content_block list"

section \<open>The HTTP variant\<close>

subsection \<open>Schemas\<close>

definition http_createSecretSchema :: zschema where
  "http_createSecretSchema = ZObject
     [(''projectId'', ZString),
      (''environmentSlug'', ZString),
      (''secretName'', ZString),
      (''secretValue'', ZOptional ZString),
      (''secretPath'', ZDefault ZString (JStr ''/''))]"

definition http_deleteSecretSchema :: zschema where
  "http_deleteSecretSchema = ZObject
     [(''projectId'', ZString),
      (''environmentSlug'', ZString),
      (''secretName'', ZString),
      (''secretPath'', ZDefault ZString (JStr ''/''))]"

definition http_updateSecretSchema :: zschema where
  "http_updateSecretSchema = ZObject
     [(''projectId'', ZString),
      (''environmentSlug'', ZString),
      (''secretName'', ZString),
      (''secretValue'', ZOptional ZString),
      (''secretPath'', ZDefault ZString (JStr ''/''))]"

definition http_listSecretsSchema :: zschema where
  "http_listSecretsSchema = ZObject
     [(''projectId'', ZString),
      (''environmentSlug'', ZString),
      (''secretPath'', ZDefault ZString (JStr ''/'')),
      (''expandSecretReferences'', ZOptional ZBoolean),
      (''includeImports'', ZOptional ZBoolean)]"

definition http_getSecretSchema :: zschema where
  "http_getSecretSchema = ZObject
     [(''projectId'', ZString),
      (''environmentSlug'', ZString),
      (''secretName'', ZString),
      (''secretPath'', ZDefault ZString (JStr ''/'')),
      (''expandSecretReferences'', ZOptional ZBoolean),
      (''includeImports'', ZOptional ZBoolean)]"

definition http_createProjectSchema :: zschema where
  "http_createProjectSchema = ZObject
     [(''projectName'', ZString),
      (''workspaceSlug'', ZOptional ZString),
      (''organizationId'', ZOptional ZString)]"

definition http_listProjectsSchema :: zschema where
  "http_listProjectsSchema = ZObject []"

definition http_createEnvironmentSchema :: zschema where
  "http_createEnvironmentSchema = ZObject
     [(''projectId'', ZString),
      (''environmentName'', ZString),
      (''environmentSlug'', ZOptional ZString)]"

definition http_createFolderSchema :: zschema where
  "http_createFolderSchema = ZObject
     [(''projectId'', ZString),
      (''environmentSlug'', ZString),
      (''secretPath'', ZDefault ZString (JStr ''/''))]"

definition http_inviteMembersToProjectSchema :: zschema where
  "http_inviteMembersToProjectSchema = ZObject
     [(''projectId'', ZString),
      (''emails'', ZArray ZString),
      (''roles'', ZOptional (ZArray ZString))]"

subsection \<open>Tool calls\<close>

text \<open>
  The state of the HTTP variant is the log of remote calls. \<open>await\<close> is a call through
  the SDK: the call is logged and the API's answer returned, a rejection as the thrown
  error. \<open>createAuthenticatedSdk\<close> builds a fresh SDK and logs in; a failed login is
  rethrown with the prefix of the source.
\<close>

definition await :: "remote_api \<Rightarrow> remote_call \<Rightarrow> (remote_call list, json) io" where
  "await api c =
     (\<lambda>log. (case api log c of Inl m \<Rightarrow> Inl (Error m) | Inr v \<Rightarrow> Inr v, log @ [c]))"

definition createAuthenticatedSdk :: "config \<Rightarrow> remote_api \<Rightarrow> (remote_call list, unit) io" where
  "createAuthenticatedSdk env api =
     catch (bind (await api (login_call env)) (\<lambda>authResult. ret ()))
           (\<lambda>error. throw (Error (''Authentication failed: '' @ error_message error)))"

definition http_create_secret :: "config \<Rightarrow> remote_api \<Rightarrow> json \<Rightarrow> (remote_call list, tool_result) io" where
  "http_create_secret env api args =
     bind (lift (zod_parse http_createSecretSchema args)) (\<lambda>createData.
     bind (createAuthenticatedSdk env api) (\<lambda>sdk.
     bind (await api (secrets_createSecret,
             [js_get createData ''secretName'',
              JObj [(''environment'', js_get createData ''environmentSlug''),
                    (''projectId'', js_get createData ''projectId''),
                    (''secretPath'', js_get createData ''secretPath''),
                    (''secretValue'', nullish_coalesce (js_get createData ''secretValue'') (JStr ''''))]]))
       (\<lambda>response.
     bind (lift (destructure ''(intermediate value)'' response ''secret'')) (\<lambda>secret.
     ret [TextContent (''Secret created successfully: '' @ JSON_stringify 3 secret)]))))"

definition http_delete_secret :: "config \<Rightarrow> remote_api \<Rightarrow> json \<Rightarrow> (remote_call list, tool_result) io" where
  "http_delete_secret env api args =
     bind (lift (zod_parse http_deleteSecretSchema args)) (\<lambda>deleteData.
     bind (createAuthenticatedSdk env api) (\<lambda>deleteSdk.
     bind (await api (secrets_deleteSecret,
             [js_get deleteData ''secretName'',
              JObj [(''environment'', js_get deleteData ''environmentSlug''),
                    (''projectId'', js_get deleteData ''projectId''),
                    (''secretPath'', js_get deleteData ''secretPath'')]]))
       (\<lambda>deletedSecret.
     bind (lift (member deletedSecret ''secretKey'')) (\<lambda>secretKey.
     bind (lift (ToString secretKey)) (\<lambda>key.
     ret [TextContent (''Secret deleted successfully: '' @ key)])))))"

definition http_update_secret :: "config \<Rightarrow> remote_api \<Rightarrow> json \<Rightarrow> (remote_call list, tool_result) io" where
  "http_update_secret env api args =
     bind (lift (zod_parse http_updateSecretSchema args)) (\<lambda>updateData.
     bind (createAuthenticatedSdk env api) (\<lambda>updateSdk.
     bind (await api (secrets_updateSecret,
             [js_get updateData ''secretName'',
              JObj [(''environment'', js_get updateData ''environmentSlug''),
                    (''projectId'', js_get updateData ''projectId''),
                    (''secretPath'', js_get updateData ''secretPath''),
                    (''secretValue'', nullish_coalesce (js_get updateData ''secretValue'') (JStr ''''))]]))
       (\<lambda>updatedSecret.
     ret [TextContent (''Secret updated successfully: '' @ JSON_stringify 3 updatedSecret)])))"

definition http_list_secrets :: "config \<Rightarrow> remote_api \<Rightarrow> json \<Rightarrow> (remote_call list, tool_result) io" where
  "http_list_secrets env api args =
     bind (lift (zod_parse http_listSecretsSchema args)) (\<lambda>listData.
     bind (createAuthenticatedSdk env api) (\<lambda>listSdk.
     bind (await api (secrets_listSecrets,
             [JObj [(''environment'', js_get listData ''environmentSlug''),
                    (''projectId'', js_get listData ''projectId''),
                    (''secretPath'', js_get listData ''secretPath''),
                    (''expandSecretReferences'', js_get listData ''expandSecretReferences''),
                    (''includeImports'', js_get listData ''includeImports'')]]))
       (\<lambda>secrets.
     ret [TextContent (''Secrets: '' @ JSON_stringify 3 secrets)])))"

text \<open>
  \<^verbatim>\<open>allSecrets.secrets.find(s => s.secretKey === getData.secretName)\<close>: the first element
  whose key is the name, \<^verbatim>\<open>undefined\<close> when there is none. It throws when
  \<^verbatim>\<open>allSecrets.secrets\<close> is not an array and when an element visited is \<^verbatim>\<open>null\<close>.
\<close>

fun find_secretKey :: "json list \<Rightarrow> json \<Rightarrow> js_error + json" where
  "find_secretKey [] name = Inr JUndefined"
| "find_secretKey (s # ss) name =
     (case member s ''secretKey'' of
        Inl e \<Rightarrow> Inl e
      | Inr k \<Rightarrow> if k = name then Inr s else find_secretKey ss name)"

definition secrets_find :: "json \<Rightarrow> json \<Rightarrow> js_error + json" where
  "secrets_find list name =
     (case list of
        JArr ss \<Rightarrow> find_secretKey ss name
      | JUndefined \<Rightarrow>
          Inl (TypeError (''Cannot read properties of undefined (reading '' @ [sq] @ ''find'' @ [sq] @ '')''))
      | JNull \<Rightarrow>
          Inl (TypeError (''Cannot read properties of null (reading '' @ [sq] @ ''find'' @ [sq] @ '')''))
      | _ \<Rightarrow> Inl (TypeError ''allSecrets.secrets.find is not a function''))"

definition http_get_secret :: "config \<Rightarrow> remote_api \<Rightarrow> json \<Rightarrow> (remote_call list, tool_result) io" where
  "http_get_secret env api args =
     bind (lift (zod_parse http_getSecretSchema args)) (\<lambda>getData.
     bind (createAuthenticatedSdk env api) (\<lambda>getSdk.
     bind (await api (secrets_listSecrets,
             [JObj [(''environment'', js_get getData ''environmentSlug''),
                    (''projectId'', js_get getData ''projectId''),
                    (''secretPath'', js_get getData ''secretPath''),
                    (''expandSecretReferences'', js_get getData ''expandSecretReferences''),
                    (''includeImports'', js_get getData ''includeImports'')]]))
       (\<lambda>allSecrets.
     bind (lift (member allSecrets ''secrets'')) (\<lambda>list.
     bind (lift (secrets_find list (js_get getData ''secretName''))) (\<lambda>foundSecret.
     if truthy foundSecret
     then ret [TextContent (''Secret: '' @ JSON_stringify 3 foundSecret)]
     else bind (lift (ToString (js_get getData ''secretName''))) (\<lambda>name.
          ret [TextContent (''Secret not found: '' @ name)]))))))"

definition http_create_project :: "config \<Rightarrow> remote_api \<Rightarrow> json \<Rightarrow> (remote_call list, tool_result) io" where
  "http_create_project env api args =
     bind (lift (zod_parse http_createProjectSchema args)) (\<lambda>projectData.
     bind (createAuthenticatedSdk env api) (\<lambda>projectSdk.
     bind (await api (projects_create,
             [JObj [(''name'', js_get projectData ''projectName''),
                    (''workspaceSlug'', js_get projectData ''workspaceSlug''),
                    (''organizationId'', js_get projectData ''organizationId'')]]))
       (\<lambda>project.
     ret [TextContent (''Project created successfully: '' @ JSON_stringify 3 project)])))"

definition http_list_projects :: "config \<Rightarrow> remote_api \<Rightarrow> (remote_call list, tool_result) io" where
  "http_list_projects env api =
     bind (createAuthenticatedSdk env api) (\<lambda>listProjectsSdk.
     bind (await api (projects_listProjects, [])) (\<lambda>projects.
     ret [TextContent (''Projects: '' @ JSON_stringify 3 projects)]))"

definition http_create_environment :: "config \<Rightarrow> remote_api \<Rightarrow> json \<Rightarrow> (remote_call list, tool_result) io" where
  "http_create_environment env api args =
     bind (lift (zod_parse http_createEnvironmentSchema args)) (\<lambda>envData.
     bind (createAuthenticatedSdk env api) (\<lambda>envSdk.
     bind (await api (environments_create,
             [JObj [(''projectId'', js_get envData ''projectId''),
                    (''name'', js_get envData ''environmentName''),
                    (''slug'', js_get envData ''environmentSlug'')]]))
       (\<lambda>environment.
     ret [TextContent (''Environment created successfully: '' @ JSON_stringify 3 environment)])))"

definition placeholder_note :: string where
  "placeholder_note =
     ''. Note: This functionality may need to be implemented based on your Infisical API version.''"

definition http_create_folder :: "json \<Rightarrow> (remote_call list, tool_result) io" where
  "http_create_folder args =
     bind (lift (zod_parse http_createFolderSchema args)) (\<lambda>folderData.
     bind (lift (ToString (js_get folderData ''secretPath''))) (\<lambda>path.
     ret [TextContent (''Folder creation request for path: '' @ path @ placeholder_note)]))"

text \<open>\<^verbatim>\<open>inviteData.emails.join(', ')\<close>: the elements converted to strings and joined.\<close>

definition array_join :: "string \<Rightarrow> json \<Rightarrow> js_error + string" where
  "array_join sep v =
     (case v of
        JArr xs \<Rightarrow>
          if convertible_elements xs then Inr (join sep (js_elements_to_string xs))
          else Inl (TypeError ''Cannot convert object to primitive value'')
      | _ \<Rightarrow> Inl (TypeError ''inviteData.emails.join is not a function''))"

definition http_invite_members_to_project :: "json \<Rightarrow> (remote_call list, tool_result) io" where
  "http_invite_members_to_project args =
     bind (lift (zod_parse http_inviteMembersToProjectSchema args)) (\<lambda>inviteData.
     bind (lift (ToString (js_get inviteData ''projectId''))) (\<lambda>projectId.
     bind (lift (array_join '', '' (js_get inviteData ''emails''))) (\<lambda>emails.
     ret [TextContent (''Member invitation request for project: ''
            @ projectId @ '', emails: '' @ emails @ placeholder_note)])))"

text \<open>\<^verbatim>\<open>FlowMCPHttpServer.handleToolCall(params)\<close>: the \<^verbatim>\<open>switch (name)\<close>.\<close>

definition handleToolCall :: "config \<Rightarrow> remote_api \<Rightarrow> json \<Rightarrow> (remote_call list, tool_result) io" where
  "handleToolCall env api params =
     bind (lift (destructure ''params'' params ''name'')) (\<lambda>name.
     bind (lift (destructure ''params'' params ''arguments'')) (\<lambda>args.
     if name = JStr ''create-secret'' then http_create_secret env api args
     else if name = JStr ''delete-secret'' then http_delete_secret env api args
     else if name = JStr ''update-secret'' then http_update_secret env api args
     else if name = JStr ''list-secrets'' then http_list_secrets env api args
     else if name = JStr ''get-secret'' then http_get_secret env api args
     else if name = JStr ''create-project'' then http_create_project env api args
     else if name = JStr ''list-projects'' then http_list_projects env api
     else if name = JStr ''create-environment'' then http_create_environment env api args
     else if name = JStr ''create-folder'' then http_create_folder args
     else if name = JStr ''invite-members-to-project'' then http_invite_members_to_project args
     else bind (lift (ToString name)) (\<lambda>tool.
          throw (Error (''Unknown tool: '' @ tool)))))"

subsection \<open>The tool catalog and the discovery document\<close>

text \<open>The \<^verbatim>\<open>tools\<close> array, entry by entry, and the document of \<^verbatim>\<open>GET /mcp\<close>.\<close>

definition http_tool_create_secret :: json where
  "http_tool_create_secret =
     JObj
      [(''name'', JStr ''create-secret''),
       (''description'', JStr ''Create a new secret in Infisical''),
       (''inputSchema'', JObj
         [(''type'', JStr ''object''),
          (''properties'', JObj
            [(''projectId'', JObj
               [(''type'', JStr ''string''),
                (''description'', JStr ''The ID of the project to create the secret in (required)'')]),
             (''environmentSlug'', JObj
               [(''type'', JStr ''string''),
                (''description'', JStr ''The slug of the environment to create the secret in (required)'')]),
             (''secretName'', JObj
               [(''type'', JStr ''string''),
                (''description'', JStr ''The name of the secret to create (required)'')]),
             (''secretValue'', JObj
               [(''type'', JStr ''string''),
                (''description'', JStr ''The value of the secret to create'')]),
             (''secretPath'', JObj
               [(''type'', JStr ''string''),
                (''description'', JStr ''The path of the secret to create (Defaults to /)''),
                (''default'', JStr ''/'')])]),
          (''required'', JArr [JStr ''projectId'', JStr ''environmentSlug'', JStr ''secretName''])])]"

definition http_tool_delete_secret :: json where
  "http_tool_delete_secret =
     JObj
      [(''name'', JStr ''delete-secret''),
       (''description'', JStr ''Delete a secret in Infisical''),
       (''inputSchema'', JObj
         [(''type'', JStr ''object''),
          (''properties'', JObj
            [(''projectId'', JObj
               [(''type'', JStr ''string''),
                (''description'', JStr ''The ID of the project to delete the secret from (required)'')]),
             (''environmentSlug'', JObj
               [(''type'', JStr ''string''),
                (''description'', JStr ''The slug of the environment to delete the secret from (required)'')]),
             (''secretName'', JObj
               [(''type'', JStr ''string''),
                (''description'', JStr ''The name of the secret to delete (required)'')]),
             (''secretPath'', JObj
               [(''type'', JStr ''string''),
                (''description'', JStr ''The path of the secret to delete (Defaults to /)''),
                (''default'', JStr ''/'')])]),
          (''required'', JArr [JStr ''projectId'', JStr ''environmentSlug'', JStr ''secretName''])])]"

definition http_tool_list_secrets :: json where
  "http_tool_list_secrets =
     JObj
      [(''name'', JStr ''list-secrets''),
       (''description'', JStr ''List all secrets in an environment''),
       (''inputSchema'', JObj
         [(''type'', JStr ''object''),
          (''properties'', JObj
            [(''projectId'', JObj
               [(''type'', JStr ''string''),
                (''description'', JStr ''The ID of the project to list secrets from (required)'')]),
             (''environmentSlug'', JObj
               [(''type'', JStr ''string''),
                (''description'', JStr ''The slug of the environment to list secrets from (required)'')]),
             (''secretPath'', JObj
               [(''type'', JStr ''string''),
                (''description'', JStr ''The path to list secrets from (Defaults to /)''),
                (''default'', JStr ''/'')]),
             (''expandSecretReferences'', JObj
               [(''type'', JStr ''boolean''),
                (''description'', JStr ''Whether to expand secret references'')]),
             (''includeImports'', JObj
               [(''type'', JStr ''boolean''),
                (''description'', JStr ''Whether to include imported secrets'')])]),
          (''required'', JArr [JStr ''projectId'', JStr ''environmentSlug''])])]"

definition http_tool_get_secret :: json where
  "http_tool_get_secret =
     JObj
      [(''name'', JStr ''get-secret''),
       (''description'', JStr ''Get a specific secret''),
       (''inputSchema'', JObj
         [(''type'', JStr ''object''),
          (''properties'', JObj
            [(''projectId'', JObj
               [(''type'', JStr ''string''),
                (''description'', JStr ''The ID of the project to get the secret from (required)'')]),
             (''environmentSlug'', JObj
               [(''type'', JStr ''string''),
                (''description'', JStr ''The slug of the environment to get the secret from (required)'')]),
             (''secretName'', JObj
               [(''type'', JStr ''string''),
                (''description'', JStr ''The name of the secret to get (required)'')]),
             (''secretPath'', JObj
               [(''type'', JStr ''string''),
                (''description'', JStr ''The path of the secret to get (Defaults to /)''),
                (''default'', JStr ''/'')]),
             (''expandSecretReferences'', JObj
               [(''type'', JStr ''boolean''),
                (''description'', JStr ''Whether to expand secret references'')]),
             (''includeImports'', JObj
               [(''type'', JStr ''boolean''),
                (''description'', JStr ''Whether to include imported secrets'')])]),
          (''required'', JArr [JStr ''projectId'', JStr ''environmentSlug'', JStr ''secretName''])])]"

definition http_tool_create_project :: json where
  "http_tool_create_project =
     JObj
      [(''name'', JStr ''create-project''),
       (''description'', JStr ''Create a new project''),
       (''inputSchema'', JObj
         [(''type'', JStr ''object''),
          (''properties'', JObj
            [(''projectName'', JObj
               [(''type'', JStr ''string''),
                (''description'', JStr ''The name of the project to create (required)'')]),
             (''workspaceSlug'', JObj
               [(''type'', JStr ''string''),
                (''description'', JStr ''The workspace slug for the project'')]),
             (''organizationId'', JObj
               [(''type'', JStr ''string''),
                (''description'', JStr ''The organization ID for the project'')])]),
          (''required'', JArr [JStr ''projectName''])])]"

definition http_tool_list_projects :: json where
  "http_tool_list_projects =
     JObj
      [(''name'', JStr ''list-projects''),
       (''description'', JStr ''List all accessible projects''),
       (''inputSchema'', JObj
         [(''type'', JStr ''object''),
          (''properties'', JObj []),
          (''required'', JArr [])])]"

definition http_tool_create_environment :: json where
  "http_tool_create_environment =
     JObj
      [(''name'', JStr ''create-environment''),
       (''description'', JStr ''Create a new environment''),
       (''inputSchema'', JObj
         [(''type'', JStr ''object''),
          (''properties'', JObj
            [(''projectId'', JObj
               [(''type'', JStr ''string''),
                (''description'', JStr ''The ID of the project to create the environment in (required)'')]),
             (''environmentName'', JObj
               [(''type'', JStr ''string''),
                (''description'', JStr ''The name of the environment to create (required)'')]),
             (''environmentSlug'', JObj
               [(''type'', JStr ''string''),
                (''description'', JStr ''The slug of the environment to create'')])]),
          (''required'', JArr [JStr ''projectId'', JStr ''environmentName''])])]"

definition http_tool_create_folder :: json where
  "http_tool_create_folder =
     JObj
      [(''name'', JStr ''create-folder''),
       (''description'', JStr ''Create a folder''),
       (''inputSchema'', JObj
         [(''type'', JStr ''object''),
          (''properties'', JObj
            [(''projectId'', JObj
               [(''type'', JStr ''string''),
                (''description'', JStr ''The ID of the project to create the folder in (required)'')]),
             (''environmentSlug'', JObj
               [(''type'', JStr ''string''),
                (''description'', JStr ''The slug of the environment to create the folder in (required)'')]),
             (''secretPath'', JObj
               [(''type'', JStr ''string''),
                (''description'', JStr ''The path where to create the folder (Defaults to /)''),
                (''default'', JStr ''/'')])]),
          (''required'', JArr [JStr ''projectId'', JStr ''environmentSlug''])])]"

definition http_tool_invite_members_to_project :: json where
  "http_tool_invite_members_to_project =
     JObj
      [(''name'', JStr ''invite-members-to-project''),
       (''description'', JStr ''Invite members to a project''),
       (''inputSchema'', JObj
         [(''type'', JStr ''object''),
          (''properties'', JObj
            [(''projectId'', JObj
               [(''type'', JStr ''string''),
                (''description'', JStr ''The ID of the project to invite members to (required)'')]),
             (''emails'', JObj
               [(''type'', JStr ''array''),
                (''items'', JObj [(''type'', JStr ''string'')]),
                (''description'', JStr ''Array of email addresses to invite (required)'')]),
             (''roles'', JObj
               [(''type'', JStr ''array''),
                (''items'', JObj [(''type'', JStr ''string'')]),
                (''description'', JStr ''Array of roles to assign to the invited members'')])]),
          (''required'', JArr [JStr ''projectId'', JStr ''emails''])])]"

definition tools :: "json list" where
  "tools =
     [http_tool_create_secret,
      http_tool_delete_secret,
      http_tool_list_secrets,
      http_tool_get_secret,
      http_tool_create_project,
      http_tool_list_projects,
      http_tool_create_environment,
      http_tool_create_folder,
      http_tool_invite_members_to_project]"


definition mcp_discovery :: json where
  "mcp_discovery =
     JObj
      [(''name'', JStr ''Infisical MCP Server''),
       (''version'', JStr ''1.0.0''),
       (''description'', JStr ''Official Infisical MCP Server for secrets management''),
       (''protocol'', JStr ''MCP JSON-RPC over HTTP''),
       (''endpoints'', JObj
          [(''mcp'', JStr ''/mcp''), (''health'', JStr ''/health''), (''ready'', JStr ''/ready'')]),
       (''capabilities'', JObj [(''tools'', JObj []), (''secrets'', JObj [])]),
       (''tools'', JArr
          [JStr ''create-secret'', JStr ''delete-secret'', JStr ''list-secrets'',
           JStr ''get-secret'', JStr ''create-project'', JStr ''list-projects'',
           JStr ''create-environment'', JStr ''create-folder'', JStr ''invite-members-to-project''])]"

subsection \<open>JSON-RPC dispatch\<close>

text \<open>
  \<^verbatim>\<open>handleJsonRpcRequest(req, res)\<close> on the parsed body of a POST. The response is the
  status and the JSON body sent (\<open>None\<close> for \<^verbatim>\<open>res.status(204).send()\<close>); a property
  that is \<^verbatim>\<open>undefined\<close>, as \<^verbatim>\<open>id\<close> is for a body without one, is kept in the object and
  dropped when it is serialized. The console logging is not modelled.
\<close>

record http_response =
  status :: nat
  body :: "json option"

definition res_json :: "nat \<Rightarrow> json \<Rightarrow> http_response" where
  "res_json code b = \<lparr>status = code, body = Some b\<rparr>"

definition tool_result_json :: "tool_result \<Rightarrow> json" where
  "tool_result_json r =
     JObj [(''content'',
            JArr (map (\<lambda>c. case c of TextContent t \<Rightarrow> JObj [(''type'', JStr ''text''), (''text'', JStr t)]) r))]"

definition rpc_dispatch :: "config \<Rightarrow> remote_api \<Rightarrow> json \<Rightarrow> (remote_call list, http_response) io" where
  "rpc_dispatch env api req_body =
     bind (lift (destructure ''req.body'' req_body ''method'')) (\<lambda>rpc_method.
     bind (lift (destructure ''req.body'' req_body ''params'')) (\<lambda>params.
     bind (lift (destructure ''req.body'' req_body ''id'')) (\<lambda>id.
     if rpc_method = JStr ''initialize'' then
       ret (res_json 200 (JObj
         [(''jsonrpc'', JStr ''2.0''),
          (''result'', JObj
             [(''protocolVersion'', JStr ''2024-11-05''),
              (''capabilities'', JObj
                 [(''tools'', JObj []), (''logging'', JObj []), (''streaming'', JBool True)]),
              (''serverInfo'', JObj
                 [(''name'', JStr ''Infisical FlowMCP HTTP Server''),
                  (''version'', JStr (packageJson_version env))])]),
          (''id'', id)]))
     else if rpc_method = JStr ''notifications/initialized'' then
       ret \<lparr>status = 204, body = None\<rparr>
     else if rpc_method = JStr ''tools/list'' then
       ret (res_json 200 (JObj
         [(''jsonrpc'', JStr ''2.0''),
          (''result'', JObj [(''tools'', JArr tools)]),
          (''id'', id)]))
     else if rpc_method = JStr ''tools/call'' then
       bind (handleToolCall env api params) (\<lambda>result.
       ret (res_json 200 (JObj
         [(''jsonrpc'', JStr ''2.0''),
          (''result'', tool_result_json result),
          (''id'', id)])))
     else
       bind (lift (ToString rpc_method)) (\<lambda>name.
       ret (res_json 404 (JObj
         [(''jsonrpc'', JStr ''2.0''),
          (''error'', JObj
             [(''code'', JNum (- 32601)),
              (''message'', JStr (''Method not found: '' @ name))]),
          (''id'', id)]))))))"

definition handleJsonRpcRequest ::
  "config \<Rightarrow> remote_api \<Rightarrow> json \<Rightarrow> remote_call list \<Rightarrow> http_response \<times> remote_call list" where
  "handleJsonRpcRequest env api req_body log =
     (case rpc_dispatch env api req_body log of
        (Inr response, log') \<Rightarrow> (response, log')
      | (Inl error, log') \<Rightarrow>
          (res_json 500 (JObj
             [(''jsonrpc'', JStr ''2.0''),
              (''error'', JObj
                 [(''code'', JNum (- 32603)),
                  (''message'', JStr (''Internal error: '' @ error_message error))]),
              (''id'', if nullish req_body then JUndefined else js_get req_body ''id'')]),
           log'))"

section \<open>The stdio variant\<close>

subsection \<open>Schemas and capabilities\<close>

definition stdio_createSecretSchema :: zschema where
  "stdio_createSecretSchema = ZObject
     [(''projectId'', ZString),
      (''environmentSlug'', ZString),
      (''secretName'', ZString),
      (''secretValue'', ZOptional ZString),
      (''secretPath'', ZDefault ZString (JStr ''/''))]"

definition stdio_deleteSecretSchema :: zschema where
  "stdio_deleteSecretSchema = ZObject
     [(''projectId'', ZString),
      (''environmentSlug'', ZString),
      (''secretPath'', ZDefault ZString (JStr ''/'')),
      (''secretName'', ZString)]"

definition stdio_updateSecretSchema :: zschema where
  "stdio_updateSecretSchema = ZObject
     [(''projectId'', ZString),
      (''environmentSlug'', ZString),
      (''secretName'', ZString),
      (''newSecretName'', ZOptional ZString),
      (''secretValue'', ZOptional ZString),
      (''secretPath'', ZDefault ZString (JStr ''/''))]"

definition stdio_listSecretsSchema :: zschema where
  "stdio_listSecretsSchema = ZObject
     [(''projectId'', ZString),
      (''environmentSlug'', ZString),
      (''secretPath'', ZDefault ZString (JStr ''/'')),
      (''expandSecretReferences'', ZDefault ZBoolean (JBool True)),
      (''includeImports'', ZDefault ZBoolean (JBool True))]"

definition stdio_getSecretSchema :: zschema where
  "stdio_getSecretSchema = ZObject
     [(''secretName'', ZString),
      (''projectId'', ZString),
      (''environmentSlug'', ZString),
      (''secretPath'', ZDefault ZString (JStr ''/'')),
      (''expandSecretReferences'', ZDefault ZBoolean (JBool True)),
      (''includeImports'', ZDefault ZBoolean (JBool True))]"

definition stdio_createProjectSchema :: zschema where
  "stdio_createProjectSchema = ZObject
     [(''projectName'', ZString),
      (''type'', ZEnum [''secret-manager'', ''cert-manager'', ''kms'', ''ssh'']),
      (''description'', ZOptional ZString),
      (''slug'', ZOptional ZString),
      (''projectTemplate'', ZOptional ZString),
      (''kmsKeyId'', ZOptional ZString)]"

definition stdio_createEnvironmentSchema :: zschema where
  "stdio_createEnvironmentSchema = ZObject
     [(''projectId'', ZString),
      (''name'', ZString),
      (''slug'', ZString),
      (''position'', ZOptional ZNumber)]"

definition stdio_createFolderSchema :: zschema where
  "stdio_createFolderSchema = ZObject
     [(''description'', ZOptional ZString),
      (''environment'', ZString),
      (''name'', ZString),
      (''path'', ZDefault ZString (JStr ''/'')),
      (''projectId'', ZString)]"

definition stdio_inviteMembersToProjectSchema :: zschema where
  "stdio_inviteMembersToProjectSchema = ZObject
     [(''projectId'', ZString),
      (''emails'', ZOptional (ZArray ZString)),
      (''usernames'', ZOptional (ZArray ZString)),
      (''roleSlugs'', ZOptional (ZArray ZString))]"

definition stdio_createSecretSchema_capability :: json where
  "stdio_createSecretSchema_capability =
     JObj
      [(''name'', JStr ''create-secret''),
       (''description'', JStr ''Create a new secret in Infisical''),
       (''inputSchema'', JObj
         [(''type'', JStr ''object''),
          (''properties'', JObj
            [(''projectId'', JObj
               [(''type'', JStr ''string''),
                (''description'', JStr ''The ID of the project to create the secret in (required)'')]),
             (''environmentSlug'', JObj
               [(''type'', JStr ''string''),
                (''description'', JStr ''The slug of the environment to create the secret in (required)'')]),
             (''secretName'', JObj
               [(''type'', JStr ''string''),
                (''description'', JStr ''The name of the secret to create (required)'')]),
             (''secretValue'', JObj
               [(''type'', JStr ''string''),
                (''description'', JStr ''The value of the secret to create'')]),
             (''secretPath'', JObj
               [(''type'', JStr ''string''),
                (''description'', JStr ''The path of the secret to create (Defaults to /)'')])]),
          (''required'', JArr [JStr ''projectId'', JStr ''environmentSlug'', JStr ''secretName''])])]"

definition stdio_deleteSecretSchema_capability :: json where
  "stdio_deleteSecretSchema_capability =
     JObj
      [(''name'', JStr ''delete-secret''),
       (''description'', JStr ''Delete a secret in Infisical''),
       (''inputSchema'', JObj
         [(''type'', JStr ''object''),
          (''properties'', JObj
            [(''projectId'', JObj
               [(''type'', JStr ''string''),
                (''description'', JStr ''The ID of the project to delete the secret from (required)'')]),
             (''environmentSlug'', JObj
               [(''type'', JStr ''string''),
                (''description'', JStr ''The slug of the environment to delete the secret from (required)'')]),
             (''secretPath'', JObj
               [(''type'', JStr ''string''),
                (''description'', JStr ''The path of the secret to delete (Defaults to /)'')]),
             (''secretName'', JObj
               [(''type'', JStr ''string''),
                (''description'', JStr ''The name of the secret to delete (required)'')])]),
          (''required'', JArr [JStr ''projectId'', JStr ''environmentSlug'', JStr ''secretName''])])]"

definition stdio_updateSecretSchema_capability :: json where
  "stdio_updateSecretSchema_capability =
     JObj
      [(''name'', JStr ''update-secret''),
       (''description'', JStr ''Update a secret in Infisical''),
       (''inputSchema'', JObj
         [(''type'', JStr ''object''),
          (''properties'', JObj
            [(''projectId'', JObj
               [(''type'', JStr ''string''),
                (''description'', JStr ''The ID of the project to update the secret in (required)'')]),
             (''environmentSlug'', JObj
               [(''type'', JStr ''string''),
                (''description'', JStr ''The slug of the environment to update the secret in (required)'')]),
             (''secretName'', JObj
               [(''type'', JStr ''string''),
                (''description'', JStr ''The current name of the secret to update (required)'')]),
             (''newSecretName'', JObj
               [(''type'', JStr ''string''),
                (''description'', JStr ''The new name of the secret to update (Optional)'')]),
             (''secretValue'', JObj
               [(''type'', JStr ''string''),
                (''description'', JStr ''The new value of the secret to update (Optional)'')]),
             (''secretPath'', JObj
               [(''type'', JStr ''string''),
                (''description'', JStr ''The path of the secret to update (Defaults to /)'')])]),
          (''required'', JArr [JStr ''projectId'', JStr ''environmentSlug'', JStr ''secretName''])])]"

definition stdio_listSecretsSchema_capability :: json where
  "stdio_listSecretsSchema_capability =
     JObj
      [(''name'', JStr ''list-secrets''),
       (''description'', JStr ''List all secrets in a given Infisical project and environment''),
       (''inputSchema'', JObj
         [(''type'', JStr ''object''),
          (''properties'', JObj
            [(''projectId'', JObj
               [(''type'', JStr ''string''),
                (''description'', JStr ''The ID of the project to list the secrets from (required)'')]),
             (''environmentSlug'', JObj
               [(''type'', JStr ''string''),
                (''description'', JStr ''The slug of the environment to list the secrets from (required)'')]),
             (''secretPath'', JObj
               [(''type'', JStr ''string''),
                (''description'', JStr ''The path of the secrets to list (Defaults to /)'')]),
             (''expandSecretReferences'', JObj
               [(''type'', JStr ''boolean''),
                (''description'', JStr ''Whether to expand secret references (Defaults to true)'')]),
             (''includeImports'', JObj
               [(''type'', JStr ''boolean''),
                (''description'', JStr ''Whether to include secret imports (Defaults to true)'')])]),
          (''required'', JArr [JStr ''projectId'', JStr ''environmentSlug''])])]"

definition stdio_getSecretSchema_capability :: json where
  "stdio_getSecretSchema_capability =
     JObj
      [(''name'', JStr ''get-secret''),
       (''description'', JStr ''Get a secret in Infisical''),
       (''inputSchema'', JObj
         [(''type'', JStr ''object''),
          (''properties'', JObj
            [(''secretName'', JObj
               [(''type'', JStr ''string''),
                (''description'', JStr ''The name of the secret to get (required)'')]),
             (''projectId'', JObj
               [(''type'', JStr ''string''),
                (''description'', JStr ''The ID of the project to get the secret from (required)'')]),
             (''environmentSlug'', JObj
               [(''type'', JStr ''string''),
                (''description'', JStr ''The slug of the environment to get the secret from (required)'')]),
             (''secretPath'', JObj
               [(''type'', JStr ''string''),
                (''description'', JStr ''The path of the secret to get (Defaults to /)'')]),
             (''expandSecretReferences'', JObj
               [(''type'', JStr ''boolean''),
                (''description'', JStr ''Whether to expand secret references (Defaults to true)'')]),
             (''includeImports'', JObj
               [(''type'', JStr ''boolean''),
                (''description'', JStr ''Whether to include secret imports. If the secret isn't found, it will try to find a secret in a secret import that matches the requested secret name (Defaults to true)'')])]),
          (''required'', JArr [JStr ''projectId'', JStr ''environmentSlug'', JStr ''secretName''])])]"

definition stdio_createProjectSchema_capability :: json where
  "stdio_createProjectSchema_capability =
     JObj
      [(''name'', JStr ''create-project''),
       (''description'', JStr ''Create a new project in Infisical''),
       (''inputSchema'', JObj
         [(''type'', JStr ''object''),
          (''properties'', JObj
            [(''projectName'', JObj
               [(''type'', JStr ''string''),
                (''description'', JStr ''The name of the project to create (required)'')]),
             (''type'', JObj
               [(''type'', JStr ''string''),
                (''description'', JStr ''The type of project to create (required). If not specified by the user, ask them to confirm the type they want to use.'')]),
             (''description'', JObj
               [(''type'', JStr ''string''),
                (''description'', JStr ''The description of the project to create'')]),
             (''slug'', JObj
               [(''type'', JStr ''string''),
                (''description'', JStr ''The slug of the project to create'')]),
             (''projectTemplate'', JObj
               [(''type'', JStr ''string''),
                (''description'', JStr ''The template of the project to create'')]),
             (''kmsKeyId'', JObj
               [(''type'', JStr ''string''),
                (''description'', JStr ''The ID of the KMS key to use for the project. Defaults to Infisical's default KMS'')])]),
          (''required'', JArr [JStr ''projectName'', JStr ''type''])])]"

definition stdio_createEnvironmentSchema_capability :: json where
  "stdio_createEnvironmentSchema_capability =
     JObj
      [(''name'', JStr ''create-environment''),
       (''description'', JStr ''Create a new environment in Infisical''),
       (''inputSchema'', JObj
         [(''type'', JStr ''object''),
          (''properties'', JObj
            [(''projectId'', JObj
               [(''type'', JStr ''string''),
                (''description'', JStr ''The ID of the project to create the environment in (required)'')]),
             (''name'', JObj
               [(''type'', JStr ''string''),
                (''description'', JStr ''The name of the environment to create (required)'')]),
             (''slug'', JObj
               [(''type'', JStr ''string''),
                (''description'', JStr ''The slug of the environment to create (required)'')]),
             (''position'', JObj
               [(''type'', JStr ''number''),
                (''description'', JStr ''The position of the environment to create'')])]),
          (''required'', JArr [JStr ''projectId'', JStr ''name'', JStr ''slug''])])]"

definition stdio_createFolderSchema_capability :: json where
  "stdio_createFolderSchema_capability =
     JObj
      [(''name'', JStr ''create-folder''),
       (''description'', JStr ''Create a new folder in Infisical''),
       (''inputSchema'', JObj
         [(''type'', JStr ''object''),
          (''properties'', JObj
            [(''description'', JObj
               [(''type'', JStr ''string''),
                (''description'', JStr ''The description of the folder to create'')]),
             (''environment'', JObj
               [(''type'', JStr ''string''),
                (''description'', JStr ''The environment to create the folder in (required)'')]),
             (''name'', JObj
               [(''type'', JStr ''string''),
                (''description'', JStr ''The name of the folder to create (required)'')]),
             (''path'', JObj
               [(''type'', JStr ''string''),
                (''description'', JStr ''The path to create the folder in (Defaults to /)'')]),
             (''projectId'', JObj
               [(''type'', JStr ''string''),
                (''description'', JStr ''The project to create the folder in (required)'')])]),
          (''required'', JArr [JStr ''name'', JStr ''projectId'', JStr ''environment''])])]"

definition stdio_inviteMembersToProjectSchema_capability :: json where
  "stdio_inviteMembersToProjectSchema_capability =
     JObj
      [(''name'', JStr ''invite-members-to-project''),
       (''description'', JStr ''Invite members to a project in Infisical''),
       (''inputSchema'', JObj
         [(''type'', JStr ''object''),
          (''properties'', JObj
            [(''projectId'', JObj
               [(''type'', JStr ''string''),
                (''description'', JStr ''The ID of the project to invite members to (required)'')]),
             (''emails'', JObj
               [(''type'', JStr ''array''),
                (''description'', JStr ''The emails of the members to invite. Either usernames or emails must be provided.'')]),
             (''usernames'', JObj
               [(''type'', JStr ''array''),
                (''description'', JStr ''The usernames of the members to invite. Either usernames or emails must be provided.'')]),
             (''roleSlugs'', JObj
               [(''type'', JStr ''array''),
                (''description'', JStr ''The role slugs of the members to invite. If not provided, the default role 'member' will be used. Ask the user to confirm the role they want to use if not explicitly specified.'')])]),
          (''required'', JArr [JStr ''projectId''])])]"

text \<open>The handler of \<^verbatim>\<open>ListToolsRequestSchema\<close> returns \<^verbatim>\<open>{ tools: [...] }\<close> with this array.\<close>

definition stdio_tools :: "json list" where
  "stdio_tools =
     [stdio_createSecretSchema_capability,
      stdio_deleteSecretSchema_capability,
      stdio_updateSecretSchema_capability,
      stdio_listSecretsSchema_capability,
      stdio_getSecretSchema_capability,
      stdio_createProjectSchema_capability,
      stdio_createEnvironmentSchema_capability,
      stdio_createFolderSchema_capability,
      stdio_inviteMembersToProjectSchema_capability]"

subsection \<open>Authentication\<close>

text \<open>
  The process state of the stdio variant: the flag \<^verbatim>\<open>isAuthenticated\<close> and the log of
  the calls made through the one SDK instance.
\<close>

record stdio_state =
  isAuthenticated :: bool
  calls :: "remote_call list"

definition initial_state :: stdio_state where
  "initial_state = \<lparr>isAuthenticated = False, calls = []\<rparr>"

definition sdk_await :: "remote_api \<Rightarrow> remote_call \<Rightarrow> (stdio_state, json) io" where
  "sdk_await api c =
     (\<lambda>s. (case api (calls s) c of Inl m \<Rightarrow> Inl (Error m) | Inr v \<Rightarrow> Inr v,
           s\<lparr>calls := calls s @ [c]\<rparr>))"

definition handleAuthentication :: "config \<Rightarrow> remote_api \<Rightarrow> (stdio_state, unit) io" where
  "handleAuthentication env api =
     (\<lambda>s. if isAuthenticated s then ret () s
          else bind (sdk_await api (login_call env))
                 (\<lambda>r. (\<lambda>s'. (Inr (), s'\<lparr>isAuthenticated := True\<rparr>))) s)"

subsection \<open>Tool calls\<close>

definition stdio_create_secret :: "remote_api \<Rightarrow> json \<Rightarrow> (stdio_state, tool_result) io" where
  "stdio_create_secret api args =
     bind (lift (zod_parse stdio_createSecretSchema args)) (\<lambda>data.
     bind (sdk_await api (secrets_createSecret,
             [js_get data ''secretName'',
              JObj [(''environment'', js_get data ''environmentSlug''),
                    (''projectId'', js_get data ''projectId''),
                    (''secretPath'', js_get data ''secretPath''),
                    (''secretValue'', nullish_coalesce (js_get data ''secretValue'') (JStr ''''))]]))
       (\<lambda>response.
     bind (lift (destructure ''(intermediate value)'' response ''secret'')) (\<lambda>secret.
     ret [TextContent (''Secret created successfully: '' @ JSON_stringify 3 secret)])))"

definition stdio_delete_secret :: "remote_api \<Rightarrow> json \<Rightarrow> (stdio_state, tool_result) io" where
  "stdio_delete_secret api args =
     bind (lift (zod_parse stdio_deleteSecretSchema args)) (\<lambda>data.
     bind (sdk_await api (secrets_deleteSecret,
             [js_get data ''secretName'',
              JObj [(''environment'', js_get data ''environmentSlug''),
                    (''projectId'', js_get data ''projectId''),
                    (''secretPath'', js_get data ''secretPath'')]]))
       (\<lambda>response.
     bind (lift (destructure ''(intermediate value)'' response ''secret'')) (\<lambda>secret.
     bind (lift (member secret ''secretKey'')) (\<lambda>secretKey.
     bind (lift (ToString secretKey)) (\<lambda>key.
     ret [TextContent (''Secret deleted successfully: '' @ key)])))))"

definition stdio_update_secret :: "remote_api \<Rightarrow> json \<Rightarrow> (stdio_state, tool_result) io" where
  "stdio_update_secret api args =
     bind (lift (zod_parse stdio_updateSecretSchema args)) (\<lambda>data.
     bind (sdk_await api (secrets_updateSecret,
             [js_get data ''secretName'',
              JObj [(''environment'', js_get data ''environmentSlug''),
                    (''projectId'', js_get data ''projectId''),
                    (''secretPath'', js_get data ''secretPath''),
                    (''secretValue'', nullish_coalesce (js_get data ''secretValue'') (JStr ''''))]]))
       (\<lambda>response.
     bind (lift (destructure ''(intermediate value)'' response ''secret'')) (\<lambda>secret.
     ret [TextContent (''Secret updated successfully. Updated secret: '' @ JSON_stringify 3 secret)])))"

text \<open>
  The projection of the list-secrets branch:
  \<^verbatim>\<open>xs.map(secret => ({ secretKey: secret.secretKey, secretValue: secret.secretValue }))\<close>.
  It throws on an element that is \<^verbatim>\<open>null\<close> and when \<open>xs\<close> is not an array; \<open>what\<close> is
  the expression the engine names then.
\<close>

definition project_secret :: "json \<Rightarrow> js_error + json" where
  "project_secret secret =
     (case member secret ''secretKey'' of
        Inl e \<Rightarrow> Inl e
      | Inr k \<Rightarrow> Inr (JObj [(''secretKey'', k), (''secretValue'', js_get secret ''secretValue'')]))"

fun map_throwing :: "('a \<Rightarrow> js_error + 'b) \<Rightarrow> 'a list \<Rightarrow> js_error + 'b list" where
  "map_throwing f [] = Inr []"
| "map_throwing f (x # xs) =
     (case f x of
        Inl e \<Rightarrow> Inl e
      | Inr y \<Rightarrow> (case map_throwing f xs of Inl e \<Rightarrow> Inl e | Inr ys \<Rightarrow> Inr (y # ys)))"

definition array_map :: "string \<Rightarrow> (json \<Rightarrow> js_error + json) \<Rightarrow> json \<Rightarrow> js_error + json" where
  "array_map what f v =
     (case v of
        JArr xs \<Rightarrow> (case map_throwing f xs of Inl e \<Rightarrow> Inl e | Inr ys \<Rightarrow> Inr (JArr ys))
      | JUndefined \<Rightarrow>
          Inl (TypeError (''Cannot read properties of undefined (reading '' @ [sq] @ ''map'' @ [sq] @ '')''))
      | JNull \<Rightarrow>
          Inl (TypeError (''Cannot read properties of null (reading '' @ [sq] @ ''map'' @ [sq] @ '')''))
      | _ \<Rightarrow> Inl (TypeError (what @ ''.map is not a function'')))"

text \<open>\<^verbatim>\<open>{ ...imp, secrets: parsedImportSecrets }\<close>: the properties of \<open>imp\<close> in their order,
  with \<^verbatim>\<open>secrets\<close> replaced where it stands, or added last.\<close>

fun obj_set :: "(string \<times> json) list \<Rightarrow> string \<Rightarrow> json \<Rightarrow> (string \<times> json) list" where
  "obj_set [] k v = [(k, v)]"
| "obj_set ((k', v') # kvs) k v =
     (if k' = k then (k, v) # kvs else (k', v') # obj_set kvs k v)"

definition project_import :: "json \<Rightarrow> js_error + json" where
  "project_import imp =
     (case member imp ''secrets'' of
        Inl e \<Rightarrow> Inl e
      | Inr ss \<Rightarrow>
          (case array_map ''imp.secrets'' project_secret ss of
             Inl e \<Rightarrow> Inl e
           | Inr parsedImportSecrets \<Rightarrow>
               Inr (JObj (obj_set (case imp of JObj kvs \<Rightarrow> kvs | _ \<Rightarrow> [])
                            ''secrets'' parsedImportSecrets))))"

definition list_secrets_response :: "json \<Rightarrow> js_error + json" where
  "list_secrets_response secrets =
     (case member secrets ''secrets'' of
        Inl e \<Rightarrow> Inl e
      | Inr ss \<Rightarrow>
          (case array_map ''secrets.secrets'' project_secret ss of
             Inl e \<Rightarrow> Inl e
           | Inr projected \<Rightarrow>
               if truthy (js_get secrets ''imports'') then
                 (case array_map ''secrets.imports?'' project_import (js_get secrets ''imports'') of
                    Inl e \<Rightarrow> Inl e
                  | Inr imports \<Rightarrow> Inr (JObj [(''secrets'', projected), (''imports'', imports)]))
               else Inr (JObj [(''secrets'', projected)])))"

definition stdio_list_secrets :: "remote_api \<Rightarrow> json \<Rightarrow> (stdio_state, tool_result) io" where
  "stdio_list_secrets api args =
     bind (lift (zod_parse stdio_listSecretsSchema args)) (\<lambda>data.
     bind (sdk_await api (secrets_listSecrets,
             [JObj [(''environment'', js_get data ''environmentSlug''),
                    (''projectId'', js_get data ''projectId''),
                    (''secretPath'', js_get data ''secretPath''),
                    (''expandSecretReferences'', js_get data ''expandSecretReferences''),
                    (''includeImports'', js_get data ''includeImports'')]]))
       (\<lambda>secrets.
     bind (lift (list_secrets_response secrets)) (\<lambda>response.
     ret [TextContent (JSON_stringify 0 response)])))"

definition stdio_get_secret :: "remote_api \<Rightarrow> json \<Rightarrow> (stdio_state, tool_result) io" where
  "stdio_get_secret api args =
     bind (lift (zod_parse stdio_getSecretSchema args)) (\<lambda>data.
     bind (sdk_await api (secrets_getSecret,
             [JObj [(''environment'', js_get data ''environmentSlug''),
                    (''projectId'', js_get data ''projectId''),
                    (''secretName'', js_get data ''secretName''),
                    (''secretPath'', js_get data ''secretPath''),
                    (''expandSecretReferences'', js_get data ''expandSecretReferences''),
                    (''includeImports'', js_get data ''includeImports'')]]))
       (\<lambda>secret.
     ret [TextContent (''Secret retrieved successfully: '' @ JSON_stringify 3 secret)]))"

definition stdio_create_project :: "remote_api \<Rightarrow> json \<Rightarrow> (stdio_state, tool_result) io" where
  "stdio_create_project api args =
     bind (lift (zod_parse stdio_createProjectSchema args)) (\<lambda>data.
     bind (sdk_await api (projects_create,
             [JObj [(''projectName'', js_get data ''projectName''),
                    (''projectDescription'', js_get data ''description''),
                    (''kmsKeyId'', js_get data ''kmsKeyId''),
                    (''slug'', js_get data ''slug''),
                    (''template'', js_get data ''projectTemplate''),
                    (''type'', js_get data ''type'')]]))
       (\<lambda>project.
     ret [TextContent (''Project created successfully: '' @ JSON_stringify 3 project)]))"

definition stdio_create_environment :: "remote_api \<Rightarrow> json \<Rightarrow> (stdio_state, tool_result) io" where
  "stdio_create_environment api args =
     bind (lift (zod_parse stdio_createEnvironmentSchema args)) (\<lambda>data.
     bind (sdk_await api (environments_create,
             [JObj [(''projectId'', js_get data ''projectId''),
                    (''name'', js_get data ''name''),
                    (''slug'', js_get data ''slug''),
                    (''position'', js_get data ''position'')]]))
       (\<lambda>environment.
     ret [TextContent (''Environment created successfully: '' @ JSON_stringify 3 environment)]))"

definition stdio_create_folder :: "remote_api \<Rightarrow> json \<Rightarrow> (stdio_state, tool_result) io" where
  "stdio_create_folder api args =
     bind (lift (zod_parse stdio_createFolderSchema args)) (\<lambda>data.
     bind (sdk_await api (folders_create,
             [JObj [(''description'', js_get data ''description''),
                    (''environment'', js_get data ''environment''),
                    (''name'', js_get data ''name''),
                    (''path'', js_get data ''path''),
                    (''projectId'', js_get data ''projectId'')]]))
       (\<lambda>folder.
     ret [TextContent (''Folder created successfully: '' @ JSON_stringify 3 folder)]))"

definition stdio_invite_members_to_project :: "remote_api \<Rightarrow> json \<Rightarrow> (stdio_state, tool_result) io" where
  "stdio_invite_members_to_project api args =
     bind (lift (zod_parse stdio_inviteMembersToProjectSchema args)) (\<lambda>data.
     bind (sdk_await api (projects_inviteMembers,
             [JObj [(''projectId'', js_get data ''projectId''),
                    (''emails'', js_get data ''emails''),
                    (''usernames'', js_get data ''usernames''),
                    (''roleSlugs'', js_get data ''roleSlugs'')]]))
       (\<lambda>projectMemberships.
     ret [TextContent (''Members successfully invited to project: ''
            @ JSON_stringify 3 projectMemberships)]))"

text \<open>
  The handler of \<^verbatim>\<open>CallToolRequestSchema\<close>: authentication first, then the chain of
  \<^verbatim>\<open>if (name === ...)\<close>; the \<^verbatim>\<open>catch\<close> turns a \<^verbatim>\<open>ZodError\<close> into an \<^verbatim>\<open>Error\<close> that lists
  the issues and rethrows anything else.
\<close>

fun path_element_string :: "js_path \<Rightarrow> string" where
  "path_element_string (Key k) = k"
| "path_element_string (Idx i) = string_of_nat i"

definition issue_line :: "zod_issue \<Rightarrow> string" where
  "issue_line e = join ''.'' (map path_element_string (issue_path e)) @ '': '' @ issue_message e"

definition invalid_arguments :: "zod_issue list \<Rightarrow> string" where
  "invalid_arguments errors = ''Invalid arguments: '' @ join '', '' (map issue_line errors)"

definition call_tool_body :: "config \<Rightarrow> remote_api \<Rightarrow> json \<Rightarrow> (stdio_state, tool_result) io" where
  "call_tool_body env api params =
     bind (handleAuthentication env api) (\<lambda>u.
     bind (lift (destructure ''req.params'' params ''name'')) (\<lambda>name.
     bind (lift (destructure ''req.params'' params ''arguments'')) (\<lambda>args.
     if name = JStr ''create-secret'' then stdio_create_secret api args
     else if name = JStr ''delete-secret'' then stdio_delete_secret api args
     else if name = JStr ''update-secret'' then stdio_update_secret api args
     else if name = JStr ''list-secrets'' then stdio_list_secrets api args
     else if name = JStr ''get-secret'' then stdio_get_secret api args
     else if name = JStr ''create-project'' then stdio_create_project api args
     else if name = JStr ''create-environment'' then stdio_create_environment api args
     else if name = JStr ''create-folder'' then stdio_create_folder api args
     else if name = JStr ''invite-members-to-project'' then stdio_invite_members_to_project api args
     else bind (lift (ToString name)) (\<lambda>tool.
          throw (Error (''Unrecognized tool name: '' @ tool))))))"

definition call_tool :: "config \<Rightarrow> remote_api \<Rightarrow> json \<Rightarrow> (stdio_state, tool_result) io" where
  "call_tool env api params =
     catch (call_tool_body env api params)
       (\<lambda>err. case err of
                 ZodError errors \<Rightarrow> throw (Error (invalid_arguments errors))
               | _ \<Rightarrow> throw err)"

text \<open>The handler of \<^verbatim>\<open>ListToolsRequestSchema\<close>, and the requests the stdio server serves,
  one after the other.\<close>

definition list_tools :: "(stdio_state, json) io" where
  "list_tools = ret (JObj [(''tools'', JArr stdio_tools)])"

datatype stdio_request = ListToolsRequest | CallToolRequest json

fun stdio_handle :: "config \<Rightarrow> remote_api \<Rightarrow> stdio_request \<Rightarrow> (stdio_state, json) io" where
  "stdio_handle env api ListToolsRequest = list_tools"
| "stdio_handle env api (CallToolRequest params) =
     bind (call_tool env api params) (\<lambda>r. ret (tool_result_json r))"

fun stdio_run :: "config \<Rightarrow> remote_api \<Rightarrow> stdio_request list \<Rightarrow> stdio_state \<Rightarrow> stdio_state" where
  "stdio_run env api [] s = s"
| "stdio_run env api (r # rs) s = stdio_run env api rs (snd (stdio_handle env api r s))"

section \<open>Sample inputs\<close>

text \<open>A configuration, tool-call parameters, and remote APIs used to run the handlers on
  concrete inputs: one that accepts every call with an empty object, one that rejects
  the login, and one with a single secret that carries metadata.\<close>

definition env0 :: config where
  "env0 = \<lparr>INFISICAL_UNIVERSAL_AUTH_CLIENT_ID = ''client'',
           INFISICAL_UNIVERSAL_AUTH_CLIENT_SECRET = ''secret'',
           INFISICAL_HOST_URL = ''https://app.infisical.com'',
           packageJson_version = ''1.0.0''\<rparr>"

definition tool_params :: "string \<Rightarrow> json \<Rightarrow> json" where
  "tool_params name args = JObj [(''name'', JStr name), (''arguments'', args)]"

definition api_ok :: remote_api where
  "api_ok log c = Inr (JObj [])"

definition api_reject_login :: remote_api where
  "api_reject_login log c =
     (if fst c = universalAuth_login then Inl ''Unauthorized'' else Inr (JObj []))"

definition secret_record :: json where
  "secret_record =
     JObj [(''id'', JStr ''42''), (''secretKey'', JStr ''DB_URL''),
           (''secretValue'', JStr ''postgres''), (''version'', JNum 3)]"

definition api_one_secret :: remote_api where
  "api_one_secret log c =
     (if fst c = secrets_listSecrets then Inr (JObj [(''secrets'', JArr [secret_record])])
      else Inr (JObj []))"

section \<open>Vocabulary of the properties\<close>

text \<open>
  The fields a catalog entry lists under \<^verbatim>\<open>inputSchema.required\<close>, and the fields a zod
  object schema requires: those that are neither optional nor defaulted, so that
  \<^verbatim>\<open>undefined\<close> is rejected for them.
\<close>

definition required_fields :: "json \<Rightarrow> json list" where
  "required_fields t =
     (case js_get (js_get t ''inputSchema'') ''required'' of JArr xs \<Rightarrow> xs | _ \<Rightarrow> [])"

fun needs_value :: "zschema \<Rightarrow> bool" where
  "needs_value (ZOptional t) = False"
| "needs_value (ZDefault t d) = False"
| "needs_value _ = True"

fun required_keys :: "zschema \<Rightarrow> string list" where
  "required_keys (ZObject shape) = map fst (filter (\<lambda>(k, t). needs_value t) shape)"
| "required_keys _ = []"

text \<open>A list of issues names the field \<open>f\<close> as required: it has an issue whose path is
  the field and whose message is \<^verbatim>\<open>Required\<close>.\<close>

definition names_field :: "string \<Rightarrow> zod_issue list \<Rightarrow> bool" where
  "names_field f issues =
     (\<exists>i\<in>set issues. issue_path i = [Key f] \<and> issue_message i = ''Required'')"

text \<open>The names of the tools of a catalog.\<close>

definition tool_names :: "json list \<Rightarrow> json list" where
  "tool_names catalog = map (\<lambda>t. js_get t ''name'') catalog"


text \<open>The tool names the document of \<^verbatim>\<open>GET /mcp\<close> lists.\<close>

definition discovery_tool_names :: "json list" where
  "discovery_tool_names = (case js_get mcp_discovery ''tools'' of JArr xs \<Rightarrow> xs | _ \<Rightarrow> [])"

text \<open>The body of a \<^verbatim>\<open>tools/call\<close> request with the given id.\<close>

definition tools_call_body :: "json \<Rightarrow> json \<Rightarrow> json" where
  "tools_call_body request_id params =
     JObj [(''jsonrpc'', JStr ''2.0''), (''id'', request_id), (''method'', JStr ''tools/call''),
           (''params'', params)]"

text \<open>The calls the HTTP variant makes for \<^verbatim>\<open>update-secret\<close> and \<^verbatim>\<open>get-secret\<close>, from the
  validated arguments.\<close>

definition http_update_call :: "json \<Rightarrow> remote_call" where
  "http_update_call updateData =
     (secrets_updateSecret,
      [js_get updateData ''secretName'',
       JObj [(''environment'', js_get updateData ''environmentSlug''),
             (''projectId'', js_get updateData ''projectId''),
             (''secretPath'', js_get updateData ''secretPath''),
             (''secretValue'', nullish_coalesce (js_get updateData ''secretValue'') (JStr ''''))]])"

definition http_listing_call :: "json \<Rightarrow> remote_call" where
  "http_listing_call getData =
     (secrets_listSecrets,
      [JObj [(''environment'', js_get getData ''environmentSlug''),
             (''projectId'', js_get getData ''projectId''),
             (''secretPath'', js_get getData ''secretPath''),
             (''expandSecretReferences'', js_get getData ''expandSecretReferences''),
             (''includeImports'', js_get getData ''includeImports'')]])"

text \<open>Arguments of sample tool calls.\<close>

definition update_args :: json where
  "update_args = JObj [(''projectId'', JStr ''p1''), (''environmentSlug'', JStr ''dev''),
                       (''secretName'', JStr ''DB_URL''), (''secretValue'', JStr ''v2'')]"


definition get_args :: "(string \<times> json) list" where
  "get_args = [(''projectId'', JStr ''p1''), (''environmentSlug'', JStr ''dev''),
               (''secretName'', JStr ''API_KEY'')]"

definition get_data :: json where
  "get_data = JObj [(''projectId'', JStr ''p1''), (''environmentSlug'', JStr ''dev''),
                    (''secretName'', JStr ''API_KEY''), (''secretPath'', JStr ''/'')]"

text \<open>
  The outcome of \<open>handleAuthentication\<close>: it succeeds when the flag is set or the API
  accepts the login, and then leaves the flag set, with the login logged if it was made.
\<close>

definition authentication_ok :: "config \<Rightarrow> remote_api \<Rightarrow> stdio_state \<Rightarrow> bool" where
  "authentication_ok env api s =
     (isAuthenticated s \<or> \<not> isl (api (calls s) (login_call env)))"

definition authenticated_state :: "config \<Rightarrow> stdio_state \<Rightarrow> stdio_state" where
  "authenticated_state env s =
     (if isAuthenticated s then s
      else s\<lparr>calls := calls s @ [login_call env], isAuthenticated := True\<rparr>)"

text \<open>The \<^verbatim>\<open>catch\<close> of the stdio handler, as a function on the error thrown.\<close>

definition rethrow :: "js_error \<Rightarrow> js_error" where
  "rethrow err = (case err of ZodError errors \<Rightarrow> Error (invalid_arguments errors) | _ \<Rightarrow> err)"

text \<open>The calls the stdio variant makes for \<^verbatim>\<open>create-folder\<close> and
  \<^verbatim>\<open>invite-members-to-project\<close>, from the validated arguments.\<close>

definition stdio_folder_call :: "json \<Rightarrow> remote_call" where
  "stdio_folder_call data =
     (folders_create,
      [JObj [(''description'', js_get data ''description''),
             (''environment'', js_get data ''environment''),
             (''name'', js_get data ''name''),
             (''path'', js_get data ''path''),
             (''projectId'', js_get data ''projectId'')]])"

definition stdio_invite_call :: "json \<Rightarrow> remote_call" where
  "stdio_invite_call data =
     (projects_inviteMembers,
      [JObj [(''projectId'', js_get data ''projectId''),
             (''emails'', js_get data ''emails''),
             (''usernames'', js_get data ''usernames''),
             (''roleSlugs'', js_get data ''roleSlugs'')]])"

definition folder_args :: json where
  "folder_args = JObj [(''projectId'', JStr ''p1''), (''environment'', JStr ''dev''),
                       (''environmentSlug'', JStr ''dev''), (''name'', JStr ''certs'')]"

text \<open>The methods \<^verbatim>\<open>handleJsonRpcRequest\<close> has a case for.\<close>

definition known_methods :: "json list" where
  "known_methods =
     [JStr ''initialize'', JStr ''notifications/initialized'', JStr ''tools/list'',
      JStr ''tools/call'']"

text \<open>The body of a response that reports an error, with the error code and message and
  the id it carries.\<close>

definition error_body :: "int \<Rightarrow> string \<Rightarrow> json \<Rightarrow> json" where
  "error_body code message request_id =
     JObj [(''jsonrpc'', JStr ''2.0''),
           (''error'', JObj [(''code'', JNum code), (''message'', JStr message)]),
           (''id'', request_id)]"

text \<open>A value that an optional string field accepts: absent, or a string.\<close>

fun opt_string :: "json \<Rightarrow> bool" where
  "opt_string JUndefined = True"
| "opt_string (JStr s) = True"
| "opt_string _ = False"

text \<open>The calls the two variants make for \<^verbatim>\<open>create-project\<close>, from the validated
  arguments.\<close>

definition http_project_call :: "json \<Rightarrow> remote_call" where
  "http_project_call projectData =
     (projects_create,
      [JObj [(''name'', js_get projectData ''projectName''),
             (''workspaceSlug'', js_get projectData ''workspaceSlug''),
             (''organizationId'', js_get projectData ''organizationId'')]])"

definition stdio_project_call :: "json \<Rightarrow> remote_call" where
  "stdio_project_call data =
     (projects_create,
      [JObj [(''projectName'', js_get data ''projectName''),
             (''projectDescription'', js_get data ''description''),
             (''kmsKeyId'', js_get data ''kmsKeyId''),
             (''slug'', js_get data ''slug''),
             (''template'', js_get data ''projectTemplate''),
             (''type'', js_get data ''type'')]])"

definition project_types :: "string list" where
  "project_types = [''secret-manager'', ''cert-manager'', ''kms'', ''ssh'']"

definition project_args :: "(string \<times> json) list" where
  "project_args = [(''projectName'', JStr ''demo'')]"

definition typed_project_args :: "(string \<times> json) list" where
  "typed_project_args = [(''projectName'', JStr ''demo''), (''type'', JStr ''kms'')]"

text \<open>
  The schemas of the two variants, in the order of their declaration, and what it is for
  an object schema to declare the default \<open>d\<close> for the field \<open>k\<close>.
\<close>

definition http_schemas :: "zschema list" where
  "http_schemas =
     [http_createSecretSchema, http_deleteSecretSchema, http_updateSecretSchema,
      http_listSecretsSchema, http_getSecretSchema, http_createProjectSchema,
      http_listProjectsSchema, http_createEnvironmentSchema, http_createFolderSchema,
      http_inviteMembersToProjectSchema]"

definition stdio_schemas :: "zschema list" where
  "stdio_schemas =
     [stdio_createSecretSchema, stdio_deleteSecretSchema, stdio_updateSecretSchema,
      stdio_listSecretsSchema, stdio_getSecretSchema, stdio_createProjectSchema,
      stdio_createEnvironmentSchema, stdio_createFolderSchema,
      stdio_inviteMembersToProjectSchema]"

fun is_default_of :: "json \<Rightarrow> zschema \<Rightarrow> bool" where
  "is_default_of d (ZDefault t d') = (d' = d)"
| "is_default_of d _ = False"

fun default_or_absent :: "string \<Rightarrow> json \<Rightarrow> zschema \<Rightarrow> bool" where
  "default_or_absent k d (ZObject shape) = list_all (\<lambda>(k', t'). k' = k \<longrightarrow> is_default_of d t') shape"
| "default_or_absent k d _ = False"

fun declares_default :: "string \<Rightarrow> json \<Rightarrow> zschema \<Rightarrow> bool" where
  "declares_default k d (ZObject shape) =
     (k \<in> set (map fst shape) \<and> default_or_absent k d (ZObject shape))"
| "declares_default k d _ = False"

definition secret_args :: "(string \<times> json) list" where
  "secret_args = [(''projectId'', JStr ''p1''), (''environmentSlug'', JStr ''dev''),
                  (''secretName'', JStr ''DB_URL''), (''secretValue'', JStr ''postgres'')]"

text \<open>
  A computation of the stdio variant that, started with the flag set, only appends remote
  calls other than the login to the log and leaves the rest of the state as it is.
\<close>

definition login_free :: "remote_call list \<Rightarrow> bool" where
  "login_free cs = list_all (\<lambda>c. fst c \<noteq> universalAuth_login) cs"

definition quiet :: "(stdio_state, 'a) io \<Rightarrow> bool" where
  "quiet m =
     (\<forall>s. isAuthenticated s \<longrightarrow>
        (\<exists>cs. snd (m s) = s\<lparr>calls := calls s @ cs\<rparr> \<and> login_free cs))"

definition logged_in :: stdio_state where
  "logged_in = \<lparr>isAuthenticated = True, calls = [login_call env0]\<rparr>"

text \<open>The parameters of a call of the catalog entry \<open>t\<close> with the arguments \<open>args\<close>.\<close>

definition params_for :: "json \<Rightarrow> json \<Rightarrow> json" where
  "params_for t args = JObj [(''name'', js_get t ''name''), (''arguments'', args)]"


fun properties :: "json \<Rightarrow> (string \<times> json) list" where
  "properties (JObj kvs) = kvs"
| "properties _ = []"






section \<open>Properties\<close>

subsection \<open>Sequencing\<close>

lemma bind_lift_Inl [simp]: "bind (lift (Inl e)) f s = (Inl e, s)"
  by (simp add: bind_def lift_def)

lemma bind_lift_Inr [simp]: "bind (lift (Inr x)) f s = f x s"
  by (simp add: bind_def lift_def)

lemma bind_lift: "bind (lift r) f s = (case r of Inl e \<Rightarrow> (Inl e, s) | Inr x \<Rightarrow> f x s)"
  by (simp add: bind_def lift_def split: sum.splits)

lemma ToString_string [simp]: "ToString (JStr s) = Inr s"
  by (simp add: ToString_def)

lemma ToString_convertible: "convertible v \<Longrightarrow> ToString v = Inr (js_to_string v)"
  by (simp add: ToString_def)

lemma ToString_throws:
  "\<not> convertible v \<Longrightarrow> ToString v = Inl (TypeError ''Cannot convert object to primitive value'')"
  by (simp add: ToString_def)

lemma bind_ret [simp]: "bind (ret x) f s = f x s"
  by (simp add: bind_def ret_def)

lemma bind_throw [simp]: "bind (throw e) f s = (Inl e, s)"
  by (simp add: bind_def throw_def)

lemma ret_apply [simp]: "ret x s = (Inr x, s)"
  by (simp add: ret_def)

lemma throw_apply [simp]: "throw e s = (Inl e, s)"
  by (simp add: throw_def)

lemma bind_Inl: "m s = (Inl e, s') \<Longrightarrow> bind m f s = (Inl e, s')"
  by (simp add: bind_def)

lemma bind_Inr: "m s = (Inr x, s') \<Longrightarrow> bind m f s = f x s'"
  by (simp add: bind_def)

lemma catch_Inl: "m s = (Inl e, s') \<Longrightarrow> catch m h s = h e s'"
  by (simp add: catch_def)

lemma catch_Inr: "m s = (Inr x, s') \<Longrightarrow> catch m h s = (Inr x, s')"
  by (simp add: catch_def)

lemma destructure_object [simp]: "destructure what (JObj kvs) k = Inr (js_get (JObj kvs) k)"
  by (simp add: destructure_def)

lemma destructure_Inr: "\<not> nullish v \<Longrightarrow> destructure what v k = Inr (js_get v k)"
  by (simp add: destructure_def)

lemma member_object [simp]: "member (JObj kvs) k = Inr (js_get (JObj kvs) k)"
  by (simp add: member_def)

lemma zod_parse_Inl: "zod_parse S v = Inl e \<Longrightarrow> \<exists>issues. e = ZodError issues"
  by (auto simp: zod_parse_def split: sum.splits)

lemma await_apply:
  "await api c log = (case api log c of Inl m \<Rightarrow> Inl (Error m) | Inr v \<Rightarrow> Inr v, log @ [c])"
  by (simp add: await_def)

lemma createAuthenticatedSdk_ok:
  "api log (login_call env) = Inr r \<Longrightarrow>
   createAuthenticatedSdk env api log = (Inr (), log @ [login_call env])"
  by (simp add: createAuthenticatedSdk_def catch_def bind_def await_def)

lemma createAuthenticatedSdk_failed:
  "api log (login_call env) = Inl m \<Longrightarrow>
   createAuthenticatedSdk env api log =
     (Inl (Error (''Authentication failed: '' @ m)), log @ [login_call env])"
  by (simp add: createAuthenticatedSdk_def catch_def bind_def await_def)

lemma bind_await:
  "bind (await api c) f log =
     (case api log c of Inl m \<Rightarrow> (Inl (Error m), log @ [c]) | Inr v \<Rightarrow> f v (log @ [c]))"
  by (simp add: bind_def await_def split: sum.splits)

lemma bind_createAuthenticatedSdk:
  "bind (createAuthenticatedSdk env api) f log =
     (case api log (login_call env) of
        Inl m \<Rightarrow> (Inl (Error (''Authentication failed: '' @ m)), log @ [login_call env])
      | Inr r \<Rightarrow> f () (log @ [login_call env]))"
  by (simp add: createAuthenticatedSdk_def catch_def bind_def await_def split: sum.splits)

subsection \<open>Validation\<close>

lemma required_message [simp]:
  "issue_message (invalid_type e JUndefined p) = ''Required''"
  "issue_message (enum_invalid_type vs JUndefined p) = ''Required''"
  by (simp_all add: issue_message_def invalid_type_def enum_invalid_type_def)

lemma issue_path_simps [simp]:
  "issue_path (invalid_type e v p) = p"
  "issue_path (enum_invalid_type vs v p) = p"
  "issue_path (invalid_enum_value vs s p) = p"
  by (simp_all add: invalid_type_def enum_invalid_type_def invalid_enum_value_def)

lemma zparse_undefined:
  "needs_value t \<Longrightarrow>
   \<exists>i. zparse t p JUndefined = Inl [i] \<and> issue_path i = p \<and> issue_message i = ''Required''"
  by (cases t) simp_all

lemma zparse_fields_issues:
  "(k, t) \<in> set shape \<Longrightarrow> zparse t (p @ [Key k]) (js_get v k) = Inl issues \<Longrightarrow>
   set issues \<subseteq> set (fst (zparse_fields shape p v))"
  by (induction shape) (auto split: sum.splits)

lemma zod_parse_missing:
  assumes "(f, t) \<in> set shape" and "needs_value t" and "map_of kvs f = None"
  shows "\<exists>issues. zod_parse (ZObject shape) (JObj kvs) = Inl (ZodError issues) \<and>
           (\<exists>i\<in>set issues. issue_path i = [Key f] \<and> issue_message i = ''Required'')"
proof -
  obtain i where i: "zparse t ([] @ [Key f]) JUndefined = Inl [i]" "issue_path i = [Key f]"
      "issue_message i = ''Required''"
    using zparse_undefined [OF assms(2), of "[] @ [Key f]"] by auto
  have "js_get (JObj kvs) f = JUndefined" using assms(3) by simp
  with i(1) have "set [i] \<subseteq> set (fst (zparse_fields shape [] (JObj kvs)))"
    using zparse_fields_issues [OF assms(1), of "[]" "JObj kvs" "[i]"] by simp
  then have mem: "i \<in> set (fst (zparse_fields shape [] (JObj kvs)))" by simp
  then show ?thesis using i(2,3)
    by (cases "zparse_fields shape [] (JObj kvs)")
       (auto simp: zod_parse_def split: list.splits)
qed

lemma required_missing:
  assumes "f \<in> set (required_keys S)" and "map_of kvs f = None"
  shows "\<exists>issues. zod_parse S (JObj kvs) = Inl (ZodError issues) \<and> names_field f issues"
proof (cases S)
  case (ZObject shape)
  with assms(1) obtain t where "(f, t) \<in> set shape" "needs_value t" by auto
  from zod_parse_missing [OF this assms(2)] show ?thesis
    by (simp add: ZObject names_field_def)
qed (use assms(1) in simp_all)

lemma zparse_Inl_nonempty: "zparse t p v = Inl issues \<Longrightarrow> issues \<noteq> []"
  by (induction t arbitrary: p v)
     (auto split: json.splits list.splits prod.splits if_splits)

lemma zparse_fields_key:
  "(k, y) \<in> set (snd (zparse_fields shape p v)) \<Longrightarrow> k \<in> fst ` set shape"
  by (induction shape) (force split: sum.splits if_splits)+

lemma zparse_fields_keys: "fst ` set (snd (zparse_fields shape p v)) \<subseteq> fst ` set shape"
  using zparse_fields_key by fastforce

lemma js_get_Cons:
  "js_get (JObj ((k', v') # kvs)) k = (if k = k' then v' else js_get (JObj kvs) k)"
  by simp

lemma js_get_absent: "k \<notin> fst ` set kvs \<Longrightarrow> js_get (JObj kvs) k = JUndefined"
  by (simp add: map_of_eq_None_iff [THEN iffD2])

lemma zparse_fields_lookup:
  "distinct (map fst shape) \<Longrightarrow> fst (zparse_fields shape p v) = [] \<Longrightarrow> (k, t) \<in> set shape \<Longrightarrow>
   zparse t (p @ [Key k]) (js_get v k) = Inr (js_get (JObj (snd (zparse_fields shape p v))) k)"
proof (induction shape)
  case Nil
  then show ?case by simp
next
  case (Cons a shape)
  obtain k0 t0 where a: "a = (k0, t0)" by (cases a)
  from Cons.prems(2) obtain y where y: "zparse t0 (p @ [Key k0]) (js_get v k0) = Inr y"
    and rest: "fst (zparse_fields shape p v) = []"
    using zparse_Inl_nonempty [of t0 "p @ [Key k0]" "js_get v k0"]
    by (cases "zparse t0 (p @ [Key k0]) (js_get v k0)") (auto simp: a)
  have k0: "k0 \<notin> fst ` set (snd (zparse_fields shape p v))"
    using Cons.prems(1) zparse_fields_keys [of shape p v] by (auto simp: a)
  show ?case
  proof (cases "(k, t) = (k0, t0)")
    case True
    then show ?thesis using y k0 by (auto simp: a js_get_absent js_get_Cons simp del: js_get.simps)
  next
    case False
    with Cons.prems(3) have mem: "(k, t) \<in> set shape" by (auto simp: a)
    with Cons.prems(1) have "k \<noteq> k0" by (force simp: a)
    then show ?thesis using Cons.IH [OF _ rest mem] Cons.prems(1) y
      by (simp add: a js_get_Cons del: js_get.simps)
  qed
qed

lemma zod_parse_field:
  assumes "zod_parse (ZObject shape) (JObj kvs) = Inr data" and "distinct (map fst shape)"
    and "(k, t) \<in> set shape"
  shows "zparse t [Key k] (js_get (JObj kvs) k) = Inr (js_get data k)"
proof -
  from assms(1) have "fst (zparse_fields shape [] (JObj kvs)) = []"
    and "data = JObj (snd (zparse_fields shape [] (JObj kvs)))"
    by (auto simp: zod_parse_def split: prod.splits list.splits)
  with zparse_fields_lookup [OF assms(2) _ assms(3), of "[]" "JObj kvs"] show ?thesis by simp
qed

lemma zparse_fields_ok:
  "(\<forall>(k, t) \<in> set shape. \<exists>y. zparse t (p @ [Key k]) (js_get v k) = Inr y) \<Longrightarrow>
   fst (zparse_fields shape p v) = []"
  by (induction shape) (auto split: sum.splits)

lemma zod_parse_ok:
  assumes "\<forall>(k, t) \<in> set shape. \<exists>y. zparse t [Key k] (js_get (JObj kvs) k) = Inr y"
  shows "zod_parse (ZObject shape) (JObj kvs) = Inr (JObj (snd (zparse_fields shape [] (JObj kvs))))"
  using zparse_fields_ok [of shape "[]" "JObj kvs"] assms
  by (auto simp: zod_parse_def split: prod.splits list.splits)

lemma zparse_string: "zparse ZString p v = Inr y \<longleftrightarrow> (\<exists>s. v = JStr s) \<and> y = v"
  by (cases v) auto

lemma zparse_default_string:
  "zparse (ZDefault ZString (JStr d)) p v = Inr y \<longleftrightarrow>
     (v = JUndefined \<and> y = JStr d) \<or> ((\<exists>s. v = JStr s) \<and> y = v)"
  by (cases v) auto

lemma zparse_optional_string:
  "zparse (ZOptional ZString) p v = Inr y \<longleftrightarrow> (v = JUndefined \<or> (\<exists>s. v = JStr s)) \<and> y = v"
  by (cases v) auto

subsection \<open>Dispatch of the HTTP variant\<close>

lemma handleToolCall_dispatch:
  "handleToolCall env api (JObj [(''name'', JStr n), (''arguments'', args)]) log =
     (if n = ''create-secret'' then http_create_secret env api args log
      else if n = ''delete-secret'' then http_delete_secret env api args log
      else if n = ''update-secret'' then http_update_secret env api args log
      else if n = ''list-secrets'' then http_list_secrets env api args log
      else if n = ''get-secret'' then http_get_secret env api args log
      else if n = ''create-project'' then http_create_project env api args log
      else if n = ''list-projects'' then http_list_projects env api log
      else if n = ''create-environment'' then http_create_environment env api args log
      else if n = ''create-folder'' then http_create_folder args log
      else if n = ''invite-members-to-project'' then http_invite_members_to_project args log
      else (Inl (Error (''Unknown tool: '' @ n)), log))"
  by (simp add: handleToolCall_def)

lemma http_invalid:
  "zod_parse http_createSecretSchema args = Inl e \<Longrightarrow> http_create_secret env api args log = (Inl e, log)"
  "zod_parse http_deleteSecretSchema args = Inl e \<Longrightarrow> http_delete_secret env api args log = (Inl e, log)"
  "zod_parse http_updateSecretSchema args = Inl e \<Longrightarrow> http_update_secret env api args log = (Inl e, log)"
  "zod_parse http_listSecretsSchema args = Inl e \<Longrightarrow> http_list_secrets env api args log = (Inl e, log)"
  "zod_parse http_getSecretSchema args = Inl e \<Longrightarrow> http_get_secret env api args log = (Inl e, log)"
  "zod_parse http_createProjectSchema args = Inl e \<Longrightarrow> http_create_project env api args log = (Inl e, log)"
  "zod_parse http_createEnvironmentSchema args = Inl e \<Longrightarrow> http_create_environment env api args log = (Inl e, log)"
  "zod_parse http_createFolderSchema args = Inl e \<Longrightarrow> http_create_folder args log = (Inl e, log)"
  "zod_parse http_inviteMembersToProjectSchema args = Inl e \<Longrightarrow> http_invite_members_to_project args log = (Inl e, log)"
  by (simp_all add: http_create_secret_def http_delete_secret_def http_update_secret_def
        http_list_secrets_def http_get_secret_def http_create_project_def
        http_create_environment_def http_create_folder_def http_invite_members_to_project_def)

lemma rpc_dispatch_object:
  "rpc_dispatch env api (JObj kvs) log =
     (let m = js_get (JObj kvs) ''method''; i = js_get (JObj kvs) ''id'' in
      if m = JStr ''initialize'' then
        (Inr (res_json 200 (JObj
          [(''jsonrpc'', JStr ''2.0''),
           (''result'', JObj
              [(''protocolVersion'', JStr ''2024-11-05''),
               (''capabilities'', JObj
                  [(''tools'', JObj []), (''logging'', JObj []), (''streaming'', JBool True)]),
               (''serverInfo'', JObj
                  [(''name'', JStr ''Infisical FlowMCP HTTP Server''),
                   (''version'', JStr (packageJson_version env))])]),
           (''id'', i)])), log)
      else if m = JStr ''notifications/initialized'' then (Inr \<lparr>status = 204, body = None\<rparr>, log)
      else if m = JStr ''tools/list'' then
        (Inr (res_json 200 (JObj
          [(''jsonrpc'', JStr ''2.0''), (''result'', JObj [(''tools'', JArr tools)]), (''id'', i)])), log)
      else if m = JStr ''tools/call'' then
        bind (handleToolCall env api (js_get (JObj kvs) ''params'')) (\<lambda>result.
          ret (res_json 200 (JObj
            [(''jsonrpc'', JStr ''2.0''), (''result'', tool_result_json result), (''id'', i)]))) log
      else
        (case ToString m of
           Inl e \<Rightarrow> (Inl e, log)
         | Inr name \<Rightarrow>
             (Inr (res_json 404 (JObj
               [(''jsonrpc'', JStr ''2.0''),
                (''error'', JObj
                   [(''code'', JNum (- 32601)),
                    (''message'', JStr (''Method not found: '' @ name))]),
                (''id'', i)])), log)))"
  by (simp add: rpc_dispatch_def Let_def bind_lift del: js_get.simps split: sum.splits)

subsection \<open>The tool catalogs\<close>

lemma tool_names_http:
  "tool_names tools =
     [JStr ''create-secret'', JStr ''delete-secret'', JStr ''list-secrets'', JStr ''get-secret'',
      JStr ''create-project'', JStr ''list-projects'', JStr ''create-environment'',
      JStr ''create-folder'', JStr ''invite-members-to-project'']"
  by (simp add: tool_names_def tools_def http_tool_create_secret_def http_tool_delete_secret_def
        http_tool_list_secrets_def http_tool_get_secret_def http_tool_create_project_def
        http_tool_list_projects_def http_tool_create_environment_def http_tool_create_folder_def
        http_tool_invite_members_to_project_def)

lemma tool_names_stdio:
  "tool_names stdio_tools =
     [JStr ''create-secret'', JStr ''delete-secret'', JStr ''update-secret'', JStr ''list-secrets'',
      JStr ''get-secret'', JStr ''create-project'', JStr ''create-environment'',
      JStr ''create-folder'', JStr ''invite-members-to-project'']"
  by (simp add: tool_names_def stdio_tools_def stdio_createSecretSchema_capability_def
        stdio_deleteSecretSchema_capability_def stdio_updateSecretSchema_capability_def
        stdio_listSecretsSchema_capability_def stdio_getSecretSchema_capability_def
        stdio_createProjectSchema_capability_def stdio_createEnvironmentSchema_capability_def
        stdio_createFolderSchema_capability_def stdio_inviteMembersToProjectSchema_capability_def)

lemma http_tools_list:
  "js_get (JObj kvs) ''method'' = JStr ''tools/list'' \<Longrightarrow>
   handleJsonRpcRequest env api (JObj kvs) log =
     (res_json 200 (JObj [(''jsonrpc'', JStr ''2.0''),
                          (''result'', JObj [(''tools'', JArr tools)]),
                          (''id'', js_get (JObj kvs) ''id'')]), log)"
  by (simp add: handleJsonRpcRequest_def rpc_dispatch_object Let_def del: js_get.simps)

lemma stdio_tools_list:
  "stdio_handle env api ListToolsRequest s = (Inr (JObj [(''tools'', JArr stdio_tools)]), s)"
  by (simp add: list_tools_def)

text \<open>
  C4. Every \<^verbatim>\<open>tools/list\<close> request gets the same catalog of nine tools in the order of
  their declaration, whatever the state of authentication and whatever was served
  before. In the HTTP variant the response to a body whose method is \<^verbatim>\<open>tools/list\<close> is
  status 200 with the constant \<open>tools\<close> and the request's id, for every log of earlier
  remote calls, and no remote call is made; in the stdio variant the handler returns the
  constant \<open>stdio_tools\<close> in every state, also the state reached after any sequence of
  requests. Both catalogs have nine entries, with the names listed.
\<close>

theorem tools_list_fixed:
  "(js_get (JObj kvs) ''method'' = JStr ''tools/list'' \<longrightarrow>
      handleJsonRpcRequest env api (JObj kvs) log =
        (res_json 200 (JObj [(''jsonrpc'', JStr ''2.0''),
                             (''result'', JObj [(''tools'', JArr tools)]),
                             (''id'', js_get (JObj kvs) ''id'')]), log))
   \<and> stdio_handle env' api' ListToolsRequest s = (Inr (JObj [(''tools'', JArr stdio_tools)]), s)
   \<and> fst (stdio_handle env' api' ListToolsRequest (stdio_run env' api' rs initial_state))
        = Inr (JObj [(''tools'', JArr stdio_tools)])
   \<and> length tools = 9 \<and> length stdio_tools = 9
   \<and> tool_names tools =
        [JStr ''create-secret'', JStr ''delete-secret'', JStr ''list-secrets'', JStr ''get-secret'',
         JStr ''create-project'', JStr ''list-projects'', JStr ''create-environment'',
         JStr ''create-folder'', JStr ''invite-members-to-project'']
   \<and> tool_names stdio_tools =
        [JStr ''create-secret'', JStr ''delete-secret'', JStr ''update-secret'', JStr ''list-secrets'',
         JStr ''get-secret'', JStr ''create-project'', JStr ''create-environment'',
         JStr ''create-folder'', JStr ''invite-members-to-project'']"
proof -
  have "length tools = 9" by (simp add: tools_def)
  moreover have "length stdio_tools = 9" by (simp add: stdio_tools_def)
  ultimately show ?thesis
    using http_tools_list [of kvs env api log] stdio_tools_list tool_names_http tool_names_stdio
    by simp
qed

theorem tools_list_fixed_witness:
  "handleJsonRpcRequest env0 api_ok
      (JObj [(''jsonrpc'', JStr ''2.0''), (''id'', JNum 7), (''method'', JStr ''tools/list'')])
      [login_call env0] =
     (res_json 200 (JObj [(''jsonrpc'', JStr ''2.0''),
                          (''result'', JObj [(''tools'', JArr tools)]),
                          (''id'', JNum 7)]), [login_call env0])
   \<and> fst (stdio_handle env0 api_ok ListToolsRequest
            (stdio_run env0 api_ok [CallToolRequest (tool_params ''create-folder'' (JObj []))]
               initial_state))
        = Inr (JObj [(''tools'', JArr stdio_tools)])"
  using tools_list_fixed
    [of "[(''jsonrpc'', JStr ''2.0''), (''id'', JNum 7), (''method'', JStr ''tools/list'')]"
        env0 api_ok "[login_call env0]" env0 api_ok _
        "[CallToolRequest (tool_params ''create-folder'' (JObj []))]"]
  by simp

subsection \<open>Tool calls of the HTTP variant\<close>

lemma tool_params_dispatch:
  "handleToolCall env api (tool_params n args) log =
     (if n = ''create-secret'' then http_create_secret env api args log
      else if n = ''delete-secret'' then http_delete_secret env api args log
      else if n = ''update-secret'' then http_update_secret env api args log
      else if n = ''list-secrets'' then http_list_secrets env api args log
      else if n = ''get-secret'' then http_get_secret env api args log
      else if n = ''create-project'' then http_create_project env api args log
      else if n = ''list-projects'' then http_list_projects env api log
      else if n = ''create-environment'' then http_create_environment env api args log
      else if n = ''create-folder'' then http_create_folder args log
      else if n = ''invite-members-to-project'' then http_invite_members_to_project args log
      else (Inl (Error (''Unknown tool: '' @ n)), log))"
  unfolding tool_params_def by (rule handleToolCall_dispatch)

lemma tools_call_request:
  "handleJsonRpcRequest env api (tools_call_body i params) log =
     (case handleToolCall env api params log of
        (Inr result, log') \<Rightarrow>
          (res_json 200 (JObj [(''jsonrpc'', JStr ''2.0''), (''result'', tool_result_json result),
                               (''id'', i)]), log')
      | (Inl error, log') \<Rightarrow>
          (res_json 500 (JObj
             [(''jsonrpc'', JStr ''2.0''),
              (''error'', JObj [(''code'', JNum (- 32603)),
                                (''message'', JStr (''Internal error: '' @ error_message error))]),
              (''id'', i)]), log'))"
  by (simp add: handleJsonRpcRequest_def tools_call_body_def rpc_dispatch_object bind_def
           split: prod.splits sum.splits)

lemma http_update_secret_run:
  assumes "zod_parse http_updateSecretSchema args = Inr updateData"
    and "api log (login_call env) = Inr r"
  shows "http_update_secret env api args log =
           (case api (log @ [login_call env]) (http_update_call updateData) of
              Inl m \<Rightarrow> Inl (Error m)
            | Inr u \<Rightarrow> Inr [TextContent (''Secret updated successfully: '' @ JSON_stringify 3 u)],
            log @ [login_call env, http_update_call updateData])"
  using assms
  by (simp add: http_update_secret_def http_update_call_def bind_createAuthenticatedSdk bind_await
      split: sum.splits)

lemma update_secret_not_listed:
  "JStr ''update-secret'' \<notin> set (tool_names tools)"
  "JStr ''update-secret'' \<notin> set discovery_tool_names"
  by (simp_all add: tool_names_http discovery_tool_names_def mcp_discovery_def)

text \<open>
  C10. In the HTTP variant \<^verbatim>\<open>tools/call\<close> executes the tool name \<^verbatim>\<open>update-secret\<close>: when
  its arguments pass \<open>http_updateSecretSchema\<close> and the login succeeds, the handler makes
  the remote update call with the validated arguments and returns the serialized
  response (through \<^verbatim>\<open>handleJsonRpcRequest\<close>, with status 200). Yet \<^verbatim>\<open>update-secret\<close> is
  neither a name of the catalog \<open>tools\<close> that \<^verbatim>\<open>tools/list\<close> returns nor in the list of
  tool names of the \<^verbatim>\<open>GET /mcp\<close> document.
\<close>

theorem update_secret_callable_not_listed:
  "(zod_parse http_updateSecretSchema args = Inr updateData \<and> api log (login_call env) = Inr r \<longrightarrow>
      handleToolCall env api (tool_params ''update-secret'' args) log =
        (case api (log @ [login_call env]) (http_update_call updateData) of
           Inl m \<Rightarrow> Inl (Error m)
         | Inr u \<Rightarrow> Inr [TextContent (''Secret updated successfully: '' @ JSON_stringify 3 u)],
         log @ [login_call env, http_update_call updateData]))
   \<and> (zod_parse http_updateSecretSchema args = Inr updateData \<and> api log (login_call env) = Inr r
        \<and> api (log @ [login_call env]) (http_update_call updateData) = Inr u \<longrightarrow>
      handleJsonRpcRequest env api (tools_call_body i (tool_params ''update-secret'' args)) log =
        (res_json 200 (JObj
           [(''jsonrpc'', JStr ''2.0''),
            (''result'', tool_result_json
               [TextContent (''Secret updated successfully: '' @ JSON_stringify 3 u)]),
            (''id'', i)]),
         log @ [login_call env, http_update_call updateData]))
   \<and> JStr ''update-secret'' \<notin> set (tool_names tools)
   \<and> JStr ''update-secret'' \<notin> set discovery_tool_names"
  using http_update_secret_run [of args updateData api log env r] update_secret_not_listed
  by (simp add: tool_params_dispatch tools_call_request)

lemma update_args_valid:
  "zod_parse http_updateSecretSchema update_args =
     Inr (JObj [(''projectId'', JStr ''p1''), (''environmentSlug'', JStr ''dev''),
                (''secretName'', JStr ''DB_URL''), (''secretValue'', JStr ''v2''),
                (''secretPath'', JStr ''/'')])"
  by (simp add: zod_parse_def http_updateSecretSchema_def update_args_def)

theorem update_secret_callable_not_listed_witness:
  "handleToolCall env0 api_ok (tool_params ''update-secret'' update_args) [] =
     (Inr [TextContent (''Secret updated successfully: {}'')],
      [login_call env0,
       (secrets_updateSecret,
        [JStr ''DB_URL'',
         JObj [(''environment'', JStr ''dev''), (''projectId'', JStr ''p1''),
               (''secretPath'', JStr ''/''), (''secretValue'', JStr ''v2'')]])])
   \<and> JStr ''update-secret'' \<notin> set (tool_names tools)"
  using update_secret_callable_not_listed [of update_args _ api_ok "[]" env0 "JObj []" "JObj []" JNull]
    update_args_valid
  by (simp add: api_ok_def http_update_call_def nullish_coalesce_def JSON_stringify_def
        wrap_members_def)

lemma find_secretKey_none:
  "\<forall>s\<in>set ss. \<not> nullish s \<and> js_get s ''secretKey'' \<noteq> name \<Longrightarrow>
   find_secretKey ss name = Inr JUndefined"
  by (induction ss) (auto simp: member_def)

lemma http_get_secret_not_found:
  assumes "zod_parse http_getSecretSchema (JObj kvs) = Inr getData"
    and "js_get (JObj kvs) ''secretName'' = JStr name"
    and "api log (login_call env) = Inr r"
    and "api (log @ [login_call env]) (http_listing_call getData) = Inr allSecrets"
    and "js_get allSecrets ''secrets'' = JArr ss"
    and "\<forall>s\<in>set ss. \<not> nullish s \<and> js_get s ''secretKey'' \<noteq> JStr name"
  shows "http_get_secret env api (JObj kvs) log =
           (Inr [TextContent (''Secret not found: '' @ name)],
            log @ [login_call env, http_listing_call getData])"
proof -
  have "zparse ZString [Key ''secretName''] (js_get (JObj kvs) ''secretName'')
          = Inr (js_get getData ''secretName'')"
    by (rule zod_parse_field [OF assms(1) [unfolded http_getSecretSchema_def]]) simp_all
  with assms(2) have name: "js_get getData ''secretName'' = JStr name" by simp
  have obj: "\<not> nullish allSecrets" using assms(5) by (cases allSecrets) simp_all
  show ?thesis
    using assms(1,3) assms(4) [unfolded http_listing_call_def] assms(5) obj
      find_secretKey_none [OF assms(6)]
    by (simp add: http_get_secret_def bind_createAuthenticatedSdk bind_await name member_def
          secrets_find_def http_listing_call_def del: js_get.simps)
qed

text \<open>
  C9. In the HTTP variant, a \<^verbatim>\<open>get-secret\<close> call whose arguments are valid, for a name
  that is the key of no record of the listing the remote API returns (after a successful
  login), is a successful tool result: its one text block reads \<^verbatim>\<open>Secret not found: \<close>
  followed by the name, and \<^verbatim>\<open>handleJsonRpcRequest\<close> answers with status 200 and a
  \<^verbatim>\<open>result\<close>, not with an error.
\<close>

theorem get_secret_not_found:
  assumes "zod_parse http_getSecretSchema (JObj kvs) = Inr getData"
    and "js_get (JObj kvs) ''secretName'' = JStr name"
    and "api log (login_call env) = Inr r"
    and "api (log @ [login_call env]) (http_listing_call getData) = Inr allSecrets"
    and "js_get allSecrets ''secrets'' = JArr ss"
    and "\<forall>s\<in>set ss. \<not> nullish s \<and> js_get s ''secretKey'' \<noteq> JStr name"
  shows "handleToolCall env api (tool_params ''get-secret'' (JObj kvs)) log =
           (Inr [TextContent (''Secret not found: '' @ name)],
            log @ [login_call env, http_listing_call getData])
       \<and> handleJsonRpcRequest env api (tools_call_body i (tool_params ''get-secret'' (JObj kvs))) log =
           (res_json 200 (JObj
              [(''jsonrpc'', JStr ''2.0''),
               (''result'', JObj [(''content'',
                   JArr [JObj [(''type'', JStr ''text''),
                               (''text'', JStr (''Secret not found: '' @ name))]])]),
               (''id'', i)]),
            log @ [login_call env, http_listing_call getData])"
  using http_get_secret_not_found [OF assms]
  by (simp add: tool_params_dispatch tools_call_request tool_result_json_def)

lemma get_args_valid: "zod_parse http_getSecretSchema (JObj get_args) = Inr get_data"
  by (simp add: zod_parse_def http_getSecretSchema_def get_args_def get_data_def)

theorem get_secret_not_found_witness:
  "handleToolCall env0 api_one_secret (tool_params ''get-secret'' (JObj get_args)) [] =
     (Inr [TextContent ''Secret not found: API_KEY''],
      [login_call env0, http_listing_call get_data])
   \<and> handleJsonRpcRequest env0 api_one_secret
        (tools_call_body (JNum 3) (tool_params ''get-secret'' (JObj get_args))) [] =
       (res_json 200 (JObj
          [(''jsonrpc'', JStr ''2.0''),
           (''result'', JObj [(''content'',
               JArr [JObj [(''type'', JStr ''text''),
                           (''text'', JStr ''Secret not found: API_KEY'')]])]),
           (''id'', JNum 3)]),
        [login_call env0, http_listing_call get_data])"
proof -
  have 1: "js_get (JObj get_args) ''secretName'' = JStr ''API_KEY''" by (simp add: get_args_def)
  have 2: "api_one_secret [] (login_call env0) = Inr (JObj [])"
    by (simp add: api_one_secret_def login_call_def)
  have 3: "api_one_secret ([] @ [login_call env0]) (http_listing_call get_data)
             = Inr (JObj [(''secrets'', JArr [secret_record])])"
    by (simp add: api_one_secret_def http_listing_call_def)
  have 4: "js_get (JObj [(''secrets'', JArr [secret_record])]) ''secrets'' = JArr [secret_record]"
    by simp
  have 5: "\<forall>s\<in>set [secret_record]. \<not> nullish s \<and> js_get s ''secretKey'' \<noteq> JStr ''API_KEY''"
    by (simp add: secret_record_def)
  show ?thesis
    using get_secret_not_found [OF get_args_valid 1 2 3 4 5, of "JNum 3"] by simp
qed

subsection \<open>Tool calls of the stdio variant\<close>

lemma bind_sdk_await:
  "bind (sdk_await api c) f s =
     (case api (calls s) c of
        Inl m \<Rightarrow> (Inl (Error m), s\<lparr>calls := calls s @ [c]\<rparr>)
      | Inr v \<Rightarrow> f v (s\<lparr>calls := calls s @ [c]\<rparr>))"
  by (simp add: bind_def sdk_await_def split: sum.splits)

lemma handleAuthentication_ok:
  "authentication_ok env api s \<Longrightarrow>
   handleAuthentication env api s = (Inr (), authenticated_state env s)"
  by (auto simp: authentication_ok_def authenticated_state_def handleAuthentication_def
        bind_sdk_await split: sum.splits)

lemma handleAuthentication_failed:
  "\<not> isAuthenticated s \<Longrightarrow> api (calls s) (login_call env) = Inl m \<Longrightarrow>
   handleAuthentication env api s = (Inl (Error m), s\<lparr>calls := calls s @ [login_call env]\<rparr>)"
  by (simp add: handleAuthentication_def bind_sdk_await)

lemma call_tool_rethrow:
  "call_tool env api params s =
     (case call_tool_body env api params s of
        (Inl e, s') \<Rightarrow> (Inl (rethrow e), s')
      | (Inr x, s') \<Rightarrow> (Inr x, s'))"
  by (simp add: call_tool_def catch_def rethrow_def split: prod.splits sum.splits js_error.splits)

lemma bind_handleAuthentication:
  "bind (handleAuthentication env api) f s =
     (case handleAuthentication env api s of (Inl e, s') \<Rightarrow> (Inl e, s') | (Inr x, s') \<Rightarrow> f x s')"
  by (simp add: bind_def)

lemma call_tool_body_dispatch:
  "handleAuthentication env api s = (Inr (), s1) \<Longrightarrow>
   call_tool_body env api (tool_params n args) s =
     (if n = ''create-secret'' then stdio_create_secret api args s1
      else if n = ''delete-secret'' then stdio_delete_secret api args s1
      else if n = ''update-secret'' then stdio_update_secret api args s1
      else if n = ''list-secrets'' then stdio_list_secrets api args s1
      else if n = ''get-secret'' then stdio_get_secret api args s1
      else if n = ''create-project'' then stdio_create_project api args s1
      else if n = ''create-environment'' then stdio_create_environment api args s1
      else if n = ''create-folder'' then stdio_create_folder api args s1
      else if n = ''invite-members-to-project'' then stdio_invite_members_to_project api args s1
      else (Inl (Error (''Unrecognized tool name: '' @ n)), s1))"
  by (simp add: call_tool_body_def tool_params_def bind_handleAuthentication)

lemma call_tool_auth_failed:
  "handleAuthentication env api s = (Inl (Error m), s') \<Longrightarrow>
   call_tool env api params s = (Inl (Error m), s')"
  by (simp add: call_tool_rethrow call_tool_body_def bind_handleAuthentication rethrow_def)

lemma stdio_invalid:
  "zod_parse stdio_createSecretSchema args = Inl e \<Longrightarrow> stdio_create_secret api args s = (Inl e, s)"
  "zod_parse stdio_deleteSecretSchema args = Inl e \<Longrightarrow> stdio_delete_secret api args s = (Inl e, s)"
  "zod_parse stdio_updateSecretSchema args = Inl e \<Longrightarrow> stdio_update_secret api args s = (Inl e, s)"
  "zod_parse stdio_listSecretsSchema args = Inl e \<Longrightarrow> stdio_list_secrets api args s = (Inl e, s)"
  "zod_parse stdio_getSecretSchema args = Inl e \<Longrightarrow> stdio_get_secret api args s = (Inl e, s)"
  "zod_parse stdio_createProjectSchema args = Inl e \<Longrightarrow> stdio_create_project api args s = (Inl e, s)"
  "zod_parse stdio_createEnvironmentSchema args = Inl e \<Longrightarrow> stdio_create_environment api args s = (Inl e, s)"
  "zod_parse stdio_createFolderSchema args = Inl e \<Longrightarrow> stdio_create_folder api args s = (Inl e, s)"
  "zod_parse stdio_inviteMembersToProjectSchema args = Inl e \<Longrightarrow> stdio_invite_members_to_project api args s = (Inl e, s)"
  by (simp_all add: stdio_create_secret_def stdio_delete_secret_def stdio_update_secret_def
        stdio_list_secrets_def stdio_get_secret_def stdio_create_project_def
        stdio_create_environment_def stdio_create_folder_def stdio_invite_members_to_project_def)

lemma zparse_array: "zparse (ZArray t) p v = Inr y \<Longrightarrow> \<exists>ys. y = JArr ys"
  by (cases v) (auto split: prod.splits list.splits)

lemma zparse_items_strings:
  "fst (zparse_items ZString p i xs) = [] \<Longrightarrow>
   convertible_elements (snd (zparse_items ZString p i xs))"
proof (induction xs arbitrary: i)
  case Nil
  then show ?case by simp
next
  case (Cons x xs)
  then show ?case by (cases x) simp_all
qed

lemma zparse_array_strings:
  assumes "zparse (ZArray ZString) p v = Inr y"
  shows "\<exists>ys. y = JArr ys \<and> convertible_elements ys"
proof -
  from assms obtain xs where v: "v = JArr xs" by (cases v) simp_all
  from assms have "fst (zparse_items ZString p 0 xs) = []"
    and "y = JArr (snd (zparse_items ZString p 0 xs))"
    by (auto simp: v split: prod.splits list.splits)
  with zparse_items_strings [of p 0 xs] show ?thesis by simp
qed

lemma validated_object:
  "zod_parse (ZObject shape) args = Inr data \<Longrightarrow> \<exists>kvs. args = JObj kvs"
  by (cases args) (simp_all add: zod_parse_def)

lemma validated_string:
  assumes "zod_parse (ZObject shape) args = Inr data" and "distinct (map fst shape)"
    and "(k, ZString) \<in> set shape \<or> (k, ZDefault ZString (JStr d)) \<in> set shape"
  shows "\<exists>s. js_get data k = JStr s"
proof -
  from validated_object [OF assms(1)] obtain kvs where args: "args = JObj kvs" ..
  from assms(3) show ?thesis
  proof
    assume "(k, ZString) \<in> set shape"
    from zod_parse_field [OF assms(1) [unfolded args] assms(2) this]
    show ?thesis unfolding zparse_string by metis
  next
    assume "(k, ZDefault ZString (JStr d)) \<in> set shape"
    from zod_parse_field [OF assms(1) [unfolded args] assms(2) this]
    show ?thesis unfolding zparse_default_string by metis
  qed
qed

lemma http_create_folder_run:
  "http_create_folder args log =
     (case zod_parse http_createFolderSchema args of
        Inl e \<Rightarrow> Inl e
      | Inr folderData \<Rightarrow>
          Inr [TextContent (''Folder creation request for path: ''
                 @ js_to_string (js_get folderData ''secretPath'') @ placeholder_note)],
      log)"
proof (cases "zod_parse http_createFolderSchema args")
  case (Inl e)
  then show ?thesis by (simp add: http_create_folder_def)
next
  case (Inr folderData)
  from validated_string [OF Inr [unfolded http_createFolderSchema_def], of "''secretPath''" "''/''"]
  obtain s where "js_get folderData ''secretPath'' = JStr s" by auto
  with Inr show ?thesis by (simp add: http_create_folder_def)
qed

lemma http_invite_run:
  "http_invite_members_to_project args log =
     (case zod_parse http_inviteMembersToProjectSchema args of
        Inl e \<Rightarrow> Inl e
      | Inr inviteData \<Rightarrow>
          (case array_join '', '' (js_get inviteData ''emails'') of
             Inl e \<Rightarrow> Inl e
           | Inr emails \<Rightarrow>
               Inr [TextContent (''Member invitation request for project: ''
                      @ js_to_string (js_get inviteData ''projectId'') @ '', emails: '' @ emails
                      @ placeholder_note)]),
      log)"
proof (cases "zod_parse http_inviteMembersToProjectSchema args")
  case (Inl e)
  then show ?thesis by (simp add: http_invite_members_to_project_def)
next
  case (Inr inviteData)
  from validated_string [OF Inr [unfolded http_inviteMembersToProjectSchema_def],
      of "''projectId''" "[]"]
  obtain s where "js_get inviteData ''projectId'' = JStr s" by auto
  with Inr show ?thesis
    by (simp add: http_invite_members_to_project_def bind_lift split: sum.splits)
qed

lemma http_invite_emails:
  assumes "zod_parse http_inviteMembersToProjectSchema args = Inr inviteData"
  shows "\<exists>es. js_get inviteData ''emails'' = JArr es \<and> convertible_elements es"
proof -
  from assms obtain kvs where args: "args = JObj kvs"
    by (cases args) (auto simp: zod_parse_def http_inviteMembersToProjectSchema_def)
  have "zparse (ZArray ZString) [Key ''emails''] (js_get (JObj kvs) ''emails'')
          = Inr (js_get inviteData ''emails'')"
    by (rule zod_parse_field [OF assms [unfolded http_inviteMembersToProjectSchema_def args]])
       simp_all
  then show ?thesis by (rule zparse_array_strings)
qed

lemma stdio_create_folder_run:
  "zod_parse stdio_createFolderSchema args = Inr data \<Longrightarrow>
   stdio_create_folder api args s =
     (case api (calls s) (stdio_folder_call data) of
        Inl m \<Rightarrow> Inl (Error m)
      | Inr folder \<Rightarrow> Inr [TextContent (''Folder created successfully: '' @ JSON_stringify 3 folder)],
      s\<lparr>calls := calls s @ [stdio_folder_call data]\<rparr>)"
  by (simp add: stdio_create_folder_def stdio_folder_call_def bind_sdk_await split: sum.splits)

lemma stdio_invite_run:
  "zod_parse stdio_inviteMembersToProjectSchema args = Inr data \<Longrightarrow>
   stdio_invite_members_to_project api args s =
     (case api (calls s) (stdio_invite_call data) of
        Inl m \<Rightarrow> Inl (Error m)
      | Inr projectMemberships \<Rightarrow>
          Inr [TextContent (''Members successfully invited to project: ''
                 @ JSON_stringify 3 projectMemberships)],
      s\<lparr>calls := calls s @ [stdio_invite_call data]\<rparr>)"
  by (simp add: stdio_invite_members_to_project_def stdio_invite_call_def bind_sdk_await
        split: sum.splits)

lemma call_tool_valid:
  assumes "authentication_ok env api s"
  shows "call_tool env api (tool_params ''create-folder'' args) s =
           (case stdio_create_folder api args (authenticated_state env s) of
              (Inl e, s') \<Rightarrow> (Inl (rethrow e), s') | (Inr x, s') \<Rightarrow> (Inr x, s'))"
    and "call_tool env api (tool_params ''invite-members-to-project'' args) s =
           (case stdio_invite_members_to_project api args (authenticated_state env s) of
              (Inl e, s') \<Rightarrow> (Inl (rethrow e), s') | (Inr x, s') \<Rightarrow> (Inr x, s'))"
  by (simp_all add: call_tool_rethrow call_tool_body_dispatch [OF handleAuthentication_ok [OF assms]])

text \<open>
  C3. In the HTTP variant \<^verbatim>\<open>create-folder\<close> and \<^verbatim>\<open>invite-members-to-project\<close> validate
  their arguments against their schema and make no remote call: the log is unchanged,
  invalid arguments are rejected with the validation error, valid ones get a placeholder
  text. In the stdio variant, once authentication has succeeded, the same two names
  validate their arguments (invalid ones are rejected before any operation) and then call
  \<^verbatim>\<open>folders().create\<close> and \<^verbatim>\<open>projects().inviteMembers\<close> with the validated arguments and
  return the serialized response of the remote API.
\<close>

theorem folder_and_invite_stubbed_in_http_only:
  "snd (handleToolCall env api (tool_params ''create-folder'' args) log) = log
   \<and> snd (handleToolCall env api (tool_params ''invite-members-to-project'' args) log) = log
   \<and> (zod_parse http_createFolderSchema args = Inl e \<longrightarrow>
        handleToolCall env api (tool_params ''create-folder'' args) log = (Inl e, log))
   \<and> (zod_parse http_createFolderSchema args = Inr folderData \<longrightarrow>
        handleToolCall env api (tool_params ''create-folder'' args) log =
          (Inr [TextContent (''Folder creation request for path: ''
                  @ js_to_string (js_get folderData ''secretPath'') @ placeholder_note)], log))
   \<and> (zod_parse http_inviteMembersToProjectSchema args = Inl e \<longrightarrow>
        handleToolCall env api (tool_params ''invite-members-to-project'' args) log = (Inl e, log))
   \<and> (zod_parse http_inviteMembersToProjectSchema args = Inr inviteData \<longrightarrow>
        (\<exists>emails. array_join '', '' (js_get inviteData ''emails'') = Inr emails \<and>
           handleToolCall env api (tool_params ''invite-members-to-project'' args) log =
             (Inr [TextContent (''Member invitation request for project: ''
                     @ js_to_string (js_get inviteData ''projectId'') @ '', emails: '' @ emails
                     @ placeholder_note)], log)))
   \<and> (authentication_ok env api s \<and> zod_parse stdio_createFolderSchema args = Inl (ZodError issues) \<longrightarrow>
        call_tool env api (tool_params ''create-folder'' args) s =
          (Inl (Error (invalid_arguments issues)), authenticated_state env s))
   \<and> (authentication_ok env api s \<and> zod_parse stdio_createFolderSchema args = Inr data \<longrightarrow>
        call_tool env api (tool_params ''create-folder'' args) s =
          (case api (calls (authenticated_state env s)) (stdio_folder_call data) of
             Inl m \<Rightarrow> Inl (Error m)
           | Inr folder \<Rightarrow>
               Inr [TextContent (''Folder created successfully: '' @ JSON_stringify 3 folder)],
           (authenticated_state env s)
             \<lparr>calls := calls (authenticated_state env s) @ [stdio_folder_call data]\<rparr>))
   \<and> (authentication_ok env api s
        \<and> zod_parse stdio_inviteMembersToProjectSchema args = Inl (ZodError issues) \<longrightarrow>
        call_tool env api (tool_params ''invite-members-to-project'' args) s =
          (Inl (Error (invalid_arguments issues)), authenticated_state env s))
   \<and> (authentication_ok env api s \<and> zod_parse stdio_inviteMembersToProjectSchema args = Inr data \<longrightarrow>
        call_tool env api (tool_params ''invite-members-to-project'' args) s =
          (case api (calls (authenticated_state env s)) (stdio_invite_call data) of
             Inl m \<Rightarrow> Inl (Error m)
           | Inr projectMemberships \<Rightarrow>
               Inr [TextContent (''Members successfully invited to project: ''
                      @ JSON_stringify 3 projectMemberships)],
           (authenticated_state env s)
             \<lparr>calls := calls (authenticated_state env s) @ [stdio_invite_call data]\<rparr>))"
proof -
  have emails: "zod_parse http_inviteMembersToProjectSchema args = Inr inviteData \<Longrightarrow>
      \<exists>emails. array_join '', '' (js_get inviteData ''emails'') = Inr emails"
    using http_invite_emails [of args inviteData] by (auto simp: array_join_def)
  show ?thesis
    using emails
    by (auto simp: tool_params_dispatch http_create_folder_run http_invite_run call_tool_valid
          stdio_invalid stdio_create_folder_run stdio_invite_run rethrow_def
        split: sum.splits)
qed

theorem folder_and_invite_stubbed_in_http_only_witness:
  "handleToolCall env0 api_ok (tool_params ''create-folder'' folder_args) [] =
     (Inr [TextContent (''Folder creation request for path: /'' @ placeholder_note)], [])
   \<and> call_tool env0 api_ok (tool_params ''create-folder'' folder_args) initial_state =
       (Inr [TextContent ''Folder created successfully: {}''],
        \<lparr>isAuthenticated = True,
           calls = [login_call env0,
                    (folders_create,
                     [JObj [(''description'', JUndefined), (''environment'', JStr ''dev''),
                            (''name'', JStr ''certs''), (''path'', JStr ''/''),
                            (''projectId'', JStr ''p1'')]])]\<rparr>)"
proof -
  have 1: "zod_parse http_createFolderSchema folder_args =
             Inr (JObj [(''projectId'', JStr ''p1''), (''environmentSlug'', JStr ''dev''),
                        (''secretPath'', JStr ''/'')])"
    by (simp add: zod_parse_def http_createFolderSchema_def folder_args_def)
  have 2: "zod_parse stdio_createFolderSchema folder_args =
             Inr (JObj [(''environment'', JStr ''dev''), (''name'', JStr ''certs''),
                        (''path'', JStr ''/''), (''projectId'', JStr ''p1'')])"
    by (simp add: zod_parse_def stdio_createFolderSchema_def folder_args_def)
  have 3: "authentication_ok env0 api_ok initial_state"
    by (simp add: authentication_ok_def api_ok_def)
  show ?thesis
    using folder_and_invite_stubbed_in_http_only
      [of env0 api_ok folder_args "[]" _ _ _ initial_state _ _] 1 2 3
    by (simp add: authenticated_state_def initial_state_def stdio_folder_call_def api_ok_def
          JSON_stringify_def wrap_members_def)
qed

subsection \<open>Envelopes without an id\<close>

lemma notification_initialized:
  "js_get (JObj kvs) ''method'' = JStr ''notifications/initialized'' \<Longrightarrow>
   handleJsonRpcRequest env api (JObj kvs) log = (\<lparr>status = 204, body = None\<rparr>, log)"
  by (simp add: handleJsonRpcRequest_def rpc_dispatch_object Let_def del: js_get.simps)

lemma unknown_method:
  "js_get (JObj kvs) ''method'' \<notin> set known_methods \<Longrightarrow>
   convertible (js_get (JObj kvs) ''method'') \<Longrightarrow>
   handleJsonRpcRequest env api (JObj kvs) log =
     (res_json 404 (error_body (- 32601)
        (''Method not found: '' @ js_to_string (js_get (JObj kvs) ''method''))
        (js_get (JObj kvs) ''id'')), log)"
  by (simp add: handleJsonRpcRequest_def rpc_dispatch_object Let_def known_methods_def
        error_body_def ToString_convertible del: js_get.simps)

lemma unconvertible_method:
  assumes "\<not> convertible (js_get (JObj kvs) ''method'')"
  shows "handleJsonRpcRequest env api (JObj kvs) log =
     (res_json 500 (error_body (- 32603)
        ''Internal error: Cannot convert object to primitive value''
        (js_get (JObj kvs) ''id'')), log)"
proof -
  from assms have "js_get (JObj kvs) ''method'' \<noteq> JStr m" for m by auto
  with assms show ?thesis
    by (simp add: handleJsonRpcRequest_def rpc_dispatch_object Let_def error_body_def
          ToString_throws del: js_get.simps)
qed

lemma failed_tool_call:
  "js_get (JObj kvs) ''method'' = JStr ''tools/call'' \<Longrightarrow>
   handleToolCall env api (js_get (JObj kvs) ''params'') log = (Inl e, log') \<Longrightarrow>
   handleJsonRpcRequest env api (JObj kvs) log =
     (res_json 500 (error_body (- 32603) (''Internal error: '' @ error_message e)
        (js_get (JObj kvs) ''id'')), log')"
  by (simp add: handleJsonRpcRequest_def rpc_dispatch_object Let_def bind_def
        error_body_def del: js_get.simps)

text \<open>
  C7, as the code has it. An envelope with the method \<^verbatim>\<open>notifications/initialized\<close> gets
  the empty reply (status 204, no body) and nothing else happens. No other case looks at
  the id. An envelope without an id whose method is not one of the four known ones is
  answered with an error response: with status 404 and the error \<open>-32601\<close>, whose message
  ends with the method, when the method converts to a string; with status 500 and the
  error \<open>-32603\<close> when it does not (an object with an own property \<^verbatim>\<open>toString\<close>, or an
  array holding one), because composing the message throws. An envelope without an id
  whose \<^verbatim>\<open>tools/call\<close> fails is answered with status 500 and the error \<open>-32603\<close>. The
  \<^verbatim>\<open>id\<close> of these error responses is \<^verbatim>\<open>undefined\<close>.
\<close>

theorem notifications_by_method_only:
  "(js_get (JObj kvs) ''method'' = JStr ''notifications/initialized'' \<longrightarrow>
      handleJsonRpcRequest env api (JObj kvs) log = (\<lparr>status = 204, body = None\<rparr>, log))
   \<and> (js_get (JObj kvs) ''id'' = JUndefined \<and> js_get (JObj kvs) ''method'' \<notin> set known_methods
        \<and> convertible (js_get (JObj kvs) ''method'') \<longrightarrow>
        handleJsonRpcRequest env api (JObj kvs) log =
          (res_json 404 (error_body (- 32601)
             (''Method not found: '' @ js_to_string (js_get (JObj kvs) ''method'')) JUndefined), log))
   \<and> (js_get (JObj kvs) ''id'' = JUndefined \<and> \<not> convertible (js_get (JObj kvs) ''method'') \<longrightarrow>
        handleJsonRpcRequest env api (JObj kvs) log =
          (res_json 500 (error_body (- 32603)
             ''Internal error: Cannot convert object to primitive value'' JUndefined), log))
   \<and> (js_get (JObj kvs) ''id'' = JUndefined \<and> js_get (JObj kvs) ''method'' = JStr ''tools/call''
        \<and> handleToolCall env api (js_get (JObj kvs) ''params'') log = (Inl e, log') \<longrightarrow>
        handleJsonRpcRequest env api (JObj kvs) log =
          (res_json 500 (error_body (- 32603) (''Internal error: '' @ error_message e) JUndefined),
           log'))"
  using notification_initialized [of kvs env api log] unknown_method [of kvs env api log]
    unconvertible_method [of kvs env api log] failed_tool_call [of kvs env api log e log']
  by simp

theorem notifications_by_method_only_witness:
  "handleJsonRpcRequest env0 api_ok
      (JObj [(''jsonrpc'', JStr ''2.0''), (''method'', JStr ''notifications/initialized'')]) [] =
     (\<lparr>status = 204, body = None\<rparr>, [])
   \<and> handleJsonRpcRequest env0 api_ok
        (JObj [(''jsonrpc'', JStr ''2.0''), (''method'', JStr ''notifications/cancelled'')]) [] =
       (res_json 404 (error_body (- 32601) ''Method not found: notifications/cancelled'' JUndefined),
        [])
   \<and> handleJsonRpcRequest env0 api_ok
        (JObj [(''jsonrpc'', JStr ''2.0''), (''method'', JObj [(''toString'', JNull)])]) [] =
       (res_json 500 (error_body (- 32603)
          ''Internal error: Cannot convert object to primitive value'' JUndefined), [])
   \<and> handleJsonRpcRequest env0 api_ok
        (JObj [(''jsonrpc'', JStr ''2.0''), (''method'', JStr ''tools/call''),
               (''params'', tool_params ''no-such-tool'' (JObj []))]) [] =
       (res_json 500 (error_body (- 32603) ''Internal error: Unknown tool: no-such-tool'' JUndefined),
        [])"
  using notifications_by_method_only
      [of "[(''jsonrpc'', JStr ''2.0''), (''method'', JStr ''notifications/initialized'')]"
          env0 api_ok "[]"]
    notifications_by_method_only
      [of "[(''jsonrpc'', JStr ''2.0''), (''method'', JStr ''notifications/cancelled'')]"
          env0 api_ok "[]"]
    notifications_by_method_only
      [of "[(''jsonrpc'', JStr ''2.0''), (''method'', JObj [(''toString'', JNull)])]"
          env0 api_ok "[]"]
    notifications_by_method_only
      [of "[(''jsonrpc'', JStr ''2.0''), (''method'', JStr ''tools/call''),
            (''params'', tool_params ''no-such-tool'' (JObj []))]"
          env0 api_ok "[]" "Error ''Unknown tool: no-such-tool''" "[]"]
  by (simp add: known_methods_def tool_params_dispatch)

text \<open>
  C7 as stated fails: the envelope \<^verbatim>\<open>{"jsonrpc":"2.0","method":"bogus/method"}\<close> has no
  id, and the server answers it with an error response (status 404, code \<open>-32601\<close>).
\<close>

theorem notification_error_counterexample:
  "handleJsonRpcRequest env0 api_ok
      (JObj [(''jsonrpc'', JStr ''2.0''), (''method'', JStr ''bogus/method'')]) [] =
     (\<lparr>status = 404,
       body = Some (JObj [(''jsonrpc'', JStr ''2.0''),
                          (''error'', JObj [(''code'', JNum (- 32601)),
                                            (''message'', JStr ''Method not found: bogus/method'')]),
                          (''id'', JUndefined)])\<rparr>, [])"
  by (simp add: handleJsonRpcRequest_def rpc_dispatch_object res_json_def)

subsection \<open>Creating a project\<close>

lemma zparse_string_ok: "zparse ZString p (JStr s) = Inr (JStr s)"
  by simp

lemma zparse_optional_string_ok: "opt_string v \<Longrightarrow> zparse (ZOptional ZString) p v = Inr v"
  by (cases v) simp_all

lemma zparse_enum_ok: "s \<in> set vs \<Longrightarrow> zparse (ZEnum vs) p (JStr s) = Inr (JStr s)"
  by simp

lemma http_create_project_run:
  "zod_parse http_createProjectSchema args = Inr projectData \<Longrightarrow>
   api log (login_call env) = Inr r \<Longrightarrow>
   http_create_project env api args log =
     (case api (log @ [login_call env]) (http_project_call projectData) of
        Inl m \<Rightarrow> Inl (Error m)
      | Inr project \<Rightarrow>
          Inr [TextContent (''Project created successfully: '' @ JSON_stringify 3 project)],
      log @ [login_call env, http_project_call projectData])"
  by (simp add: http_create_project_def http_project_call_def bind_createAuthenticatedSdk
        bind_await split: sum.splits)

lemma stdio_create_project_run:
  "zod_parse stdio_createProjectSchema args = Inr data \<Longrightarrow>
   stdio_create_project api args s =
     (case api (calls s) (stdio_project_call data) of
        Inl m \<Rightarrow> Inl (Error m)
      | Inr project \<Rightarrow>
          Inr [TextContent (''Project created successfully: '' @ JSON_stringify 3 project)],
      s\<lparr>calls := calls s @ [stdio_project_call data]\<rparr>)"
  by (simp add: stdio_create_project_def stdio_project_call_def bind_sdk_await split: sum.splits)

lemma http_project_valid:
  assumes "js_get (JObj kvs) ''projectName'' = JStr n"
    and "opt_string (js_get (JObj kvs) ''workspaceSlug'')"
    and "opt_string (js_get (JObj kvs) ''organizationId'')"
  shows "\<exists>projectData. zod_parse http_createProjectSchema (JObj kvs) = Inr projectData
           \<and> js_get projectData ''projectName'' = JStr n
           \<and> js_get projectData ''workspaceSlug'' = js_get (JObj kvs) ''workspaceSlug''
           \<and> js_get projectData ''organizationId'' = js_get (JObj kvs) ''organizationId''"
proof -
  let ?shape = "[(''projectName'', ZString), (''workspaceSlug'', ZOptional ZString),
                 (''organizationId'', ZOptional ZString)]"
  have ok: "\<forall>(k, t) \<in> set ?shape. \<exists>y. zparse t [Key k] (js_get (JObj kvs) k) = Inr y"
    using assms by (simp add: zparse_optional_string_ok zparse_string_ok del: js_get.simps zparse.simps)
  from zod_parse_ok [OF ok] obtain projectData
    where d: "zod_parse (ZObject ?shape) (JObj kvs) = Inr projectData" by blast
  have f: "zparse t [Key k] (js_get (JObj kvs) k) = Inr (js_get projectData k)"
    if "(k, t) \<in> set ?shape" for k t
    using zod_parse_field [OF d _ that] by simp
  have "js_get projectData ''projectName'' = JStr n"
    using f [of "''projectName''" ZString] assms(1) by (simp add: zparse_string_ok del: js_get.simps zparse.simps)
  moreover have "js_get projectData ''workspaceSlug'' = js_get (JObj kvs) ''workspaceSlug''"
    using f [of "''workspaceSlug''" "ZOptional ZString"] assms(2)
    by (simp add: zparse_optional_string_ok zparse_string_ok del: js_get.simps zparse.simps)
  moreover have "js_get projectData ''organizationId'' = js_get (JObj kvs) ''organizationId''"
    using f [of "''organizationId''" "ZOptional ZString"] assms(3)
    by (simp add: zparse_optional_string_ok zparse_string_ok del: js_get.simps zparse.simps)
  ultimately show ?thesis using d by (auto simp: http_createProjectSchema_def)
qed

lemma stdio_project_valid:
  assumes "js_get (JObj kvs) ''projectName'' = JStr n"
    and "js_get (JObj kvs) ''type'' = JStr ty" and "ty \<in> set project_types"
    and "opt_string (js_get (JObj kvs) ''description'')"
    and "opt_string (js_get (JObj kvs) ''slug'')"
    and "opt_string (js_get (JObj kvs) ''projectTemplate'')"
    and "opt_string (js_get (JObj kvs) ''kmsKeyId'')"
  shows "\<exists>data. zod_parse stdio_createProjectSchema (JObj kvs) = Inr data
           \<and> js_get data ''projectName'' = JStr n
           \<and> js_get data ''type'' = JStr ty
           \<and> js_get data ''description'' = js_get (JObj kvs) ''description''
           \<and> js_get data ''slug'' = js_get (JObj kvs) ''slug''
           \<and> js_get data ''projectTemplate'' = js_get (JObj kvs) ''projectTemplate''
           \<and> js_get data ''kmsKeyId'' = js_get (JObj kvs) ''kmsKeyId''"
proof -
  let ?shape = "[(''projectName'', ZString),
                 (''type'', ZEnum [''secret-manager'', ''cert-manager'', ''kms'', ''ssh'']),
                 (''description'', ZOptional ZString),
                 (''slug'', ZOptional ZString),
                 (''projectTemplate'', ZOptional ZString),
                 (''kmsKeyId'', ZOptional ZString)]"
  have ty: "zparse (ZEnum [''secret-manager'', ''cert-manager'', ''kms'', ''ssh'']) p (JStr ty)
              = Inr (JStr ty)" for p
    using assms(3) by (intro zparse_enum_ok) (simp add: project_types_def)
  have ok: "\<forall>(k, t) \<in> set ?shape. \<exists>y. zparse t [Key k] (js_get (JObj kvs) k) = Inr y"
    using assms ty by (simp add: zparse_optional_string_ok zparse_string_ok del: js_get.simps zparse.simps)
  from zod_parse_ok [OF ok] obtain data
    where d: "zod_parse (ZObject ?shape) (JObj kvs) = Inr data" by blast
  have f: "zparse t [Key k] (js_get (JObj kvs) k) = Inr (js_get data k)"
    if "(k, t) \<in> set ?shape" for k t
    using zod_parse_field [OF d _ that] by simp
  have "js_get data ''projectName'' = JStr n"
    using f [of "''projectName''" ZString] assms(1) by (simp add: zparse_string_ok del: js_get.simps zparse.simps)
  moreover have "js_get data ''type'' = JStr ty"
    using f [of "''type''" "ZEnum [''secret-manager'', ''cert-manager'', ''kms'', ''ssh'']"]
      assms(2) ty by (simp del: js_get.simps zparse.simps)
  moreover have "js_get data k = js_get (JObj kvs) k"
    if "k \<in> {''description'', ''slug'', ''projectTemplate'', ''kmsKeyId''}" for k
    using f [of k "ZOptional ZString"] assms(4-7) that
    by (auto simp add: zparse_optional_string_ok simp del: js_get.simps zparse.simps)
  ultimately show ?thesis using d by (auto simp: stdio_createProjectSchema_def)
qed

lemma call_tool_create_project:
  "authentication_ok env api s \<Longrightarrow>
   call_tool env api (tool_params ''create-project'' args) s =
     (case stdio_create_project api args (authenticated_state env s) of
        (Inl e, s') \<Rightarrow> (Inl (rethrow e), s') | (Inr x, s') \<Rightarrow> (Inr x, s'))"
  by (simp add: call_tool_rethrow call_tool_body_dispatch [OF handleAuthentication_ok])

text \<open>
  C5, as the code has it. The HTTP variant's \<^verbatim>\<open>create-project\<close> requires \<^verbatim>\<open>projectName\<close>
  only; the stdio variant's requires \<^verbatim>\<open>projectName\<close> and \<^verbatim>\<open>type\<close>, and rejects a call
  without \<^verbatim>\<open>type\<close> naming that field. A call with a string \<^verbatim>\<open>projectName\<close> (and, in the
  stdio variant, a \<^verbatim>\<open>type\<close> among the four project types), whose other declared fields
  are absent or strings, passes validation, and once the credential exchange has
  succeeded the remote \<^verbatim>\<open>projects().create\<close> is called with these arguments.
\<close>

theorem create_project_required_fields:
  "required_keys http_createProjectSchema = [''projectName'']
   \<and> required_keys stdio_createProjectSchema = [''projectName'', ''type'']
   \<and> (map_of kvs ''type'' = None \<longrightarrow>
        (\<exists>issues. zod_parse stdio_createProjectSchema (JObj kvs) = Inl (ZodError issues)
           \<and> names_field ''type'' issues))
   \<and> (js_get (JObj kvs) ''projectName'' = JStr n
        \<and> opt_string (js_get (JObj kvs) ''workspaceSlug'')
        \<and> opt_string (js_get (JObj kvs) ''organizationId'')
        \<and> api log (login_call env) = Inr r \<longrightarrow>
        (\<exists>projectData.
           zod_parse http_createProjectSchema (JObj kvs) = Inr projectData
           \<and> http_project_call projectData =
               (projects_create,
                [JObj [(''name'', JStr n),
                       (''workspaceSlug'', js_get (JObj kvs) ''workspaceSlug''),
                       (''organizationId'', js_get (JObj kvs) ''organizationId'')]])
           \<and> handleToolCall env api (tool_params ''create-project'' (JObj kvs)) log =
               (case api (log @ [login_call env]) (http_project_call projectData) of
                  Inl m \<Rightarrow> Inl (Error m)
                | Inr project \<Rightarrow>
                    Inr [TextContent (''Project created successfully: ''
                           @ JSON_stringify 3 project)],
                log @ [login_call env, http_project_call projectData])))
   \<and> (js_get (JObj kvs) ''projectName'' = JStr n
        \<and> js_get (JObj kvs) ''type'' = JStr ty \<and> ty \<in> set project_types
        \<and> opt_string (js_get (JObj kvs) ''description'')
        \<and> opt_string (js_get (JObj kvs) ''slug'')
        \<and> opt_string (js_get (JObj kvs) ''projectTemplate'')
        \<and> opt_string (js_get (JObj kvs) ''kmsKeyId'')
        \<and> authentication_ok env api s \<longrightarrow>
        (\<exists>data.
           zod_parse stdio_createProjectSchema (JObj kvs) = Inr data
           \<and> stdio_project_call data =
               (projects_create,
                [JObj [(''projectName'', JStr n),
                       (''projectDescription'', js_get (JObj kvs) ''description''),
                       (''kmsKeyId'', js_get (JObj kvs) ''kmsKeyId''),
                       (''slug'', js_get (JObj kvs) ''slug''),
                       (''template'', js_get (JObj kvs) ''projectTemplate''),
                       (''type'', JStr ty)]])
           \<and> call_tool env api (tool_params ''create-project'' (JObj kvs)) s =
               (case api (calls (authenticated_state env s)) (stdio_project_call data) of
                  Inl m \<Rightarrow> Inl (Error m)
                | Inr project \<Rightarrow>
                    Inr [TextContent (''Project created successfully: ''
                           @ JSON_stringify 3 project)],
                (authenticated_state env s)
                  \<lparr>calls := calls (authenticated_state env s) @ [stdio_project_call data]\<rparr>)))"
proof (intro conjI impI)
  show "required_keys http_createProjectSchema = [''projectName'']"
    by (simp add: http_createProjectSchema_def)
  show "required_keys stdio_createProjectSchema = [''projectName'', ''type'']"
    by (simp add: stdio_createProjectSchema_def)
  show "\<exists>issues. zod_parse stdio_createProjectSchema (JObj kvs) = Inl (ZodError issues)
           \<and> names_field ''type'' issues" if "map_of kvs ''type'' = None"
    by (rule required_missing [OF _ that]) (simp add: stdio_createProjectSchema_def)
next
  assume a: "js_get (JObj kvs) ''projectName'' = JStr n
        \<and> opt_string (js_get (JObj kvs) ''workspaceSlug'')
        \<and> opt_string (js_get (JObj kvs) ''organizationId'')
        \<and> api log (login_call env) = Inr r"
  then obtain projectData where d: "zod_parse http_createProjectSchema (JObj kvs) = Inr projectData"
    "js_get projectData ''projectName'' = JStr n"
    "js_get projectData ''workspaceSlug'' = js_get (JObj kvs) ''workspaceSlug''"
    "js_get projectData ''organizationId'' = js_get (JObj kvs) ''organizationId''"
    using http_project_valid [of kvs n] by blast
  from a have login: "api log (login_call env) = Inr r" by simp
  show "\<exists>projectData.
           zod_parse http_createProjectSchema (JObj kvs) = Inr projectData
           \<and> http_project_call projectData =
               (projects_create,
                [JObj [(''name'', JStr n),
                       (''workspaceSlug'', js_get (JObj kvs) ''workspaceSlug''),
                       (''organizationId'', js_get (JObj kvs) ''organizationId'')]])
           \<and> handleToolCall env api (tool_params ''create-project'' (JObj kvs)) log =
               (case api (log @ [login_call env]) (http_project_call projectData) of
                  Inl m \<Rightarrow> Inl (Error m)
                | Inr project \<Rightarrow>
                    Inr [TextContent (''Project created successfully: ''
                           @ JSON_stringify 3 project)],
                log @ [login_call env, http_project_call projectData])"
    using d http_create_project_run [of "JObj kvs" projectData api log env r, OF d(1) login]
    by (intro exI [of _ projectData])
       (simp add: tool_params_dispatch http_project_call_def del: js_get.simps)
next
  assume a: "js_get (JObj kvs) ''projectName'' = JStr n
        \<and> js_get (JObj kvs) ''type'' = JStr ty \<and> ty \<in> set project_types
        \<and> opt_string (js_get (JObj kvs) ''description'')
        \<and> opt_string (js_get (JObj kvs) ''slug'')
        \<and> opt_string (js_get (JObj kvs) ''projectTemplate'')
        \<and> opt_string (js_get (JObj kvs) ''kmsKeyId'')
        \<and> authentication_ok env api s"
  then obtain data where d: "zod_parse stdio_createProjectSchema (JObj kvs) = Inr data"
    "js_get data ''projectName'' = JStr n" "js_get data ''type'' = JStr ty"
    "js_get data ''description'' = js_get (JObj kvs) ''description''"
    "js_get data ''slug'' = js_get (JObj kvs) ''slug''"
    "js_get data ''projectTemplate'' = js_get (JObj kvs) ''projectTemplate''"
    "js_get data ''kmsKeyId'' = js_get (JObj kvs) ''kmsKeyId''"
    using stdio_project_valid [of kvs n ty] by blast
  from a have auth: "authentication_ok env api s" by simp
  show "\<exists>data.
           zod_parse stdio_createProjectSchema (JObj kvs) = Inr data
           \<and> stdio_project_call data =
               (projects_create,
                [JObj [(''projectName'', JStr n),
                       (''projectDescription'', js_get (JObj kvs) ''description''),
                       (''kmsKeyId'', js_get (JObj kvs) ''kmsKeyId''),
                       (''slug'', js_get (JObj kvs) ''slug''),
                       (''template'', js_get (JObj kvs) ''projectTemplate''),
                       (''type'', JStr ty)]])
           \<and> call_tool env api (tool_params ''create-project'' (JObj kvs)) s =
               (case api (calls (authenticated_state env s)) (stdio_project_call data) of
                  Inl m \<Rightarrow> Inl (Error m)
                | Inr project \<Rightarrow>
                    Inr [TextContent (''Project created successfully: ''
                           @ JSON_stringify 3 project)],
                (authenticated_state env s)
                  \<lparr>calls := calls (authenticated_state env s) @ [stdio_project_call data]\<rparr>)"
    using d stdio_create_project_run [OF d(1)]
    by (intro exI [of _ data])
       (simp add: call_tool_create_project [OF auth] stdio_project_call_def rethrow_def
          split: sum.splits del: js_get.simps)
qed

theorem create_project_required_fields_witness:
  "(\<exists>issues. zod_parse stdio_createProjectSchema (JObj project_args) = Inl (ZodError issues)
       \<and> names_field ''type'' issues)
   \<and> (\<exists>projectData.
        http_project_call projectData =
          (projects_create,
           [JObj [(''name'', JStr ''demo''), (''workspaceSlug'', JUndefined),
                  (''organizationId'', JUndefined)]])
        \<and> handleToolCall env0 api_ok (tool_params ''create-project'' (JObj project_args)) [] =
            (Inr [TextContent ''Project created successfully: {}''],
             [login_call env0, http_project_call projectData]))
   \<and> (\<exists>data.
        stdio_project_call data =
          (projects_create,
           [JObj [(''projectName'', JStr ''demo''), (''projectDescription'', JUndefined),
                  (''kmsKeyId'', JUndefined), (''slug'', JUndefined), (''template'', JUndefined),
                  (''type'', JStr ''kms'')]])
        \<and> call_tool env0 api_ok (tool_params ''create-project'' (JObj typed_project_args))
             initial_state =
            (Inr [TextContent ''Project created successfully: {}''],
             \<lparr>isAuthenticated = True, calls = [login_call env0, stdio_project_call data]\<rparr>))"
proof -
  have auth: "authentication_ok env0 api_ok initial_state"
    by (simp add: authentication_ok_def api_ok_def)
  have empty_object: "JSON_stringify 3 (JObj []) = ''{}''"
    by (simp add: JSON_stringify_def wrap_members_def)
  show ?thesis
    using create_project_required_fields
            [where kvs = project_args and n = "''demo''" and log = "[]" and env = env0
               and api = api_ok and r = "JObj []" and ty = "''kms''" and s = initial_state]
      create_project_required_fields
            [where kvs = typed_project_args and n = "''demo''" and log = "[]" and env = env0
               and api = api_ok and r = "JObj []" and ty = "''kms''" and s = initial_state]
      auth
    by (auto simp: project_args_def typed_project_args_def project_types_def api_ok_def empty_object
          authenticated_state_def initial_state_def)
qed

text \<open>
  C5 as stated fails in the stdio variant: a \<^verbatim>\<open>create-project\<close> call with a string
  \<^verbatim>\<open>projectName\<close> and no \<^verbatim>\<open>type\<close> is rejected by validation, and the only remote call
  made is the login.
\<close>

theorem create_project_type_counterexample:
  "call_tool env0 api_ok (tool_params ''create-project'' (JObj [(''projectName'', JStr ''demo'')]))
      initial_state =
     (Inl (Error ''Invalid arguments: type: Required''),
      \<lparr>isAuthenticated = True, calls = [login_call env0]\<rparr>)"
proof -
  have auth: "authentication_ok env0 api_ok initial_state"
    by (simp add: authentication_ok_def api_ok_def)
  have "zod_parse stdio_createProjectSchema (JObj [(''projectName'', JStr ''demo'')]) =
          Inl (ZodError [enum_invalid_type [''secret-manager'', ''cert-manager'', ''kms'', ''ssh'']
                           JUndefined [Key ''type'']])"
    by (simp add: zod_parse_def stdio_createProjectSchema_def)
  then have "call_tool env0 api_ok
      (tool_params ''create-project'' (JObj [(''projectName'', JStr ''demo'')])) initial_state =
     (Inl (Error ''Invalid arguments: type: Required''), authenticated_state env0 initial_state)"
    by (simp add: call_tool_create_project [OF auth] stdio_invalid rethrow_def
          invalid_arguments_def issue_line_def)
  then show ?thesis
    by (simp add: authenticated_state_def initial_state_def)
qed

subsection \<open>Defaults\<close>

lemma zparse_fields_cong:
  "(\<And>k t. (k, t) \<in> set shape \<Longrightarrow>
      zparse t (p @ [Key k]) (js_get v k) = zparse t (p @ [Key k]) (js_get v' k)) \<Longrightarrow>
   zparse_fields shape p v = zparse_fields shape p v'"
  by (induction shape) (auto split: sum.splits)

lemma zparse_default: "is_default_of d t \<Longrightarrow> zparse t p JUndefined = zparse t p d"
  by (cases t) auto

lemma omit_default:
  assumes "default_or_absent k d S" and "map_of kvs k = None"
    and "map_of kvs' = (map_of kvs)(k \<mapsto> d)"
  shows "zod_parse S (JObj kvs) = zod_parse S (JObj kvs')"
proof (cases S)
  case (ZObject shape)
  have "zparse t' ([] @ [Key k']) (js_get (JObj kvs) k') = zparse t' ([] @ [Key k']) (js_get (JObj kvs') k')"
    if "(k', t') \<in> set shape" for k' t'
  proof (cases "k' = k")
    case True
    with that assms(1) have "is_default_of d t'" by (auto simp: ZObject list_all_iff)
    then show ?thesis using assms(2,3) True by (simp add: zparse_default)
  next
    case False
    then show ?thesis using assms(3) by simp
  qed
  then have "zparse_fields shape [] (JObj kvs) = zparse_fields shape [] (JObj kvs')"
    by (rule zparse_fields_cong)
  then show ?thesis by (simp add: zod_parse_def ZObject)
qed (use assms(1) in simp_all)

lemma declares_default_omit:
  "declares_default k d S \<Longrightarrow> map_of kvs k = None \<Longrightarrow> map_of kvs' = (map_of kvs)(k \<mapsto> d) \<Longrightarrow>
   zod_parse S (JObj kvs) = zod_parse S (JObj kvs')"
  by (cases S) (auto intro: omit_default)

lemma secretPath_default_or_absent:
  "\<forall>S\<in>set (http_schemas @ stdio_schemas). default_or_absent ''secretPath'' (JStr ''/'') S"
  by (simp add: http_schemas_def stdio_schemas_def
        http_createSecretSchema_def http_deleteSecretSchema_def http_updateSecretSchema_def
        http_listSecretsSchema_def http_getSecretSchema_def http_createProjectSchema_def
        http_listProjectsSchema_def http_createEnvironmentSchema_def http_createFolderSchema_def
        http_inviteMembersToProjectSchema_def
        stdio_createSecretSchema_def stdio_deleteSecretSchema_def stdio_updateSecretSchema_def
        stdio_listSecretsSchema_def stdio_getSecretSchema_def stdio_createProjectSchema_def
        stdio_createEnvironmentSchema_def stdio_createFolderSchema_def
        stdio_inviteMembersToProjectSchema_def)

lemma secretPath_schemas:
  "filter (declares_default ''secretPath'' (JStr ''/'')) http_schemas =
     [http_createSecretSchema, http_deleteSecretSchema, http_updateSecretSchema,
      http_listSecretsSchema, http_getSecretSchema, http_createFolderSchema]"
  "filter (declares_default ''secretPath'' (JStr ''/'')) stdio_schemas =
     [stdio_createSecretSchema, stdio_deleteSecretSchema, stdio_updateSecretSchema,
      stdio_listSecretsSchema, stdio_getSecretSchema]"
  by (simp_all add: http_schemas_def stdio_schemas_def
        http_createSecretSchema_def http_deleteSecretSchema_def http_updateSecretSchema_def
        http_listSecretsSchema_def http_getSecretSchema_def http_createProjectSchema_def
        http_listProjectsSchema_def http_createEnvironmentSchema_def http_createFolderSchema_def
        http_inviteMembersToProjectSchema_def
        stdio_createSecretSchema_def stdio_deleteSecretSchema_def stdio_updateSecretSchema_def
        stdio_listSecretsSchema_def stdio_getSecretSchema_def stdio_createProjectSchema_def
        stdio_createEnvironmentSchema_def stdio_createFolderSchema_def
        stdio_inviteMembersToProjectSchema_def)

lemma same_parse:
  assumes "map_of kvs ''secretPath'' = None"
    and "map_of kvs' = (map_of kvs)(''secretPath'' \<mapsto> JStr ''/'')"
    and "S \<in> set (http_schemas @ stdio_schemas)"
  shows "zod_parse S (JObj kvs) = zod_parse S (JObj kvs')"
  using omit_default [OF _ assms(1,2)] secretPath_default_or_absent assms(3) by blast

lemma same_http_call:
  assumes "map_of kvs ''secretPath'' = None"
    and "map_of kvs' = (map_of kvs)(''secretPath'' \<mapsto> JStr ''/'')"
  shows "handleToolCall env api (tool_params n (JObj kvs)) log
           = handleToolCall env api (tool_params n (JObj kvs')) log"
proof -
  have "zod_parse S (JObj kvs) = zod_parse S (JObj kvs')" if "S \<in> set http_schemas" for S
    using same_parse [OF assms, of S] that by simp
  then show ?thesis
    by (simp add: tool_params_dispatch http_schemas_def
          http_create_secret_def http_delete_secret_def http_update_secret_def
          http_list_secrets_def http_get_secret_def http_create_project_def
          http_create_environment_def http_create_folder_def http_invite_members_to_project_def)
qed

lemma same_stdio_call:
  assumes "map_of kvs ''secretPath'' = None"
    and "map_of kvs' = (map_of kvs)(''secretPath'' \<mapsto> JStr ''/'')"
  shows "call_tool env api (tool_params n (JObj kvs)) s
           = call_tool env api (tool_params n (JObj kvs')) s"
proof -
  have "zod_parse S (JObj kvs) = zod_parse S (JObj kvs')" if "S \<in> set stdio_schemas" for S
    using same_parse [OF assms, of S] that by simp
  then have branches: "stdio_create_secret api (JObj kvs) = stdio_create_secret api (JObj kvs')"
    "stdio_delete_secret api (JObj kvs) = stdio_delete_secret api (JObj kvs')"
    "stdio_update_secret api (JObj kvs) = stdio_update_secret api (JObj kvs')"
    "stdio_list_secrets api (JObj kvs) = stdio_list_secrets api (JObj kvs')"
    "stdio_get_secret api (JObj kvs) = stdio_get_secret api (JObj kvs')"
    "stdio_create_project api (JObj kvs) = stdio_create_project api (JObj kvs')"
    "stdio_create_environment api (JObj kvs) = stdio_create_environment api (JObj kvs')"
    "stdio_create_folder api (JObj kvs) = stdio_create_folder api (JObj kvs')"
    "stdio_invite_members_to_project api (JObj kvs) = stdio_invite_members_to_project api (JObj kvs')"
    by (simp_all add: stdio_schemas_def
          stdio_create_secret_def stdio_delete_secret_def stdio_update_secret_def
          stdio_list_secrets_def stdio_get_secret_def stdio_create_project_def
          stdio_create_environment_def stdio_create_folder_def stdio_invite_members_to_project_def)
  have "call_tool_body env api (tool_params n (JObj kvs)) s
           = call_tool_body env api (tool_params n (JObj kvs')) s"
  proof (cases "handleAuthentication env api s")
    case (Pair r s1)
    show ?thesis
    proof (cases r)
      case (Inl e)
      with Pair show ?thesis by (simp add: call_tool_body_def bind_handleAuthentication)
    next
      case (Inr u)
      with Pair have "handleAuthentication env api s = (Inr (), s1)" by simp
      then show ?thesis by (simp add: call_tool_body_dispatch branches)
    qed
  qed
  then show ?thesis by (simp add: call_tool_rethrow)
qed

text \<open>
  C6. Six schemas of the HTTP variant and five of the stdio variant declare the default
  \<^verbatim>\<open>"/"\<close> for \<^verbatim>\<open>secretPath\<close>. For every schema that declares it, arguments without
  \<^verbatim>\<open>secretPath\<close> validate to exactly what the same arguments with \<^verbatim>\<open>secretPath = "/"\<close>
  validate to; hence a tool call without \<^verbatim>\<open>secretPath\<close> has the same outcome as the call
  with \<^verbatim>\<open>secretPath = "/"\<close>: the same result and the same remote calls with the same
  parameters, in both variants.
\<close>

theorem omitted_secretPath_is_root:
  assumes "map_of kvs ''secretPath'' = None"
    and "map_of kvs' = (map_of kvs)(''secretPath'' \<mapsto> JStr ''/'')"
  shows "filter (declares_default ''secretPath'' (JStr ''/'')) http_schemas =
           [http_createSecretSchema, http_deleteSecretSchema, http_updateSecretSchema,
            http_listSecretsSchema, http_getSecretSchema, http_createFolderSchema]
       \<and> filter (declares_default ''secretPath'' (JStr ''/'')) stdio_schemas =
           [stdio_createSecretSchema, stdio_deleteSecretSchema, stdio_updateSecretSchema,
            stdio_listSecretsSchema, stdio_getSecretSchema]
       \<and> (declares_default ''secretPath'' (JStr ''/'') S \<longrightarrow>
            zod_parse S (JObj kvs) = zod_parse S (JObj kvs'))
       \<and> handleToolCall env api (tool_params n (JObj kvs)) log
            = handleToolCall env api (tool_params n (JObj kvs')) log
       \<and> call_tool env api (tool_params n (JObj kvs)) s
            = call_tool env api (tool_params n (JObj kvs')) s"
  using secretPath_schemas declares_default_omit [OF _ assms, of S]
    same_http_call [OF assms, of env api n log] same_stdio_call [OF assms, of env api n s]
  by simp

theorem omitted_secretPath_is_root_witness:
  "zod_parse http_createSecretSchema (JObj secret_args)
     = Inr (JObj (secret_args @ [(''secretPath'', JStr ''/'')]))
   \<and> zod_parse http_createSecretSchema (JObj ((''secretPath'', JStr ''/'') # secret_args))
     = Inr (JObj (secret_args @ [(''secretPath'', JStr ''/'')]))
   \<and> handleToolCall env0 api_ok (tool_params ''create-secret'' (JObj secret_args)) []
     = handleToolCall env0 api_ok
         (tool_params ''create-secret'' (JObj ((''secretPath'', JStr ''/'') # secret_args))) []
   \<and> snd (call_tool env0 api_ok
             (tool_params ''create-secret'' (JObj ((''secretPath'', JStr ''/'') # secret_args)))
             initial_state)
     = \<lparr>isAuthenticated = True,
        calls = [login_call env0,
                 (secrets_createSecret,
                  [JStr ''DB_URL'',
                   JObj [(''environment'', JStr ''dev''), (''projectId'', JStr ''p1''),
                         (''secretPath'', JStr ''/''), (''secretValue'', JStr ''postgres'')]])]\<rparr>"
proof -
  have 1: "map_of secret_args ''secretPath'' = None" by (simp add: secret_args_def)
  have 2: "map_of ((''secretPath'', JStr ''/'') # secret_args)
             = (map_of secret_args)(''secretPath'' \<mapsto> JStr ''/'')" by simp
  have 3: "zod_parse http_createSecretSchema (JObj secret_args)
             = Inr (JObj (secret_args @ [(''secretPath'', JStr ''/'')]))"
    by (simp add: zod_parse_def http_createSecretSchema_def secret_args_def)
  have 4: "declares_default ''secretPath'' (JStr ''/'') http_createSecretSchema"
    by (simp add: http_createSecretSchema_def)
  have 5: "snd (call_tool env0 api_ok (tool_params ''create-secret'' (JObj secret_args)) initial_state)
     = \<lparr>isAuthenticated = True,
        calls = [login_call env0,
                 (secrets_createSecret,
                  [JStr ''DB_URL'',
                   JObj [(''environment'', JStr ''dev''), (''projectId'', JStr ''p1''),
                         (''secretPath'', JStr ''/''), (''secretValue'', JStr ''postgres'')]])]\<rparr>"
  proof -
    have auth: "authentication_ok env0 api_ok initial_state"
      by (simp add: authentication_ok_def api_ok_def)
    show ?thesis
      by (simp add: call_tool_rethrow call_tool_body_dispatch [OF handleAuthentication_ok [OF auth]])
         (simp add: authenticated_state_def
          initial_state_def bind_sdk_await api_ok_def stdio_create_secret_def zod_parse_def
          stdio_createSecretSchema_def secret_args_def nullish_coalesce_def destructure_def)
  qed
  show ?thesis
    using omitted_secretPath_is_root [OF 1 2, of http_createSecretSchema env0 api_ok
        "''create-secret''" "[]" initial_state] 3 4 5
    by simp
qed

subsection \<open>The authentication flag\<close>

lemma quietI:
  "(\<And>s. isAuthenticated s \<Longrightarrow> \<exists>cs. snd (m s) = s\<lparr>calls := calls s @ cs\<rparr> \<and> login_free cs) \<Longrightarrow>
   quiet m"
  by (simp add: quiet_def)

lemma quietD:
  "quiet m \<Longrightarrow> isAuthenticated s \<Longrightarrow>
   \<exists>cs. snd (m s) = s\<lparr>calls := calls s @ cs\<rparr> \<and> login_free cs"
  by (simp add: quiet_def)

lemma same_state: "(s :: stdio_state) = s\<lparr>calls := calls s @ []\<rparr>"
  by simp

lemma quiet_ret: "quiet (ret x)"
  by (rule quietI) (auto simp: login_free_def intro: exI [of _ "[]"])

lemma quiet_throw: "quiet (throw e)"
  by (rule quietI) (auto simp: login_free_def intro: exI [of _ "[]"])

lemma quiet_lift: "quiet (lift r)"
  by (rule quietI) (auto simp: login_free_def lift_def intro: exI [of _ "[]"])

lemma quiet_sdk_await: "op \<noteq> universalAuth_login \<Longrightarrow> quiet (sdk_await api (op, args))"
  by (rule quietI) (auto simp: login_free_def sdk_await_def intro: exI [of _ "[(op, args)]"])

lemma quiet_bind:
  assumes "quiet m" and "\<And>x. quiet (f x)"
  shows "quiet (bind m f)"
proof (rule quietI)
  fix s :: stdio_state
  assume auth: "isAuthenticated s"
  from quietD [OF assms(1) auth] obtain cs
    where cs: "snd (m s) = s\<lparr>calls := calls s @ cs\<rparr>" "login_free cs" by blast
  show "\<exists>cs. snd (bind m f s) = s\<lparr>calls := calls s @ cs\<rparr> \<and> login_free cs"
  proof (cases "m s")
    case (Pair r s')
    with cs have s': "s' = s\<lparr>calls := calls s @ cs\<rparr>" by simp
    show ?thesis
    proof (cases r)
      case (Inl e)
      with Pair cs show ?thesis by (auto simp: bind_def)
    next
      case (Inr x)
      from s' auth have "isAuthenticated s'" by simp
      from quietD [OF assms(2) this, of x] obtain ds
        where ds: "snd (f x s') = s'\<lparr>calls := calls s' @ ds\<rparr>" "login_free ds" by blast
      have "snd (bind m f s) = s\<lparr>calls := calls s @ (cs @ ds)\<rparr>"
        using Pair Inr ds(1) s' by (simp add: bind_def)
      moreover have "login_free (cs @ ds)" using cs(2) ds(2) by (simp add: login_free_def)
      ultimately show ?thesis by blast
    qed
  qed
qed

lemma quiet_catch:
  assumes "quiet m" and "\<And>e. quiet (h e)"
  shows "quiet (catch m h)"
proof (rule quietI)
  fix s :: stdio_state
  assume auth: "isAuthenticated s"
  from quietD [OF assms(1) auth] obtain cs
    where cs: "snd (m s) = s\<lparr>calls := calls s @ cs\<rparr>" "login_free cs" by blast
  show "\<exists>cs. snd (catch m h s) = s\<lparr>calls := calls s @ cs\<rparr> \<and> login_free cs"
  proof (cases "m s")
    case (Pair r s')
    with cs have s': "s' = s\<lparr>calls := calls s @ cs\<rparr>" by simp
    show ?thesis
    proof (cases r)
      case (Inr x)
      with Pair cs show ?thesis by (auto simp: catch_def)
    next
      case (Inl e)
      from s' auth have "isAuthenticated s'" by simp
      from quietD [OF assms(2) this, of e] obtain ds
        where ds: "snd (h e s') = s'\<lparr>calls := calls s' @ ds\<rparr>" "login_free ds" by blast
      have "snd (catch m h s) = s\<lparr>calls := calls s @ (cs @ ds)\<rparr>"
        using Pair Inl ds(1) s' by (simp add: catch_def)
      moreover have "login_free (cs @ ds)" using cs(2) ds(2) by (simp add: login_free_def)
      ultimately show ?thesis by blast
    qed
  qed
qed

lemma quiet_if: "quiet a \<Longrightarrow> quiet b \<Longrightarrow> quiet (if c then a else b)"
  by simp

lemma quiet_handleAuthentication: "quiet (handleAuthentication env api)"
  by (rule quietI) (auto simp: handleAuthentication_def login_free_def intro: exI [of _ "[]"])

lemma quiet_branches:
  "quiet (stdio_create_secret api args)"
  "quiet (stdio_delete_secret api args)"
  "quiet (stdio_update_secret api args)"
  "quiet (stdio_list_secrets api args)"
  "quiet (stdio_get_secret api args)"
  "quiet (stdio_create_project api args)"
  "quiet (stdio_create_environment api args)"
  "quiet (stdio_create_folder api args)"
  "quiet (stdio_invite_members_to_project api args)"
  unfolding stdio_create_secret_def stdio_delete_secret_def stdio_update_secret_def
    stdio_list_secrets_def stdio_get_secret_def stdio_create_project_def
    stdio_create_environment_def stdio_create_folder_def stdio_invite_members_to_project_def
  by (intro quiet_bind quiet_lift quiet_ret quiet_sdk_await; simp)+

lemma quiet_call_tool: "quiet (call_tool env api params)"
  unfolding call_tool_def call_tool_body_def
  by (intro quiet_catch quiet_bind quiet_handleAuthentication quiet_lift quiet_if
        quiet_branches quiet_throw)
     (auto split: js_error.splits intro: quiet_throw)

lemma quiet_stdio_handle: "quiet (stdio_handle env api r)"
  by (cases r) (auto simp: list_tools_def intro!: quiet_call_tool quiet_ret quiet_bind)

lemma quiet_run:
  "isAuthenticated s \<Longrightarrow>
   \<exists>cs. stdio_run env api rs s = s\<lparr>calls := calls s @ cs\<rparr> \<and> login_free cs"
proof (induction rs arbitrary: s)
  case Nil
  show ?case by (auto simp: login_free_def intro: exI [of _ "[]"])
next
  case (Cons r rs)
  from quietD [OF quiet_stdio_handle Cons.prems, of env api r] obtain cs
    where cs: "snd (stdio_handle env api r s) = s\<lparr>calls := calls s @ cs\<rparr>" "login_free cs"
    by blast
  with Cons.prems have "isAuthenticated (snd (stdio_handle env api r s))" by simp
  from Cons.IH [OF this] obtain ds
    where ds: "stdio_run env api rs (snd (stdio_handle env api r s))
                 = (snd (stdio_handle env api r s))
                     \<lparr>calls := calls (snd (stdio_handle env api r s)) @ ds\<rparr>"
      "login_free ds" by blast
  have "stdio_run env api (r # rs) s = s\<lparr>calls := calls s @ (cs @ ds)\<rparr>"
    using ds(1) cs(1) by simp
  moreover have "login_free (cs @ ds)" using cs(2) ds(2) by (simp add: login_free_def)
  ultimately show ?case by blast
qed

lemma snd_bind_ret: "snd (bind m (\<lambda>r. ret (g r)) s) = snd (m s)"
  by (simp add: bind_def split: prod.splits sum.splits)

lemma flag_kept:
  "isAuthenticated s \<Longrightarrow> isAuthenticated (snd (stdio_handle env api r s))"
  using quietD [OF quiet_stdio_handle, of s env api r] by auto

lemma flag_set_by_login:
  assumes "\<not> isAuthenticated s"
  shows "isAuthenticated (snd (stdio_handle env api r s)) \<longleftrightarrow>
           (\<exists>params. r = CallToolRequest params) \<and> \<not> isl (api (calls s) (login_call env))"
proof (cases r)
  case ListToolsRequest
  with assms show ?thesis by (simp add: list_tools_def)
next
  case (CallToolRequest params)
  show ?thesis
  proof (cases "api (calls s) (login_call env)")
    case (Inl m)
    from handleAuthentication_failed [where s = s and api = api and env = env and m = m, OF assms Inl]
    have "call_tool env api params s = (Inl (Error m), s\<lparr>calls := calls s @ [login_call env]\<rparr>)"
      by (rule call_tool_auth_failed)
    with assms Inl show ?thesis by (simp add: snd_bind_ret CallToolRequest)
  next
    case (Inr v)
    let ?s1 = "s\<lparr>calls := calls s @ [login_call env], isAuthenticated := True\<rparr>"
    let ?rest = "\<lambda>u. bind (lift (destructure ''req.params'' params ''name'')) (\<lambda>name.
     bind (lift (destructure ''req.params'' params ''arguments'')) (\<lambda>args.
     if name = JStr ''create-secret'' then stdio_create_secret api args
     else if name = JStr ''delete-secret'' then stdio_delete_secret api args
     else if name = JStr ''update-secret'' then stdio_update_secret api args
     else if name = JStr ''list-secrets'' then stdio_list_secrets api args
     else if name = JStr ''get-secret'' then stdio_get_secret api args
     else if name = JStr ''create-project'' then stdio_create_project api args
     else if name = JStr ''create-environment'' then stdio_create_environment api args
     else if name = JStr ''create-folder'' then stdio_create_folder api args
     else if name = JStr ''invite-members-to-project'' then stdio_invite_members_to_project api args
     else bind (lift (ToString name)) (\<lambda>tool.
          throw (Error (''Unrecognized tool name: '' @ tool)))))"
    have auth: "handleAuthentication env api s = (Inr (), ?s1)"
      using assms Inr by (simp add: handleAuthentication_def bind_sdk_await)
    have body: "call_tool_body env api params s = ?rest () ?s1"
      by (simp add: call_tool_body_def bind_handleAuthentication auth)
    have "quiet (?rest ())"
      by (intro quiet_bind quiet_lift quiet_if quiet_branches quiet_throw)
    from quietD [OF this, of ?s1] obtain cs
      where "snd (?rest () ?s1) = ?s1\<lparr>calls := calls ?s1 @ cs\<rparr>" by auto
    then have "isAuthenticated (snd (call_tool_body env api params s))"
      by (simp add: body)
    then have "isAuthenticated (snd (call_tool env api params s))"
      by (auto simp: call_tool_rethrow split: prod.splits sum.splits)
    with Inr show ?thesis by (simp add: snd_bind_ret CallToolRequest)
  qed
qed

text \<open>
  C8. In the stdio variant the flag \<^verbatim>\<open>isAuthenticated\<close> is monotonic. It starts false. A
  request served with the flag set leaves it set. A request served with the flag unset
  sets it exactly when the request is a tool call and the remote API accepts the login
  made for it. Hence, from a state with the flag set, whatever requests follow, the log
  of remote calls only grows by calls that are not a credential exchange, and the rest of
  the state is unchanged.
\<close>

theorem authentication_flag_monotonic:
  "\<not> isAuthenticated initial_state
   \<and> (isAuthenticated s \<longrightarrow> isAuthenticated (snd (stdio_handle env api r s)))
   \<and> (\<not> isAuthenticated s \<longrightarrow>
        (isAuthenticated (snd (stdio_handle env api r s)) \<longleftrightarrow>
           (\<exists>params. r = CallToolRequest params) \<and> \<not> isl (api (calls s) (login_call env))))
   \<and> (isAuthenticated s \<longrightarrow>
        (\<exists>cs. stdio_run env api rs s = s\<lparr>calls := calls s @ cs\<rparr> \<and> login_free cs))"
  using flag_kept [of s env api r] flag_set_by_login [of s env api r] quiet_run [of s env api rs]
  by (simp add: initial_state_def)

theorem authentication_flag_monotonic_witness:
  "isAuthenticated
     (snd (stdio_handle env0 api_ok (CallToolRequest (tool_params ''create-folder'' folder_args))
        initial_state))
   \<and> \<not> isAuthenticated
     (snd (stdio_handle env0 api_reject_login
        (CallToolRequest (tool_params ''create-folder'' folder_args)) initial_state))
   \<and> (\<exists>cs. stdio_run env0 api_ok
              [CallToolRequest (tool_params ''create-folder'' folder_args), ListToolsRequest,
               CallToolRequest (tool_params ''create-project'' (JObj typed_project_args))]
              logged_in
            = logged_in\<lparr>calls := calls logged_in @ cs\<rparr> \<and> login_free cs)"
proof -
  have 1: "\<not> isAuthenticated initial_state" by (simp add: initial_state_def)
  have 2: "isAuthenticated logged_in" by (simp add: logged_in_def)
  have 3: "\<not> isl (api_ok (calls initial_state) (login_call env0))" by (simp add: api_ok_def)
  have 4: "isl (api_reject_login (calls initial_state) (login_call env0))"
    by (simp add: api_reject_login_def login_call_def)
  show ?thesis
    using authentication_flag_monotonic
            [of initial_state env0 api_ok "CallToolRequest (tool_params ''create-folder'' folder_args)"]
      authentication_flag_monotonic
            [of initial_state env0 api_reject_login
                "CallToolRequest (tool_params ''create-folder'' folder_args)"]
      authentication_flag_monotonic
            [of logged_in env0 api_ok _
                "[CallToolRequest (tool_params ''create-folder'' folder_args), ListToolsRequest,
                  CallToolRequest (tool_params ''create-project'' (JObj typed_project_args))]"]
      1 2 3 4
    by simp
qed

subsection \<open>Missing required fields\<close>

lemma http_missing_required:
  assumes "t \<in> set tools" and "JStr f \<in> set (required_fields t)" and "map_of kvs f = None"
  shows "\<exists>issues. handleToolCall env api (params_for t (JObj kvs)) log
            = (Inl (ZodError issues), log) \<and> names_field f issues"
proof -
  from assms(1) consider
      "t = http_tool_create_secret" | "t = http_tool_delete_secret" | "t = http_tool_list_secrets"
    | "t = http_tool_get_secret" | "t = http_tool_create_project" | "t = http_tool_list_projects"
    | "t = http_tool_create_environment" | "t = http_tool_create_folder"
    | "t = http_tool_invite_members_to_project"
    by (auto simp: tools_def)
  then show ?thesis
  proof cases
    case 1
    with assms(2) have "f \<in> set (required_keys http_createSecretSchema)"
      by (auto simp: http_tool_create_secret_def required_fields_def http_createSecretSchema_def)
    from required_missing [OF this assms(3)] show ?thesis
      by (auto simp: 1 params_for_def http_tool_create_secret_def handleToolCall_dispatch http_invalid)
  next
    case 2
    with assms(2) have "f \<in> set (required_keys http_deleteSecretSchema)"
      by (auto simp: http_tool_delete_secret_def required_fields_def http_deleteSecretSchema_def)
    from required_missing [OF this assms(3)] show ?thesis
      by (auto simp: 2 params_for_def http_tool_delete_secret_def handleToolCall_dispatch http_invalid)
  next
    case 3
    with assms(2) have "f \<in> set (required_keys http_listSecretsSchema)"
      by (auto simp: http_tool_list_secrets_def required_fields_def http_listSecretsSchema_def)
    from required_missing [OF this assms(3)] show ?thesis
      by (auto simp: 3 params_for_def http_tool_list_secrets_def handleToolCall_dispatch http_invalid)
  next
    case 4
    with assms(2) have "f \<in> set (required_keys http_getSecretSchema)"
      by (auto simp: http_tool_get_secret_def required_fields_def http_getSecretSchema_def)
    from required_missing [OF this assms(3)] show ?thesis
      by (auto simp: 4 params_for_def http_tool_get_secret_def handleToolCall_dispatch http_invalid)
  next
    case 5
    with assms(2) have "f \<in> set (required_keys http_createProjectSchema)"
      by (auto simp: http_tool_create_project_def required_fields_def http_createProjectSchema_def)
    from required_missing [OF this assms(3)] show ?thesis
      by (auto simp: 5 params_for_def http_tool_create_project_def handleToolCall_dispatch http_invalid)
  next
    case 6
    with assms(2) show ?thesis
      by (simp add: http_tool_list_projects_def required_fields_def)
  next
    case 7
    with assms(2) have "f \<in> set (required_keys http_createEnvironmentSchema)"
      by (auto simp: http_tool_create_environment_def required_fields_def http_createEnvironmentSchema_def)
    from required_missing [OF this assms(3)] show ?thesis
      by (auto simp: 7 params_for_def http_tool_create_environment_def handleToolCall_dispatch http_invalid)
  next
    case 8
    with assms(2) have "f \<in> set (required_keys http_createFolderSchema)"
      by (auto simp: http_tool_create_folder_def required_fields_def http_createFolderSchema_def)
    from required_missing [OF this assms(3)] show ?thesis
      by (auto simp: 8 params_for_def http_tool_create_folder_def handleToolCall_dispatch http_invalid)
  next
    case 9
    with assms(2) have "f \<in> set (required_keys http_inviteMembersToProjectSchema)"
      by (auto simp: http_tool_invite_members_to_project_def required_fields_def
            http_inviteMembersToProjectSchema_def)
    from required_missing [OF this assms(3)] show ?thesis
      by (auto simp: 9 params_for_def http_tool_invite_members_to_project_def handleToolCall_dispatch http_invalid)
  qed
qed

lemma http_update_missing_required:
  assumes "f \<in> set (required_keys http_updateSecretSchema)" and "map_of kvs f = None"
  shows "\<exists>issues. handleToolCall env api (tool_params ''update-secret'' (JObj kvs)) log
            = (Inl (ZodError issues), log) \<and> names_field f issues"
  using required_missing [OF assms] by (auto simp: tool_params_dispatch http_invalid)

lemma stdio_body_missing_required:
  assumes "t \<in> set stdio_tools" and "JStr f \<in> set (required_fields t)" and "map_of kvs f = None"
    and "handleAuthentication env api s = (Inr (), s1)"
  shows "\<exists>issues. call_tool_body env api (params_for t (JObj kvs)) s
            = (Inl (ZodError issues), s1) \<and> names_field f issues"
proof -
  note dispatch = call_tool_body_dispatch [OF assms(4), unfolded tool_params_def]
  from assms(1) consider
      "t = stdio_createSecretSchema_capability" | "t = stdio_deleteSecretSchema_capability"
    | "t = stdio_updateSecretSchema_capability" | "t = stdio_listSecretsSchema_capability"
    | "t = stdio_getSecretSchema_capability" | "t = stdio_createProjectSchema_capability"
    | "t = stdio_createEnvironmentSchema_capability" | "t = stdio_createFolderSchema_capability"
    | "t = stdio_inviteMembersToProjectSchema_capability"
    by (auto simp: stdio_tools_def)
  then show ?thesis
  proof cases
    case 1
    with assms(2) have "f \<in> set (required_keys stdio_createSecretSchema)"
      by (auto simp: stdio_createSecretSchema_capability_def required_fields_def stdio_createSecretSchema_def)
    from required_missing [OF this assms(3)] show ?thesis
      by (auto simp: 1 params_for_def stdio_createSecretSchema_capability_def dispatch stdio_invalid)
  next
    case 2
    with assms(2) have "f \<in> set (required_keys stdio_deleteSecretSchema)"
      by (auto simp: stdio_deleteSecretSchema_capability_def required_fields_def stdio_deleteSecretSchema_def)
    from required_missing [OF this assms(3)] show ?thesis
      by (auto simp: 2 params_for_def stdio_deleteSecretSchema_capability_def dispatch stdio_invalid)
  next
    case 3
    with assms(2) have "f \<in> set (required_keys stdio_updateSecretSchema)"
      by (auto simp: stdio_updateSecretSchema_capability_def required_fields_def stdio_updateSecretSchema_def)
    from required_missing [OF this assms(3)] show ?thesis
      by (auto simp: 3 params_for_def stdio_updateSecretSchema_capability_def dispatch stdio_invalid)
  next
    case 4
    with assms(2) have "f \<in> set (required_keys stdio_listSecretsSchema)"
      by (auto simp: stdio_listSecretsSchema_capability_def required_fields_def stdio_listSecretsSchema_def)
    from required_missing [OF this assms(3)] show ?thesis
      by (auto simp: 4 params_for_def stdio_listSecretsSchema_capability_def dispatch stdio_invalid)
  next
    case 5
    with assms(2) have "f \<in> set (required_keys stdio_getSecretSchema)"
      by (auto simp: stdio_getSecretSchema_capability_def required_fields_def stdio_getSecretSchema_def)
    from required_missing [OF this assms(3)] show ?thesis
      by (auto simp: 5 params_for_def stdio_getSecretSchema_capability_def dispatch stdio_invalid)
  next
    case 6
    with assms(2) have "f \<in> set (required_keys stdio_createProjectSchema)"
      by (auto simp: stdio_createProjectSchema_capability_def required_fields_def stdio_createProjectSchema_def)
    from required_missing [OF this assms(3)] show ?thesis
      by (auto simp: 6 params_for_def stdio_createProjectSchema_capability_def dispatch stdio_invalid)
  next
    case 7
    with assms(2) have "f \<in> set (required_keys stdio_createEnvironmentSchema)"
      by (auto simp: stdio_createEnvironmentSchema_capability_def required_fields_def stdio_createEnvironmentSchema_def)
    from required_missing [OF this assms(3)] show ?thesis
      by (auto simp: 7 params_for_def stdio_createEnvironmentSchema_capability_def dispatch stdio_invalid)
  next
    case 8
    with assms(2) have "f \<in> set (required_keys stdio_createFolderSchema)"
      by (auto simp: stdio_createFolderSchema_capability_def required_fields_def stdio_createFolderSchema_def)
    from required_missing [OF this assms(3)] show ?thesis
      by (auto simp: 8 params_for_def stdio_createFolderSchema_capability_def dispatch stdio_invalid)
  next
    case 9
    with assms(2) have "f \<in> set (required_keys stdio_inviteMembersToProjectSchema)"
      by (auto simp: stdio_inviteMembersToProjectSchema_capability_def required_fields_def
            stdio_inviteMembersToProjectSchema_def)
    from required_missing [OF this assms(3)] show ?thesis
      by (auto simp: 9 params_for_def stdio_inviteMembersToProjectSchema_capability_def dispatch stdio_invalid)
  qed
qed

lemma sublist_prepend: "sublist x ys \<Longrightarrow> sublist x (ps @ ys)"
  unfolding sublist_def by (metis append.assoc)

lemma sublist_join: "x \<in> set xs \<Longrightarrow> sublist x (join sep xs)"
proof (induction sep xs rule: join.induct)
  case (1 sep)
  then show ?case by simp
next
  case (2 sep y)
  then show ?case by simp
next
  case (3 sep y z zs)
  show ?case
  proof (cases "x = y")
    case True
    then show ?thesis by (simp add: sublist_append_rightI)
  next
    case False
    with 3 have "sublist x (join sep (z # zs))" by simp
    then have "sublist x ((y @ sep) @ join sep (z # zs))" by (rule sublist_prepend)
    then show ?thesis by simp
  qed
qed

lemma message_names_field:
  assumes "names_field f issues"
  shows "sublist (f @ '': Required'') (invalid_arguments issues)"
proof -
  from assms obtain i where i: "i \<in> set issues" "issue_path i = [Key f]"
    "issue_message i = ''Required''" by (auto simp: names_field_def)
  then have "issue_line i = f @ '': Required''" by (simp add: issue_line_def)
  with i(1) have "f @ '': Required'' \<in> set (map issue_line issues)" by force
  then have "sublist (f @ '': Required'') (join '', '' (map issue_line issues))"
    by (rule sublist_join)
  then show ?thesis
    unfolding invalid_arguments_def by (rule sublist_prepend)
qed

lemma sublist_postpend: "sublist x ys \<Longrightarrow> sublist x (ys @ ss)"
  unfolding sublist_def by (metis append.assoc)

lemma sublist_transitive: "sublist a b \<Longrightarrow> sublist b c \<Longrightarrow> sublist a c"
  unfolding sublist_def by (metis append.assoc)

lemma sublist_wrap_members:
  assumes "x \<in> set partial"
  shows "sublist x (wrap_members opening closing gap ind partial)"
proof -
  from assms have ne: "partial \<noteq> []" by auto
  have gen: "sublist x (pre @ join sep partial @ post)" for pre sep post
    using sublist_join [OF assms, of sep] by (intro sublist_prepend sublist_postpend)
  have "sublist x (opening @ join '','' partial @ closing)"
    by (rule gen)
  moreover have "sublist x ((opening @ [nl] @ ind @ gap) @ join ('','' @ [nl] @ ind @ gap) partial
                    @ ([nl] @ ind @ closing))"
    by (rule gen)
  ultimately show ?thesis using ne by (simp add: wrap_members_def)
qed

lemma member_in_object:
  "(k, v) \<in> set kvs \<Longrightarrow> SerializeJSONProperty gap ind v = Some sv \<Longrightarrow>
   (QuoteJSONString k @ '':'' @ (if gap = [] then [] else '' '') @ sv)
     \<in> set (SerializeJSONObject gap ind kvs)"
  by (induction kvs) (auto split: option.splits)

lemma element_in_array:
  "x \<in> set xs \<Longrightarrow> SerializeJSONProperty gap ind x = Some sx \<Longrightarrow>
   sx \<in> set (SerializeJSONArray gap ind xs)"
  by (induction xs) (auto split: option.splits)

lemma issue_json_names_path:
  assumes "issue_path i = [Key f]"
  shows "\<exists>si. SerializeJSONProperty gap ind (issue_json i) = Some si \<and> sublist (QuoteJSONString f) si"
proof -
  let ?path = "wrap_members ''['' '']'' gap (ind @ gap) [QuoteJSONString f]"
  let ?member = "QuoteJSONString ''path'' @ '':'' @ (if gap = [] then [] else '' '') @ ?path"
  let ?kvs = "issue_data i @ [(''path'', JArr (map path_json (issue_path i))),
                              (''message'', JStr (issue_message i))]"
  have "SerializeJSONProperty gap (ind @ gap) (JArr (map path_json (issue_path i))) = Some ?path"
    by (simp add: assms)
  then have "?member \<in> set (SerializeJSONObject gap (ind @ gap) ?kvs)"
    by (intro member_in_object [where v = "JArr (map path_json (issue_path i))"]) simp_all
  then have "sublist ?member (wrap_members ''{'' ''}'' gap ind (SerializeJSONObject gap (ind @ gap) ?kvs))"
    by (rule sublist_wrap_members)
  moreover have "sublist (QuoteJSONString f) ?path"
    by (rule sublist_wrap_members) simp
  then have "sublist (QuoteJSONString f) ?member"
    by (intro sublist_prepend)
  ultimately have "sublist (QuoteJSONString f)
      (wrap_members ''{'' ''}'' gap ind (SerializeJSONObject gap (ind @ gap) ?kvs))"
    by (rule sublist_transitive [rotated])
  then show ?thesis by (simp add: issue_json_def)
qed

lemma zod_message_names_field:
  assumes "names_field f issues"
  shows "sublist (QuoteJSONString f) (error_message (ZodError issues))"
proof -
  from assms obtain i where i: "i \<in> set issues" "issue_path i = [Key f]"
    by (auto simp: names_field_def)
  let ?gap = "replicate (min 2 10) CHR '' ''"
  from issue_json_names_path [OF i(2), of ?gap "[] @ ?gap"] obtain si
    where si: "SerializeJSONProperty ?gap ([] @ ?gap) (issue_json i) = Some si"
      "sublist (QuoteJSONString f) si" by blast
  from i(1) have "issue_json i \<in> set (map issue_json issues)" by simp
  from element_in_array [OF this si(1)]
  have "sublist si (wrap_members ''['' '']'' ?gap []
          (SerializeJSONArray ?gap ([] @ ?gap) (map issue_json issues)))"
    by (rule sublist_wrap_members)
  with si(2) have "sublist (QuoteJSONString f) (wrap_members ''['' '']'' ?gap []
          (SerializeJSONArray ?gap ([] @ ?gap) (map issue_json issues)))"
    by (rule sublist_transitive)
  then show ?thesis by (simp add: JSON_stringify_def)
qed

lemma stdio_missing_required:
  assumes "t \<in> set stdio_tools" and "JStr f \<in> set (required_fields t)" and "map_of kvs f = None"
    and "authentication_ok env api s"
  shows "\<exists>issues. call_tool env api (params_for t (JObj kvs)) s
            = (Inl (Error (invalid_arguments issues)), authenticated_state env s)
          \<and> names_field f issues"
  using stdio_body_missing_required [OF assms(1-3) handleAuthentication_ok [OF assms(4)]]
  by (auto simp: call_tool_rethrow rethrow_def)

lemma stdio_login_rejected:
  assumes "\<not> authentication_ok env api s"
  shows "\<exists>m. api (calls s) (login_call env) = Inl m
           \<and> call_tool env api params s = (Inl (Error m), s\<lparr>calls := calls s @ [login_call env]\<rparr>)"
proof -
  from assms have na: "\<not> isAuthenticated s" and "isl (api (calls s) (login_call env))"
    by (simp_all add: authentication_ok_def)
  then obtain m where m: "api (calls s) (login_call env) = Inl m"
    by (cases "api (calls s) (login_call env)") simp_all
  from handleAuthentication_failed [where s = s and api = api and env = env and m = m, OF na m]
  have "call_tool env api params s = (Inl (Error m), s\<lparr>calls := calls s @ [login_call env]\<rparr>)"
    by (rule call_tool_auth_failed)
  with m show ?thesis by blast
qed

text \<open>
  C1, as the code has it. A tool call whose argument object lacks a field that the tool's
  catalog entry lists as required fails with a validation error that names the field. In
  the HTTP variant (also for \<^verbatim>\<open>update-secret\<close>, which has no catalog entry) the
  \<^verbatim>\<open>ZodError\<close> is thrown before anything else: it has an issue for the field, its message
  contains the quoted field name, and no remote call is made. In the stdio variant the
  handler authenticates first: when the login is rejected the call fails with the error
  of the login; otherwise the call fails with \<^verbatim>\<open>Invalid arguments: ...\<close>, a message that
  contains \<^verbatim>\<open>field: Required\<close>, and the only remote call made for the request is the
  login, made when the process had not authenticated before. No secret-management
  operation is performed in either variant.
\<close>

theorem missing_required_field_rejected:
  assumes "map_of kvs f = None"
  shows "(t \<in> set tools \<and> JStr f \<in> set (required_fields t) \<longrightarrow>
            (\<exists>issues. handleToolCall env api (params_for t (JObj kvs)) log
                         = (Inl (ZodError issues), log)
                \<and> names_field f issues
                \<and> sublist (QuoteJSONString f) (error_message (ZodError issues))))
       \<and> (f \<in> set (required_keys http_updateSecretSchema) \<longrightarrow>
            (\<exists>issues. handleToolCall env api (tool_params ''update-secret'' (JObj kvs)) log
                         = (Inl (ZodError issues), log)
                \<and> names_field f issues
                \<and> sublist (QuoteJSONString f) (error_message (ZodError issues))))
       \<and> (t' \<in> set stdio_tools \<and> JStr f \<in> set (required_fields t')
            \<and> authentication_ok env api s \<longrightarrow>
            (\<exists>issues. call_tool env api (params_for t' (JObj kvs)) s
                         = (Inl (Error (invalid_arguments issues)), authenticated_state env s)
                \<and> names_field f issues
                \<and> sublist (f @ '': Required'') (invalid_arguments issues)))
       \<and> (\<not> authentication_ok env api s \<longrightarrow>
            (\<exists>m. api (calls s) (login_call env) = Inl m
               \<and> call_tool env api params s
                   = (Inl (Error m), s\<lparr>calls := calls s @ [login_call env]\<rparr>)))"
  using http_missing_required [OF _ _ assms, of t env api log]
    http_update_missing_required [OF _ assms, of env api log]
    stdio_missing_required [OF _ _ assms, of t' env api s]
    stdio_login_rejected [of env api s params]
    zod_message_names_field [of f] message_names_field [of f]
  by blast

theorem missing_required_field_rejected_witness:
  "(\<exists>issues. handleToolCall env0 api_ok (params_for http_tool_create_secret (JObj [])) []
                = (Inl (ZodError issues), [])
       \<and> names_field ''secretName'' issues
       \<and> sublist (QuoteJSONString ''secretName'') (error_message (ZodError issues)))
   \<and> (\<exists>issues. call_tool env0 api_ok (params_for stdio_createSecretSchema_capability (JObj []))
                  logged_in
                = (Inl (Error (invalid_arguments issues)), logged_in)
       \<and> names_field ''secretName'' issues
       \<and> sublist ''secretName: Required'' (invalid_arguments issues))
   \<and> (\<exists>m. call_tool env0 api_reject_login
              (params_for stdio_createSecretSchema_capability (JObj [])) initial_state
            = (Inl (Error m), \<lparr>isAuthenticated = False, calls = [login_call env0]\<rparr>))"
proof -
  have 0: "map_of [] ''secretName'' = (None :: json option)" by simp
  have 1: "http_tool_create_secret \<in> set tools" by (simp add: tools_def)
  have 2: "JStr ''secretName'' \<in> set (required_fields http_tool_create_secret)"
    by (simp add: required_fields_def http_tool_create_secret_def)
  have 3: "stdio_createSecretSchema_capability \<in> set stdio_tools" by (simp add: stdio_tools_def)
  have 4: "JStr ''secretName'' \<in> set (required_fields stdio_createSecretSchema_capability)"
    by (simp add: required_fields_def stdio_createSecretSchema_capability_def)
  have 5: "authentication_ok env0 api_ok logged_in"
    by (simp add: authentication_ok_def logged_in_def)
  have 6: "\<not> authentication_ok env0 api_reject_login initial_state"
    by (simp add: authentication_ok_def initial_state_def api_reject_login_def login_call_def)
  have 7: "authenticated_state env0 logged_in = logged_in"
    by (simp add: authenticated_state_def logged_in_def)
  show ?thesis
    using missing_required_field_rejected [OF 0, of http_tool_create_secret env0 api_ok "[]"
        stdio_createSecretSchema_capability logged_in] 1 2 3 4 5 7
      missing_required_field_rejected [OF 0, of _ env0 api_reject_login _ _ initial_state
        "params_for stdio_createSecretSchema_capability (JObj [])"] 6
    by (simp add: initial_state_def) blast
qed

text \<open>
  C1 as stated fails in the stdio variant: a \<^verbatim>\<open>create-secret\<close> call with an empty argument
  object, served by a process that has not authenticated yet, performs the credential
  exchange before the arguments are rejected.
\<close>

theorem login_before_validation_counterexample:
  "call_tool env0 api_ok (tool_params ''create-secret'' (JObj [])) initial_state =
     (Inl (Error ''Invalid arguments: projectId: Required, environmentSlug: Required, secretName: Required''),
      \<lparr>isAuthenticated = True, calls = [login_call env0]\<rparr>)"
proof -
  have auth: "authentication_ok env0 api_ok initial_state"
    by (simp add: authentication_ok_def api_ok_def)
  have "zod_parse stdio_createSecretSchema (JObj []) =
          Inl (ZodError [invalid_type ''string'' JUndefined [Key ''projectId''],
                         invalid_type ''string'' JUndefined [Key ''environmentSlug''],
                         invalid_type ''string'' JUndefined [Key ''secretName'']])"
    by (simp add: zod_parse_def stdio_createSecretSchema_def)
  then have "call_tool env0 api_ok (tool_params ''create-secret'' (JObj [])) initial_state =
     (Inl (Error ''Invalid arguments: projectId: Required, environmentSlug: Required, secretName: Required''),
      authenticated_state env0 initial_state)"
    by (simp add: call_tool_rethrow call_tool_body_dispatch [OF handleAuthentication_ok [OF auth]]
          stdio_invalid rethrow_def invalid_arguments_def issue_line_def)
  then show ?thesis
    by (simp add: authenticated_state_def initial_state_def)
qed

subsection \<open>From the remote response to the text block\<close>






lemma last_call [simp]:
  "butlast (log @ [a, c]) = log @ [a]" "last (log @ [a, c]) = c"
  by (simp_all add: butlast_append)









lemma butlast_calls [simp]: "butlast (calls s @ [c]) = calls s"
  by simp





















end
